(* ===== verification/Prelude.thy ===== *)
theory Prelude
  imports Main "HOL-Library.List_Lexorder" "HOL-Library.Char_ord" "HOL-Library.Product_Lexorder"
begin

text \<open>
  Shared vocabulary of the development: the Python exceptions the modelled code raises, the
  result type of a fallible operation (\<open>Inl\<close> the exception), sequencing of fallible steps,
  Python's \<open>str\<close> of integers and tuples (used to build the default labels), and the
  list lemmas the component theories share.  The collection \<open>spb_eval\<close> gathers the
  equations that evaluate the model on concrete arguments.
\<close>

named_theorems spb_eval "equations that evaluate the plotting model on concrete arguments"

section \<open>Exceptions and results\<close>

text \<open>
  One constructor per raise site class of the sources.  The four range errors are all
  \<open>ValueError\<close> in \<open>src/spb/utils.py\<close> but with distinct messages; the spec names them
  apart, and so does the model.
\<close>

datatype py_error =
    TooManyFreeSymbols
  | TooManyRanges
  | DuplicateRangeSymbol
  | IncompatibleRanges
  | MalformedArguments
  | IndexError
  | TypeError
  | ValueError
  | AttributeError
  | NotImplementedError
  | UnboundLocalError
  | ImportError
  | NameError
  | KeyError

type_synonym 'a result = "py_error + 'a"

definition rbind :: "'a result \<Rightarrow> ('a \<Rightarrow> 'b result) \<Rightarrow> 'b result" where
  "rbind r f = (case r of Inl e \<Rightarrow> Inl e | Inr a \<Rightarrow> f a)"

lemma rbind_Inl [simp]: "rbind (Inl e) f = Inl e"
  by (simp add: rbind_def)

lemma rbind_Inr [simp]: "rbind (Inr a) f = f a"
  by (simp add: rbind_def)

lemma rbind_eq_Inr_iff: "rbind r f = Inr b \<longleftrightarrow> (\<exists>a. r = Inr a \<and> f a = Inr b)"
  by (cases r) (simp_all add: rbind_def)

lemma rbind_eq_Inl_iff:
  "rbind r f = Inl e \<longleftrightarrow> r = Inl e \<or> (\<exists>a. r = Inr a \<and> f a = Inl e)"
  by (cases r) (simp_all add: rbind_def)

text \<open>A loop whose body may raise: \<open>for x in xs: acc = f(acc, x)\<close>, stopping at the first raise.\<close>

fun rfold :: "('a \<Rightarrow> 'b \<Rightarrow> 'b result) \<Rightarrow> 'a list \<Rightarrow> 'b \<Rightarrow> 'b result" where
  "rfold f [] b = Inr b"
| "rfold f (x # xs) b = rbind (f x b) (rfold f xs)"

lemma rfold_append: "rfold f (xs @ ys) b = rbind (rfold f xs b) (rfold f ys)"
  by (induction xs arbitrary: b) (auto simp: rbind_def split: sum.splits)

text \<open>The loop \<open>for x in xs: acc += g(x)\<close>, where \<open>g\<close> may raise.\<close>

text \<open>A step that raises on every state makes the whole loop raise.\<close>

lemma rfold_raises:
  assumes "x \<in> set xs" and "\<And>b. \<exists>e. f x b = Inl e"
  shows "\<exists>e. rfold f xs b = Inl e"
  using assms(1)
proof (induction xs arbitrary: b)
  case (Cons y ys)
  show ?case
  proof (cases "y = x")
    case True
    with assms(2) obtain e where "f y b = Inl e" by blast
    then show ?thesis by simp
  next
    case False
    with Cons.prems have "x \<in> set ys" by simp
    then show ?thesis using Cons.IH by (cases "f y b") simp_all
  qed
qed simp

lemma rfold_concat:
  "(\<And>x. x \<in> set xs \<Longrightarrow> g x = Inr (f x)) \<Longrightarrow>
   rfold (\<lambda>x acc. rbind (g x) (\<lambda>ys. Inr (acc @ ys))) xs acc = Inr (acc @ concat (map f xs))"
  by (induction xs arbitrary: acc) simp_all

lemma rfold_concat_Inl:
  "rfold (\<lambda>x acc. rbind (g x) (\<lambda>ys. Inr (acc @ ys))) xs acc = Inl err \<Longrightarrow> \<exists>x\<in>set xs. g x = Inl err"
  by (induction xs arbitrary: acc) (auto simp: rbind_def split: sum.splits)

section \<open>Python's str of integers and tuples\<close>

fun nat_str :: "nat \<Rightarrow> string" where
  "nat_str n = (if n < 10 then [char_of (48 + n)] else nat_str (n div 10) @ [char_of (48 + n mod 10)])"

declare nat_str.simps [simp del]

definition int_str :: "int \<Rightarrow> string" where
  "int_str i = (if i < 0 then CHR ''-'' # nat_str (nat (- i)) else nat_str (nat i))"

lemma nat_str_nonempty [simp]: "nat_str n \<noteq> []"
  by (subst nat_str.simps) simp

fun sep_join :: "string \<Rightarrow> string list \<Rightarrow> string" where
  "sep_join s [] = []"
| "sep_join s [x] = x"
| "sep_join s (x # y # zs) = x @ s @ sep_join s (y # zs)"

text \<open>Python's \<open>str\<close> of a tuple whose items print as \<open>xs\<close>: \<open>()\<close>, \<open>(a,)\<close>, \<open>(a, b)\<close>.\<close>

definition tuple_str :: "string list \<Rightarrow> string" where
  "tuple_str xs = (case xs of [x] \<Rightarrow> ''('' @ x @ '',)'' | _ \<Rightarrow> ''('' @ sep_join '', '' xs @ '')'')"

lemma tuple_str_nonempty [simp]: "tuple_str xs \<noteq> []"
  by (simp add: tuple_str_def split: list.splits)

section \<open>Lists\<close>

text \<open>Python's \<open>xs[:-n]\<close> for \<open>0 < n\<close>: all but the last \<open>n\<close> items.\<close>

definition drop_last :: "nat \<Rightarrow> 'a list \<Rightarrow> 'a list" where
  "drop_last n xs = take (length xs - n) xs"

lemma drop_last_0 [simp]: "drop_last 0 xs = xs"
  by (simp add: drop_last_def)

lemma length_drop_last [simp]: "length (drop_last n xs) = length xs - n"
  by (simp add: drop_last_def)

lemma drop_last_Nil_iff: "drop_last n xs = [] \<longleftrightarrow> length xs \<le> n"
  by (cases xs) (auto simp: drop_last_def)

lemma filter_empty_iff_all: "filter P xs = [] \<longleftrightarrow> (\<forall>x\<in>set xs. \<not> P x)"
  by (simp add: filter_empty_conv)

lemma concat_map_const_length:
  "(\<forall>x\<in>set xs. length (f x) = k) \<Longrightarrow> length (concat (map f xs)) = k * length xs"
  by (induction xs) auto

lemma length_filter_partition:
  "\<forall>a\<in>set xs. P a \<or> Q a \<Longrightarrow> \<forall>a. P a \<longrightarrow> \<not> Q a \<Longrightarrow>
   length (filter P xs) + length (filter Q xs) = length xs"
  by (induction xs) auto

lemma length_filter_less_iff: "length (filter P xs) < length xs \<longleftrightarrow> \<not> list_all P xs"
  by (induction xs) (auto simp: le_imp_less_Suc length_filter_le)

end
