(* ===== verification/Expressions.thy ===== *)
theory Expressions
  imports Prelude
begin

text \<open>
  The SymPy side of the interface.  The plotting code treats an expression as a black box
  with three capabilities (spec, section 3): its free symbols, whether it is a number, and its
  string form.  The model gives expressions a small concrete syntax with exactly these three
  operations, so that the argument-handling code of \<open>src/spb/utils.py\<close> can be run on
  concrete calls.  Symbols are named symbols or \<open>Dummy\<close> symbols, the latter numbered so
  that the freshness SymPy gets from object identity becomes a fact about numbers.  The
  arguments a plotting function receives after \<open>_plot_sympify\<close> are expressions,
  strings and (nested) SymPy \<open>Tuple\<close>s: type \<open>parg\<close>.
\<close>

datatype sym = Sym string | Dum nat

datatype expr =
    Var sym
  | Num int int   \<comment> \<open>the number \<open>re + im*I\<close>\<close>
  | Fn string "expr list"
  | Rel string expr expr

datatype parg = PExpr expr | PStr string | PTup "parg list"

type_synonym range = "parg \<times> parg \<times> parg"

section \<open>Symbols are linearly ordered\<close>

text \<open>
  Python iterates over a \<open>set\<close> of symbols in an order it does not specify; the model
  iterates in ascending order of this linear order, named symbols by name, then dummies.
  It is a choice of the model, not SymPy's canonical order: SymPy's \<open>ordered\<close> and
  \<open>_sort_gens\<close> are parameters where the code calls them.
\<close>

fun sym_key :: "sym \<Rightarrow> nat \<times> string \<times> nat" where
  "sym_key (Sym s) = (0, s, 0)"
| "sym_key (Dum n) = (1, [], n)"

lemma sym_key_inj: "sym_key a = sym_key b \<Longrightarrow> a = b"
  by (cases a; cases b) auto

instantiation sym :: linorder
begin

definition less_eq_sym :: "sym \<Rightarrow> sym \<Rightarrow> bool" where
  "less_eq_sym a b \<longleftrightarrow> sym_key a \<le> sym_key b"

definition less_sym :: "sym \<Rightarrow> sym \<Rightarrow> bool" where
  "less_sym a b \<longleftrightarrow> sym_key a < sym_key b"

instance
proof
  fix a b c :: sym
  show "a < b \<longleftrightarrow> a \<le> b \<and> \<not> b \<le> a"
    by (simp add: less_eq_sym_def less_sym_def less_le_not_le)
  show "a \<le> a" by (simp add: less_eq_sym_def)
  show "a \<le> b \<Longrightarrow> b \<le> c \<Longrightarrow> a \<le> c"
    by (simp add: less_eq_sym_def)
  show "a \<le> b \<Longrightarrow> b \<le> a \<Longrightarrow> a = b"
    by (simp add: less_eq_sym_def sym_key_inj)
  show "a \<le> b \<or> b \<le> a"
    by (simp add: less_eq_sym_def linear)
qed

end

section \<open>The expression interface\<close>

fun free_syms :: "expr \<Rightarrow> sym set" where
  "free_syms (Var s) = {s}"
| "free_syms (Num a b) = {}"
| "free_syms (Fn f es) = (\<Union>e\<in>set es. free_syms e)"
| "free_syms (Rel r a b) = free_syms a \<union> free_syms b"

text \<open>SymPy's \<open>is_number\<close>: no free symbols (relations are not numbers).\<close>

fun expr_is_number :: "expr \<Rightarrow> bool" where
  "expr_is_number (Var s) = False"
| "expr_is_number (Num a b) = True"
| "expr_is_number (Fn f es) = list_all expr_is_number es"
| "expr_is_number (Rel r a b) = False"

fun sym_str :: "sym \<Rightarrow> string" where
  "sym_str (Sym s) = s"
| "sym_str (Dum n) = ''_Dummy_'' @ nat_str n"

definition num_str :: "int \<Rightarrow> int \<Rightarrow> string" where
  "num_str a b =
     (if b = 0 then int_str a
      else if a = 0 then int_str b @ ''*I''
      else int_str a @ '' + '' @ int_str b @ ''*I'')"

fun expr_str :: "expr \<Rightarrow> string" where
  "expr_str (Var s) = sym_str s"
| "expr_str (Num a b) = num_str a b"
| "expr_str (Fn f es) = f @ ''('' @ sep_join '', '' (map expr_str es) @ '')''"
| "expr_str (Rel r a b) = expr_str a @ '' '' @ r @ '' '' @ expr_str b"

text \<open>
  \<open>_plot_sympify\<close> (\<open>src/spb/utils.py\<close> lines 218--237) on the tuple of positional
  arguments: lists and tuples become \<open>Tuple\<close>s of their converted items, strings stay
  Python strings, everything else goes through \<open>sympify\<close> (Python integers become
  numbers).  The argument values a caller passes are \<open>pyval\<close>.
\<close>

datatype pyval = PyStr string | PyInt int | PyExpr expr | PySeq "pyval list"

fun sympify_item :: "pyval \<Rightarrow> parg" where
  "sympify_item (PyStr s) = PStr s"
| "sympify_item (PyInt n) = PExpr (Num n 0)"
| "sympify_item (PyExpr e) = PExpr e"
| "sympify_item (PySeq vs) = PTup (map sympify_item vs)"

definition plot_sympify :: "pyval list \<Rightarrow> parg list" where
  "plot_sympify args = map sympify_item args"

text \<open>Reading a converted argument back as a Python value.\<close>

fun parg_pyval :: "parg \<Rightarrow> pyval" where
  "parg_pyval (PStr s) = PyStr s"
| "parg_pyval (PExpr e) = PyExpr e"
| "parg_pyval (PTup ps) = PySeq (map parg_pyval ps)"

text \<open>What \<open>sympify\<close> changes: integers become numbers, nothing else.\<close>

fun sympified :: "pyval \<Rightarrow> pyval" where
  "sympified (PyInt n) = PyExpr (Num n 0)"
| "sympified (PySeq vs) = PySeq (map sympified vs)"
| "sympified v = v"

text \<open>
  \<open>get_lambda(expr)\<close> of \<open>src/spb/utils.py\<close> (lines 11--28): the signature is the free
  symbols listed by SymPy's \<open>ordered\<close> (which sorts dummies before symbols), passed with
  the expression to \<open>lambdify\<close>; both are SymPy functions and parameters here.
\<close>

definition get_lambda :: "(sym set \<Rightarrow> sym list) \<Rightarrow> (sym list \<Rightarrow> expr \<Rightarrow> 'f) \<Rightarrow> expr \<Rightarrow> sym list \<times> 'f" where
  "get_lambda ordered lambdify e = (let sig = ordered (free_syms e) in (sig, lambdify sig e))"

lemma finite_free_syms [simp]: "finite (free_syms e)"
  by (induction e) auto

lemma expr_is_number_free_syms: "expr_is_number e \<Longrightarrow> free_syms e = {}"
  by (induction e) (auto simp: list_all_iff)

section \<open>Plot arguments\<close>

text \<open>
  \<open>isinstance(a, (Expr, Relational, BooleanFunction))\<close> of \<open>src/spb/utils.py\<close>: the
  argument is a plottable expression, not a string and not a \<open>Tuple\<close>.
\<close>

fun is_plot_expr :: "parg \<Rightarrow> bool" where
  "is_plot_expr (PExpr e) = True"
| "is_plot_expr (PStr s) = False"
| "is_plot_expr (PTup xs) = False"

fun is_str :: "parg \<Rightarrow> bool" where
  "is_str (PStr s) = True"
| "is_str _ = False"

text \<open>
  \<open>r.args[i].is_number\<close> on an item of a \<open>Tuple\<close>: a \<open>Tuple\<close> is a \<open>Basic\<close>, whose
  \<open>is_number\<close> is false.  (A Python \<open>str\<close> item has no \<open>is_number\<close> and raises
  \<open>AttributeError\<close>; the model answers False there, see the root theory.)
\<close>

fun parg_is_number :: "parg \<Rightarrow> bool" where
  "parg_is_number (PExpr e) = expr_is_number e"
| "parg_is_number _ = False"

text \<open>\<open>_is_range\<close>: a 3-item \<open>Tuple\<close> whose last two items are numbers.\<close>

fun is_range :: "parg \<Rightarrow> bool" where
  "is_range (PTup [s, a, b]) = (parg_is_number a \<and> parg_is_number b)"
| "is_range _ = False"

fun as_range :: "parg \<Rightarrow> range" where
  "as_range (PTup [s, a, b]) = (s, a, b)"
| "as_range p = (p, p, p)"

definition range_parg :: "range \<Rightarrow> parg" where
  "range_parg r = (case r of (s, a, b) \<Rightarrow> PTup [s, a, b])"

lemma as_range_range_parg [simp]: "as_range (range_parg r) = r"
  by (cases r) (simp add: range_parg_def)

lemma range_parg_as_range: "is_range p \<Longrightarrow> range_parg (as_range p) = p"
  by (cases p rule: is_range.cases) (simp_all add: range_parg_def)

text \<open>\<open>free_symbols\<close> of an argument: a \<open>Tuple\<close>'s is the union of its items'.\<close>

fun parg_free_syms :: "parg \<Rightarrow> sym set" where
  "parg_free_syms (PExpr e) = free_syms e"
| "parg_free_syms (PStr s) = {}"
| "parg_free_syms (PTup xs) = (\<Union>x\<in>set xs. parg_free_syms x)"

lemma finite_parg_free_syms [simp]: "finite (parg_free_syms p)"
  by (induction p) auto

text \<open>\<open>str\<close> of an argument; a string inside a tuple prints with its quotes.\<close>

fun parg_str :: "parg \<Rightarrow> string" where
  "parg_str (PExpr e) = expr_str e"
| "parg_str (PStr s) = [CHR 0x27] @ s @ [CHR 0x27]"
| "parg_str (PTup xs) = tuple_str (map parg_str xs)"

text \<open>\<open>Tuple(symbol, -10, 10)\<close>: the default range of \<open>_create_ranges\<close>.\<close>

definition default_range :: "sym \<Rightarrow> range" where
  "default_range s = (PExpr (Var s), PExpr (Num (-10) 0), PExpr (Num 10 0))"

definition range_sym :: "range \<Rightarrow> parg" where
  "range_sym r = fst r"

lemma range_sym_default [simp]: "range_sym (default_range s) = PExpr (Var s)"
  by (simp add: default_range_def range_sym_def)

lemma is_range_default [simp]: "is_range (range_parg (default_range s))"
  by (simp add: default_range_def range_parg_def)

lemma is_range_not_str: "is_range a \<Longrightarrow> \<not> is_str a"
  by (cases a rule: is_range.cases) auto

text \<open>
  \<open>_plot_sympify\<close> keeps the nesting and every string: reading the result back gives the
  arguments with only their integers sympified.
\<close>

lemma parg_pyval_sympify_item: "parg_pyval (sympify_item v) = sympified v"
  by (induction v) simp_all

lemma plot_sympify_roundtrip: "map parg_pyval (plot_sympify args) = map sympified args"
  by (simp add: plot_sympify_def parg_pyval_sympify_item)

end
