(* ===== verification/Ranges.thy ===== *)
theory Ranges
  imports Expressions
begin

text \<open>
  The range resolver, \<open>_create_ranges(free_symbols, ranges, npar)\<close> of
  \<open>src/spb/utils.py\<close> (lines 31--92).  Python's list \<open>ranges\<close> is mutated in place and
  returned; the model returns the new list.  Every \<open>Dummy()\<close> the code creates is a fresh
  symbol: the model numbers them from a counter \<open>d\<close> that the caller threads through, and
  returns the counter after the last dummy.  The set difference of line 72 is iterated in
  ascending symbol order.
\<close>

section \<open>Definitions\<close>

text \<open>The symbols the user's ranges name (\<open>rfs\<close>, line 67).\<close>

definition range_syms :: "range list \<Rightarrow> parg set" where
  "range_syms rs = set (map range_sym rs)"

text \<open>Free symbols without a range, in iteration order (line 72).\<close>

definition missing_syms :: "sym set \<Rightarrow> range list \<Rightarrow> sym list" where
  "missing_syms fs rs = filter (\<lambda>s. PExpr (Var s) \<notin> range_syms rs) (sorted_list_of_set fs)"

text \<open>
  Lines 71--79: when fewer than \<open>npar\<close> ranges are given, append a default range for
  each missing free symbol, then as many dummy ranges as \<open>npar - len(ranges)\<close> asks
  for, that count taken after the first loop (a negative count is Python's empty range).
\<close>

definition fill_ranges :: "sym set \<Rightarrow> range list \<Rightarrow> nat \<Rightarrow> nat \<Rightarrow> range list \<times> nat" where
  "fill_ranges fs rs npar d =
     (if length rs < npar then
        let r1 = rs @ map default_range (missing_syms fs rs);
            k = npar - length r1
        in (r1 @ map (\<lambda>i. default_range (Dum (d + i))) [0..<k], d + k)
      else (rs, d))"

definition create_ranges :: "sym set \<Rightarrow> range list \<Rightarrow> nat \<Rightarrow> nat \<Rightarrow> (range list \<times> nat) result" where
  "create_ranges fs rs npar d =
     (if npar < card fs then Inl TooManyFreeSymbols
      else if npar < length rs then Inl TooManyRanges
      else if card (range_syms rs) \<noteq> length rs then Inl DuplicateRangeSymbol
      else
        (case fill_ranges fs rs npar d of (rs', d') \<Rightarrow>
          if card fs = npar \<and> \<not> (\<forall>s\<in>fs. PExpr (Var s) \<in> range_syms rs')
          then Inl IncompatibleRanges
          else Inr (rs', d')))"

section \<open>Lemmas on the parts\<close>

lemma inj_PExpr_Var: "inj (\<lambda>s. PExpr (Var s))"
  by (rule injI) simp

lemma range_syms_append [simp]: "range_syms (xs @ ys) = range_syms xs \<union> range_syms ys"
  by (simp add: range_syms_def)

lemma range_syms_defaults [simp]:
  "range_syms (map default_range ss) = (\<lambda>s. PExpr (Var s)) ` set ss"
  by (auto simp: range_syms_def)

lemma card_range_syms_eq_iff: "card (range_syms rs) = length rs \<longleftrightarrow> distinct (map range_sym rs)"
  unfolding range_syms_def
  by (metis distinct_card card_distinct length_map)

lemma set_missing_syms:
  "finite fs \<Longrightarrow> set (missing_syms fs rs) = {s\<in>fs. PExpr (Var s) \<notin> range_syms rs}"
  by (auto simp: missing_syms_def)

lemma distinct_missing_syms: "distinct (missing_syms fs rs)"
  by (simp add: missing_syms_def)

lemma length_missing_syms:
  "finite fs \<Longrightarrow> length (missing_syms fs rs) = card {s\<in>fs. PExpr (Var s) \<notin> range_syms rs}"
  by (metis distinct_card distinct_missing_syms set_missing_syms)

lemma fill_ranges_eq:
  "length rs < npar \<Longrightarrow>
   fill_ranges fs rs npar d =
     (rs @ map default_range (missing_syms fs rs)
         @ map (\<lambda>i. default_range (Dum (d + i))) [0..<npar - (length rs + length (missing_syms fs rs))],
      d + (npar - (length rs + length (missing_syms fs rs))))"
  by (simp add: fill_ranges_def Let_def)

lemma fill_ranges_noop: "\<not> length rs < npar \<Longrightarrow> fill_ranges fs rs npar d = (rs, d)"
  by (simp add: fill_ranges_def)

text \<open>After filling, every free symbol has a range.\<close>

lemma fill_ranges_covers:
  assumes "finite fs" "length rs < npar"
  shows "\<forall>s\<in>fs. PExpr (Var s) \<in> range_syms (fst (fill_ranges fs rs npar d))"
  using assms by (auto simp: fill_ranges_eq set_missing_syms)

lemma create_ranges_Inr_fill:
  "create_ranges fs rs npar d = Inr r \<Longrightarrow> r = fill_ranges fs rs npar d"
  by (auto simp: create_ranges_def split: prod.splits if_splits)

lemma create_ranges_Inr_fst:
  "create_ranges fs rs npar d = Inr (rs', d') \<Longrightarrow> rs' = fst (fill_ranges fs rs npar d)"
  by (drule create_ranges_Inr_fill) (metis fst_conv)

lemma create_ranges_Inr_guards:
  "create_ranges fs rs npar d = Inr r \<Longrightarrow>
     card fs \<le> npar \<and> length rs \<le> npar \<and> distinct (map range_sym rs)"
  by (auto simp: create_ranges_def card_range_syms_eq_iff split: prod.splits if_splits)

lemma length_fill_ranges:
  assumes "finite fs"
  shows "length (fst (fill_ranges fs rs npar d)) =
    (if length rs < npar then max npar (length rs + card {s\<in>fs. PExpr (Var s) \<notin> range_syms rs})
     else length rs)"
  using assms by (simp add: fill_ranges_def Let_def length_missing_syms max_def)

text \<open>
  When the user's ranges are distinct and name only free symbols, they and the missing
  free symbols together are exactly the free symbols.
\<close>

lemma card_covered_missing:
  assumes "finite fs" "range_syms rs \<subseteq> (\<lambda>s. PExpr (Var s)) ` fs" "distinct (map range_sym rs)"
  shows "length rs + card {s\<in>fs. PExpr (Var s) \<notin> range_syms rs} = card fs"
proof -
  let ?C = "{s\<in>fs. PExpr (Var s) \<in> range_syms rs}"
  let ?M = "{s\<in>fs. PExpr (Var s) \<notin> range_syms rs}"
  have "(\<lambda>s. PExpr (Var s)) ` ?C = range_syms rs"
    using assms(2) by auto
  then have "card ?C = card (range_syms rs)"
    by (metis (no_types, lifting) card_image inj_PExpr_Var inj_on_subset subset_UNIV)
  also have "\<dots> = length rs"
    using assms(3) card_range_syms_eq_iff by blast
  finally have C: "card ?C = length rs" .
  have "card ?C + card ?M = card fs"
    using assms(1) by (subst card_Un_disjoint [symmetric]) (auto intro: arg_cong [where f = card])
  with C show ?thesis by simp
qed

lemma create_ranges_not_malformed: "create_ranges fs rs npar d \<noteq> Inl MalformedArguments"
  by (simp add: create_ranges_def split: prod.splits)

text \<open>With \<open>npar\<close> distinct ranges covering every free symbol, the ranges come back unchanged.\<close>

lemma create_ranges_complete:
  assumes "finite fs" "card fs \<le> npar" "length rs = npar" "distinct (map range_sym rs)"
    and "\<forall>s\<in>fs. PExpr (Var s) \<in> range_syms rs"
  shows "create_ranges fs rs npar d = Inr (rs, d)"
proof -
  have "card (range_syms rs) = length rs"
    using assms(4) card_range_syms_eq_iff by blast
  with assms show ?thesis by (simp add: create_ranges_def fill_ranges_noop)
qed

section \<open>Properties of the range resolver\<close>

text \<open>
  C1. The error behaviour of \<open>_create_ranges\<close>, branch by branch in the order of the code:
  too many free symbols, then too many ranges, then two ranges for one symbol, and
  \<open>IncompatibleRanges\<close> exactly when the user gave \<open>npar\<close> distinct ranges, the expression
  has \<open>npar\<close> free symbols, and one of them has no range.  In particular the final
  consistency check can only fail when no range was filled in.
\<close>

theorem create_ranges_error:
  assumes "finite fs"
  shows "create_ranges fs rs npar d = Inl e \<longleftrightarrow>
     (npar < card fs \<and> e = TooManyFreeSymbols) \<or>
     (card fs \<le> npar \<and> npar < length rs \<and> e = TooManyRanges) \<or>
     (card fs \<le> npar \<and> length rs \<le> npar \<and> \<not> distinct (map range_sym rs) \<and> e = DuplicateRangeSymbol) \<or>
     (card fs = npar \<and> length rs = npar \<and> distinct (map range_sym rs) \<and>
      \<not> (\<forall>s\<in>fs. PExpr (Var s) \<in> range_syms rs) \<and> e = IncompatibleRanges)"
proof (cases "length rs < npar")
  case True
  with fill_ranges_covers [OF assms True, of d] show ?thesis
    by (auto simp: create_ranges_def card_range_syms_eq_iff split: prod.splits)
next
  case False
  then show ?thesis
    by (auto simp: create_ranges_def card_range_syms_eq_iff fill_ranges_noop)
qed

lemma missing_syms_sorted:
  "finite fs \<Longrightarrow> missing_syms fs rs = sorted_list_of_set {s\<in>fs. PExpr (Var s) \<notin> range_syms rs}"
proof -
  assume f: "finite fs"
  have "sorted (missing_syms fs rs)" by (simp add: missing_syms_def sorted_wrt_filter)
  from sorted_list_of_set.idem_if_sorted_distinct[OF this distinct_missing_syms]
  have "sorted_list_of_set (set (missing_syms fs rs)) = missing_syms fs rs" .
  then show ?thesis by (simp add: set_missing_syms[OF f])
qed

text \<open>
  C3. What \<open>_create_ranges\<close> returns: with fewer than \<open>npar\<close> ranges, the user's
  ranges in their order, then a default range \<open>(s, -10, 10)\<close> for each free symbol that
  no user range covers, in ascending order, then fresh dummy ranges up to \<open>npar\<close>; with
  \<open>npar\<close> ranges, the user's ranges unchanged.
\<close>

theorem create_ranges_result:
  assumes "finite fs" "create_ranges fs rs npar d = Inr (rs', d')"
  shows "(length rs < npar \<longrightarrow>
            rs' = rs @ map default_range (sorted_list_of_set {s\<in>fs. PExpr (Var s) \<notin> range_syms rs})
                  @ map (\<lambda>i. default_range (Dum (d + i)))
                        [0..<npar - (length rs + card {s\<in>fs. PExpr (Var s) \<notin> range_syms rs})] \<and>
            d' = d + (npar - (length rs + card {s\<in>fs. PExpr (Var s) \<notin> range_syms rs}))) \<and>
         (length rs = npar \<longrightarrow> rs' = rs \<and> d' = d)"
proof -
  from create_ranges_Inr_fill [OF assms(2)] have "(rs', d') = fill_ranges fs rs npar d" .
  moreover from create_ranges_Inr_guards [OF assms(2)] have "length rs \<le> npar" by simp
  ultimately show ?thesis
    using assms(1) by (auto simp: fill_ranges_eq fill_ranges_noop missing_syms_sorted[symmetric] length_missing_syms[symmetric])
qed

text \<open>
  C4. Dummy ranges are fresh: if the dummy counter is above every dummy symbol among the
  free symbols and the user's ranges, the resolved ranges name pairwise distinct symbols,
  and the returned counter is again above every dummy they name (the counter invariant
  is kept, so the next call creates fresh dummies too).
\<close>

theorem create_ranges_fresh:
  assumes "finite fs" "create_ranges fs rs npar d = Inr (rs', d')"
    and "\<forall>n. Dum n \<in> fs \<longrightarrow> n < d"
    and "\<forall>n. PExpr (Var (Dum n)) \<in> range_syms rs \<longrightarrow> n < d"
  shows "distinct (map range_sym rs') \<and> d \<le> d' \<and>
         (\<forall>n. PExpr (Var (Dum n)) \<in> range_syms rs' \<longrightarrow> n < d')"
proof (cases "length rs < npar")
  case True
  let ?ms = "missing_syms fs rs"
  let ?k = "npar - (length rs + length ?ms)"
  from create_ranges_Inr_fill [OF assms(2)] True
  have rs': "rs' = rs @ map default_range ?ms @ map (\<lambda>i. default_range (Dum (d + i))) [0..<?k]"
    and d': "d' = d + ?k" by (simp_all add: fill_ranges_eq)
  from create_ranges_Inr_guards [OF assms(2)] have dr: "distinct (map range_sym rs)" by simp
  have ms: "set ?ms = {s\<in>fs. PExpr (Var s) \<notin> range_syms rs}"
    by (rule set_missing_syms [OF assms(1)])
  let ?A = "map range_sym rs"
  let ?B = "map (\<lambda>s. PExpr (Var s)) ?ms"
  let ?C = "map (\<lambda>i. PExpr (Var (Dum (d + i)))) [0..<?k]"
  have dB: "distinct ?B"
    using distinct_missing_syms [of fs rs] by (simp add: distinct_map inj_on_def)
  have dC: "distinct ?C" by (simp add: distinct_map inj_on_def)
  have A: "set ?A = range_syms rs" by (simp add: range_syms_def)
  have AB: "set ?A \<inter> set ?B = {}"
    unfolding A using ms by auto
  have AC: "set ?A \<inter> set ?C = {}"
    using assms(4) by (force simp: range_syms_def)
  have BC: "set ?B \<inter> set ?C = {}"
    using assms(3) ms by force
  have eq: "map range_sym rs' = ?A @ ?B @ ?C" by (simp add: rs')
  then have "distinct (map range_sym rs')"
    using dr dB dC AB AC BC by (simp add: Int_Un_distrib)
  moreover have "\<forall>n. PExpr (Var (Dum n)) \<in> range_syms rs' \<longrightarrow> n < d'"
  proof (intro allI impI)
    fix n assume "PExpr (Var (Dum n)) \<in> range_syms rs'"
    then have "PExpr (Var (Dum n)) \<in> set ?A \<union> set ?B \<union> set ?C"
      by (simp add: range_syms_def eq)
    then show "n < d'"
      using assms(3,4) ms A by (auto simp: d')
  qed
  ultimately show ?thesis by (simp add: d')
next
  case False
  with create_ranges_Inr_fill [OF assms(2)] create_ranges_Inr_guards [OF assms(2)] assms(4)
  show ?thesis by (auto simp: fill_ranges_noop)
qed

text \<open>
  Coverage: when ranges were filled in, or when the expression has exactly \<open>npar\<close>
  free symbols, every free symbol has a range in the result.  (With \<open>npar\<close> ranges given
  and fewer free symbols, the code checks nothing; see the root theory.)
\<close>

theorem create_ranges_covers:
  assumes "finite fs" "create_ranges fs rs npar d = Inr (rs', d')"
    and "length rs < npar \<or> card fs = npar"
  shows "\<forall>s\<in>fs. PExpr (Var s) \<in> range_syms rs'"
proof (cases "length rs < npar")
  case True
  with fill_ranges_covers [OF assms(1) True, of d] show ?thesis
    by (simp add: create_ranges_Inr_fst [OF assms(2)])
next
  case False
  with assms(3) have "card fs = npar" by simp
  with assms(2) show ?thesis
    by (auto simp: create_ranges_def split: prod.splits if_splits)
qed

text \<open>
  The spec's arity property holds when every range the user gives names a free
  symbol of the expression: the resolver then returns exactly \<open>npar\<close> ranges.
\<close>

theorem create_ranges_length_npar:
  assumes "finite fs" "create_ranges fs rs npar d = Inr (rs', d')"
    and "\<forall>r\<in>set rs. range_sym r \<in> (\<lambda>s. PExpr (Var s)) ` fs"
  shows "length rs' = npar"
proof -
  from create_ranges_Inr_guards [OF assms(2)]
  have g: "card fs \<le> npar" "length rs \<le> npar" "distinct (map range_sym rs)" by simp_all
  have sub: "range_syms rs \<subseteq> (\<lambda>s. PExpr (Var s)) ` fs"
    using assms(3) by (auto simp: range_syms_def)
  have "length rs + card {s\<in>fs. PExpr (Var s) \<notin> range_syms rs} = card fs"
    by (rule card_covered_missing [OF assms(1) sub g(3)])
  with length_fill_ranges [OF assms(1), of rs npar d] g(1,2) show ?thesis
    by (simp add: create_ranges_Inr_fst [OF assms(2)])
qed

text \<open>
  In general the number of ranges returned is \<open>max npar (len(ranges) + m)\<close> where
  \<open>m\<close> counts the free symbols without a range: a user range for a symbol the expression
  does not have, plus \<open>npar\<close> free symbols, yields more than \<open>npar\<close> ranges.
\<close>

theorem create_ranges_length:
  assumes "finite fs" "create_ranges fs rs npar d = Inr (rs', d')"
  shows "length rs' =
    (if length rs < npar then max npar (length rs + card {s\<in>fs. PExpr (Var s) \<notin> range_syms rs})
     else npar)"
  using length_fill_ranges [OF assms(1), of rs npar d] create_ranges_Inr_guards [OF assms(2)]
  by (simp add: create_ranges_Inr_fst [OF assms(2)])

section \<open>Witnesses\<close>

theorem create_ranges_error_witness:
  "create_ranges {Sym ''x'', Sym ''y''} [] 1 0 = Inl TooManyFreeSymbols"
  using create_ranges_error [of "{Sym ''x'', Sym ''y''}" "[]" 1 0 TooManyFreeSymbols] by simp

theorem create_ranges_result_witness:
  "create_ranges {Sym ''x'', Sym ''y''} [default_range (Sym ''x'')] 3 5 =
     Inr ([default_range (Sym ''x''), default_range (Sym ''y''), default_range (Dum 5)], 6) \<and>
   [default_range (Sym ''x''), default_range (Sym ''y''), default_range (Dum 5)] =
     [default_range (Sym ''x'')] @ map default_range [Sym ''y''] @ map (\<lambda>i. default_range (Dum (5 + i))) [0..<1]"
proof -
  have h: "create_ranges {Sym ''x'', Sym ''y''} [default_range (Sym ''x'')] 3 5 =
     Inr ([default_range (Sym ''x''), default_range (Sym ''y''), default_range (Dum 5)], 6)"
    by code_simp
  have m: "{s \<in> {Sym ''x'', Sym ''y''}. PExpr (Var s) \<notin> range_syms [default_range (Sym ''x'')]} = {Sym ''y''}"
    by (auto simp: range_syms_def range_sym_def default_range_def)
  from create_ranges_result [OF _ h] h show ?thesis unfolding m by simp
qed
theorem create_ranges_fresh_witness:
  "distinct (map range_sym [default_range (Sym ''x''), default_range (Dum 5)])"
proof -
  have h: "create_ranges {Sym ''x''} [] 2 5 = Inr ([default_range (Sym ''x''), default_range (Dum 5)], 6)"
    by code_simp
  from create_ranges_fresh [OF _ h] show ?thesis by (simp add: range_syms_def)
qed

theorem create_ranges_covers_witness:
  "PExpr (Var (Sym ''x'')) \<in> range_syms [default_range (Sym ''x''), default_range (Dum 5)]"
proof -
  have h: "create_ranges {Sym ''x''} [] 2 5 = Inr ([default_range (Sym ''x''), default_range (Dum 5)], 6)"
    by code_simp
  from create_ranges_covers [OF _ h] show ?thesis by simp
qed

theorem create_ranges_length_npar_witness:
  "length [default_range (Sym ''x''), default_range (Dum 5)] = 2"
proof -
  have h: "create_ranges {Sym ''x''} [] 2 5 = Inr ([default_range (Sym ''x''), default_range (Dum 5)], 6)"
    by code_simp
  from create_ranges_length_npar [OF _ h] show ?thesis by simp
qed

theorem create_ranges_length_witness:
  "create_ranges {Sym ''x'', Sym ''z''} [default_range (Sym ''y'')] 2 0 =
     Inr ([default_range (Sym ''y''), default_range (Sym ''x''), default_range (Sym ''z'')], 0) \<and>
   2 < length [default_range (Sym ''y''), default_range (Sym ''x''), default_range (Sym ''z'')]"
proof -
  have h: "create_ranges {Sym ''x'', Sym ''z''} [default_range (Sym ''y'')] 2 0 =
     Inr ([default_range (Sym ''y''), default_range (Sym ''x''), default_range (Sym ''z'')], 0)"
    by code_simp
  have "{s \<in> {Sym ''x'', Sym ''z''}. PExpr (Var s) \<notin> range_syms [default_range (Sym ''y'')]} = {Sym ''x'', Sym ''z''}"
    by (auto simp: range_syms_def)
  then have "card {s \<in> {Sym ''x'', Sym ''z''}. PExpr (Var s) \<notin> range_syms [default_range (Sym ''y'')]} = 2"
    by simp
  with create_ranges_length [OF _ h] h show ?thesis by simp
qed
end
