(* ===== verification/Arguments.thy ===== *)
theory Arguments
  imports Ranges
begin

text \<open>
  The argument unpacker of \<open>src/spb/utils.py\<close>: \<open>_check_arguments\<close> (lines 95--215)
  with its two calling conventions, \<open>_unpack_args\<close> (252--307) and \<open>_split_vector\<close>
  (343--400).  The arguments are those \<open>_plot_sympify\<close> returns: a Python list of
  expressions, strings and SymPy \<open>Tuple\<close>s.  An output tuple \<open>(*exprs, *ranges, label)\<close>
  is the triple of its three parts.  The dummy counter of the range resolver is threaded
  through every call to it, in the order the loops make the calls.
\<close>

type_synonym plot_tuple = "parg list \<times> range list \<times> string"

section \<open>Helpers\<close>

definition str_val :: "parg \<Rightarrow> string" where
  "str_val p = (case p of PStr s \<Rightarrow> s | _ \<Rightarrow> [])"

fun is_tuple :: "parg \<Rightarrow> bool" where
  "is_tuple (PTup xs) = True"
| "is_tuple _ = False"

text \<open>The items of a tuple argument (\<open>*e\<close> of line 181 when \<open>e\<close> is not an expression).\<close>

fun tuple_items :: "parg \<Rightarrow> parg list" where
  "tuple_items (PTup xs) = xs"
| "tuple_items p = [p]"

text \<open>\<open>set().union(*[e.free_symbols for e in exprs])\<close>.\<close>

definition args_free_syms :: "parg list \<Rightarrow> sym set" where
  "args_free_syms xs = (\<Union>a\<in>set xs. parg_free_syms a)"

text \<open>\<open>str\<close> of a slice \<open>arg[:nexpr]\<close>: a Python list prints with brackets, a tuple with parentheses.\<close>

definition seq_str :: "bool \<Rightarrow> parg list \<Rightarrow> string" where
  "seq_str is_list xs =
     (if is_list then ''['' @ sep_join '', '' (map parg_str xs) @ '']'' else tuple_str (map parg_str xs))"

section \<open>Mode A: expressions sharing one set of ranges (lines 140--181)\<close>

text \<open>
  One output tuple per expression (lines 164--181): an expression contributes itself, a
  non-range tuple its items; the label is the call's label, or else \<open>str\<close> of the item.
\<close>

definition shared_item :: "string \<Rightarrow> range list \<Rightarrow> parg \<Rightarrow> plot_tuple" where
  "shared_item label rs a =
     ((if is_plot_expr a then [a] else tuple_items a), rs, (if label = [] then parg_str a else label))"

definition shared_exprs :: "parg list \<Rightarrow> parg list" where
  "shared_exprs args = filter (\<lambda>a. \<not> (is_range a \<or> is_str a)) args"

definition shared_ranges :: "parg list \<Rightarrow> nat \<Rightarrow> parg list" where
  "shared_ranges args nexpr = filter is_range (drop nexpr args)"

definition shared_label :: "parg list \<Rightarrow> string" where
  "shared_label args = (if is_str (last args) then str_val (last args) else [])"

text \<open>Lines 159--163: \<open>nexpr\<close> expressions of a parametric kind form one tuple.\<close>

definition shared_items :: "parg list \<Rightarrow> nat \<Rightarrow> parg list" where
  "shared_items exprs nexpr = (if 1 < nexpr \<and> length exprs = nexpr then [PTup exprs] else exprs)"

definition check_args_shared :: "parg list \<Rightarrow> nat \<Rightarrow> nat \<Rightarrow> nat \<Rightarrow> (plot_tuple list \<times> nat) result" where
  "check_args_shared args nexpr npar d =
     (let exprs = shared_exprs args;
          ranges = shared_ranges args nexpr;
          label = shared_label args
      in if \<not> list_all is_range ranges then Inl MalformedArguments
         else rbind (create_ranges (args_free_syms exprs) (map as_range ranges) npar d)
                (\<lambda>(rs, d'). Inr (map (shared_item label rs) (shared_items exprs nexpr), d')))"

section \<open>Mode B: groups with their own ranges and labels (lines 183--214)\<close>

text \<open>
  One group \<open>(expr1, ..., range [opt], ..., label [opt])\<close>: local labels and ranges win
  over the call's; the resolver runs only when the group does not have exactly \<open>npar\<close>
  ranges (line 211); the default label is \<open>str(arg[0])\<close> or \<open>str(arg)\<close>.
\<close>

definition check_group ::
  "parg list \<Rightarrow> parg list \<Rightarrow> nat \<Rightarrow> nat \<Rightarrow> bool \<Rightarrow> parg list \<Rightarrow> nat \<Rightarrow> (plot_tuple \<times> nat) result" where
  "check_group labels ranges nexpr npar is_list xs d =
     (let l = (if filter is_str xs = [] then labels else filter is_str xs);
          r = (if filter is_range xs = [] then ranges else filter is_range xs);
          a = take nexpr xs
      in rbind (if length r \<noteq> npar then create_ranges (args_free_syms a) (map as_range r) npar d
                else Inr (map as_range r, d))
           (\<lambda>(rs, d').
              if l = [] then
                (if nexpr = 1 then (case a of [] \<Rightarrow> Inl IndexError | a0 # _ \<Rightarrow> Inr ((a, rs, parg_str a0), d'))
                 else Inr ((a, rs, seq_str is_list a), d'))
              else Inr ((a, rs, str_val (hd l)), d')))"

text \<open>The loop of line 200 over tuple groups; iterating anything else raises.\<close>

fun check_groups ::
  "parg list \<Rightarrow> parg list \<Rightarrow> nat \<Rightarrow> nat \<Rightarrow> parg list \<Rightarrow> nat \<Rightarrow> (plot_tuple list \<times> nat) result" where
  "check_groups labels ranges nexpr npar [] d = Inr ([], d)"
| "check_groups labels ranges nexpr npar (g # gs) d =
     (case g of
        PTup xs \<Rightarrow>
          rbind (check_group labels ranges nexpr npar False xs d)
            (\<lambda>(t, d1). rbind (check_groups labels ranges nexpr npar gs d1) (\<lambda>(ts, d2). Inr (t # ts, d2)))
      | _ \<Rightarrow> Inl TypeError)"

text \<open>
  Lines 189--197: the call's labels and ranges are taken to be its last \<open>n\<close> items and cut
  off; what remains is a list of groups, or one group if its first item is no tuple.
\<close>

definition check_args_groups :: "parg list \<Rightarrow> nat \<Rightarrow> nat \<Rightarrow> nat \<Rightarrow> (plot_tuple list \<times> nat) result" where
  "check_args_groups args nexpr npar d =
     (let labels = filter is_str args;
          ranges = filter is_range args;
          n = length ranges + length labels;
          new_args = (if 0 < n then drop_last n args else args)
      in case new_args of
           [] \<Rightarrow> Inl IndexError
         | a0 # _ \<Rightarrow>
             if is_tuple a0 then check_groups labels ranges nexpr npar new_args d
             else rbind (check_group labels ranges nexpr npar True new_args d) (\<lambda>(t, d'). Inr ([t], d')))"

definition check_arguments :: "parg list \<Rightarrow> nat \<Rightarrow> nat \<Rightarrow> nat \<Rightarrow> (plot_tuple list \<times> nat) result" where
  "check_arguments args nexpr npar d =
     (if args = [] then Inr ([], d)
      else if list_all is_plot_expr (take nexpr args) then check_args_shared args nexpr npar d
      else check_args_groups args nexpr npar d)"

text \<open>A range \<open>(a, lo, hi)\<close> over a named symbol, as a caller writes it.\<close>

definition rng :: "string \<Rightarrow> int \<Rightarrow> int \<Rightarrow> parg" where
  "rng a lo hi = PTup [PExpr (Var (Sym a)), PExpr (Num lo 0), PExpr (Num hi 0)]"

section \<open>\<open>_unpack_args\<close> and \<open>_split_vector\<close>\<close>

text \<open>
  \<open>_unpack_args\<close> with \<open>matrices\<close>; a SymPy \<open>Vector\<close> argument (line 303) is not
  in the argument model.
\<close>

definition unpack_args :: "bool \<Rightarrow> parg list \<Rightarrow> parg list \<times> parg list \<times> string" where
  "unpack_args matrices args =
     (let ranges = filter is_range args;
          labels = filter is_str args;
          label = (if labels = [] then [] else str_val (hd labels));
          exprs = filter (\<lambda>a. \<not> (is_range a \<or> is_str a)) args;
          label = (if label = [] then (if length exprs = 1 then parg_str (hd exprs) else tuple_str (map parg_str exprs))
                   else label);
          exprs = (if matrices \<and> length exprs = 1 \<and> is_tuple (hd exprs) then tuple_items (hd exprs) else exprs)
      in (exprs, ranges, label))"

text \<open>
  \<open>_split_vector\<close> of a matrix, list or tuple of components (the \<open>Vector\<close> branch of
  lines 361--372 needs SymPy's coordinate systems and is not modelled).
\<close>

definition split_vector :: "parg \<Rightarrow> range list \<Rightarrow> bool \<Rightarrow> ((parg \<times> parg \<times> parg) \<times> range list) result" where
  "split_vector v ranges fill =
     (if \<not> is_tuple v then Inl TypeError
      else if length (tuple_items v) < 2 \<or> 3 < length (tuple_items v) then Inl ValueError
      else
        let es = tuple_items v;
            fs = args_free_syms es;
            ranges' = (if fill \<and> length ranges < card fs
                       then ranges @ map default_range (filter (\<lambda>s. PExpr (Var s) \<notin> range_syms ranges) (sorted_list_of_set fs))
                       else ranges)
        in Inr ((es ! 0, es ! 1, if length es = 2 then PExpr (Num 0 0) else es ! 2), ranges'))"

abbreviation "xS \<equiv> Sym ''x''"
abbreviation "yS \<equiv> Sym ''y''"
abbreviation "sinxy \<equiv> Fn ''sin'' [Fn ''Add'' [Var xS, Var yS]]"

section \<open>Well-typed ranges\<close>

text \<open>
  The spec's range is a triple (variable, start, end): a symbol and two numbers.
  \<open>_is_range\<close> (lines 240--249) checks the two numbers only.  \<open>args_typed\<close> says that
  every range among the arguments, also inside a group, is a well-typed range.
\<close>

fun range_typed :: "range \<Rightarrow> bool" where
  "range_typed (PExpr (Var s), a, b) = (parg_is_number a \<and> parg_is_number b)"
| "range_typed _ = False"

fun args_typed :: "parg \<Rightarrow> bool" where
  "args_typed (PTup xs) = ((is_range (PTup xs) \<longrightarrow> range_typed (as_range (PTup xs))) \<and> list_all args_typed xs)"
| "args_typed _ = True"

abbreviation tuples_typed :: "plot_tuple list \<Rightarrow> bool" where
  "tuples_typed ts \<equiv> list_all (\<lambda>(es, rs, l). list_all range_typed rs) ts"

section \<open>Properties of the argument unpacker\<close>

lemma check_group_not_malformed: "check_group L R nexpr npar b xs d \<noteq> Inl MalformedArguments"
  by (auto simp: check_group_def Let_def rbind_eq_Inl_iff create_ranges_not_malformed
           split: if_splits list.splits)

lemma check_groups_not_malformed: "check_groups L R nexpr npar gs d \<noteq> Inl MalformedArguments"
proof (induction gs arbitrary: d)
  case Nil
  then show ?case by simp
next
  case (Cons g gs)
  then show ?case
    by (auto simp: rbind_eq_Inl_iff check_group_not_malformed split: parg.splits)
qed

lemma check_args_groups_not_malformed:
  "check_args_groups args nexpr npar d \<noteq> Inl MalformedArguments"
  unfolding check_args_groups_def Let_def
  by (auto simp: rbind_eq_Inl_iff check_group_not_malformed check_groups_not_malformed
      simp del: check_groups.simps split: list.splits)

text \<open>
  C2. No call of \<open>_check_arguments\<close> raises the "Expressions must be followed by
  ranges" error: in the shared-range mode the ranges it tests were already filtered by
  \<open>_is_range\<close> (lines 147 and 150), and the grouped mode has no such check.  Malformed
  calls surface as range-resolver errors, \<open>IndexError\<close> or \<open>TypeError\<close> instead.
\<close>

theorem check_arguments_never_malformed:
  "check_arguments args nexpr npar d \<noteq> Inl MalformedArguments"
  by (auto simp: check_arguments_def check_args_shared_def Let_def
      shared_ranges_def list_all_iff rbind_eq_Inl_iff create_ranges_not_malformed
      check_args_groups_not_malformed)


lemma is_range_rng [simp]: "is_range (rng a lo hi)"
  by (simp add: rng_def)

lemma range_sym_rng [simp]: "range_sym (as_range (rng a lo hi)) = PExpr (Var (Sym a))"
  by (simp add: rng_def range_sym_def)

lemma rng_not [simp]: "\<not> is_str (rng a lo hi)" "\<not> is_plot_expr (rng a lo hi)"
  by (simp_all add: rng_def)

lemma args_free_syms_simps [simp]:
  "args_free_syms [] = {}" "args_free_syms (a # as) = parg_free_syms a \<union> args_free_syms as"
  by (simp_all add: args_free_syms_def)

text \<open>
  C6. The spec's first unpacking example, for any expression whose free symbols are
  among the two range symbols: \<open>(expr, (x, lo1, hi1), (y, lo2, hi2), "lbl")\<close> with
  \<open>nexpr = 1\<close>, \<open>npar = 2\<close> gives the one canonical tuple with both ranges and the label.
\<close>

theorem check_arguments_one_expr_two_ranges:
  assumes "free_syms e \<subseteq> {Sym a, Sym b}" "a \<noteq> b" "l \<noteq> []"
  shows "check_arguments [PExpr e, rng a lo1 hi1, rng b lo2 hi2, PStr l] 1 2 d =
         Inr ([([PExpr e], [as_range (rng a lo1 hi1), as_range (rng b lo2 hi2)], l)], d)"
proof -
  have "card (free_syms e) \<le> card {Sym a, Sym b}"
    using assms(1) by (rule card_mono [rotated]) simp
  also have "\<dots> = 2" using assms(2) by simp
  finally have c: "card (free_syms e) \<le> 2" .
  have "create_ranges (free_syms e) [as_range (rng a lo1 hi1), as_range (rng b lo2 hi2)] 2 d =
        Inr ([as_range (rng a lo1 hi1), as_range (rng b lo2 hi2)], d)"
    using c assms(1,2) by (intro create_ranges_complete) (auto simp: range_syms_def)
  then show ?thesis
    using assms(3)
    by (simp add: check_arguments_def check_args_shared_def shared_exprs_def shared_ranges_def
        shared_label_def shared_items_def shared_item_def str_val_def)
qed

text \<open>
  C7. The spec's parametric example: \<open>(e1, e2, (x, lo, hi), "name")\<close> with
  \<open>nexpr = 2\<close> groups the two expressions into one curve with the range and label.
\<close>

theorem check_arguments_parametric_pair:
  assumes "free_syms e1 \<union> free_syms e2 \<subseteq> {Sym a}" "l \<noteq> []"
  shows "check_arguments [PExpr e1, PExpr e2, rng a lo hi, PStr l] 2 1 d =
         Inr ([([PExpr e1, PExpr e2], [as_range (rng a lo hi)], l)], d)"
proof -
  have "card (free_syms e1 \<union> free_syms e2) \<le> card {Sym a}"
    using assms(1) by (rule card_mono [rotated]) simp
  then have c: "card (free_syms e1 \<union> free_syms e2) \<le> 1" by simp
  have "create_ranges (free_syms e1 \<union> free_syms e2) [as_range (rng a lo hi)] 1 d =
        Inr ([as_range (rng a lo hi)], d)"
    using c assms(1) by (intro create_ranges_complete) (auto simp: range_syms_def)
  then show ?thesis
    using assms(2)
    by (simp add: check_arguments_def check_args_shared_def shared_exprs_def shared_ranges_def
        shared_label_def shared_items_def shared_item_def str_val_def)
qed

text \<open>
  C31. A call made only of ranges and labels (no expression) takes the grouped branch,
  cuts every item off as a global range or label, and fails indexing the empty remainder.
\<close>

theorem check_arguments_index_error:
  assumes "args \<noteq> []" "0 < nexpr" "\<forall>a\<in>set args. is_range a \<or> is_str a"
  shows "check_arguments args nexpr npar d = Inl IndexError"
proof -
  have "is_range (hd args) \<or> is_str (hd args)"
    using assms(1,3) by simp
  then have "\<not> is_plot_expr (hd args)"
    by (cases "hd args") auto
  then have "\<not> list_all is_plot_expr (take nexpr args)"
    using assms(1,2) by (cases args; cases nexpr) auto
  moreover have n: "length (filter is_range args) + length (filter is_str args) = length args"
    using assms(3) is_range_not_str by (intro length_filter_partition) auto
  moreover have "0 < length (filter is_range args) + length (filter is_str args)"
    unfolding n using assms(1) by simp
  moreover have "drop_last (length (filter is_range args) + length (filter is_str args)) args = []"
    by (simp add: drop_last_def n)
  ultimately show ?thesis
    using assms(1) unfolding check_arguments_def check_args_groups_def Let_def by simp
qed


text \<open>
  In the grouped mode a group that carries exactly \<open>npar\<close> ranges is accepted as
  it is: the range resolver is skipped (line 211), so its free symbols are not checked
  against the ranges at all.
\<close>

theorem check_group_npar_unchecked:
  assumes "length (filter is_range xs) = npar" "0 < npar" "filter is_str xs \<noteq> []"
  shows "check_group L R nexpr npar b xs d =
         Inr ((take nexpr xs, map as_range (filter is_range xs), str_val (hd (filter is_str xs))), d)"
proof -
  from assms(1,2) have "filter is_range xs \<noteq> []" by auto
  with assms show ?thesis by (simp add: check_group_def Let_def)
qed

lemma check_group_fst:
  "check_group L R nexpr npar b xs d = Inr ((a, rs, l), d') \<Longrightarrow> a = take nexpr xs"
  by (auto simp: check_group_def Let_def rbind_eq_Inr_iff split: if_splits list.splits)

text \<open>
  The grouped mode yields one output tuple per group, in the order of the groups,
  each holding the first \<open>nexpr\<close> items of its group.
\<close>

theorem check_groups_order:
  "check_groups L R nexpr npar gs d = Inr (out, d') \<Longrightarrow>
   map fst out = map (\<lambda>g. take nexpr (tuple_items g)) gs"
proof (induction gs arbitrary: d out)
  case Nil
  then show ?case by auto
next
  case (Cons g gs)
  from Cons.prems obtain xs where g: "g = PTup xs"
    by (cases g) auto
  from Cons.prems g obtain t d1 ts where
    t: "check_group L R nexpr npar False xs d = Inr (t, d1)" and
    ts: "check_groups L R nexpr npar gs d1 = Inr (ts, d')" and out: "out = t # ts"
    by (auto simp: rbind_eq_Inr_iff split: prod.splits)
  from t have "fst t = take nexpr xs"
    by (cases t) (auto dest: check_group_fst)
  with Cons.IH [OF ts] out g show ?case by simp
qed

lemma range_parg_tuple [simp]: "\<not> is_str (range_parg r)" "\<not> is_plot_expr (range_parg r)"
  by (cases r; simp add: range_parg_def)+

lemma args_free_syms_PExpr: "args_free_syms (map PExpr es) = (\<Union>e\<in>set es. free_syms e)"
  by (simp add: args_free_syms_def)

text \<open>
  C5. The shared-range mode on the call \<open>(e1, ..., en, r1, ..., rk, label)\<close> with one
  expression per series: every expression gets its own tuple, in argument order, with
  the ranges the resolver gives for the free symbols of all expressions together and the
  call's label (\<open>str(e)\<close> when the label is empty); the label string is not taken as an
  expression.
\<close>

theorem check_arguments_shared_series:
  assumes "es \<noteq> []" "list_all (\<lambda>r. is_range (range_parg r)) rs"
    and "create_ranges (\<Union>e\<in>set es. free_syms e) rs npar d = Inr (rs', d')"
  shows "check_arguments (map PExpr es @ map range_parg rs @ [PStr l]) 1 npar d =
           Inr (map (\<lambda>e. ([PExpr e], rs', if l = [] then expr_str e else l)) es, d')"
proof -
  let ?args = "map PExpr es @ map range_parg rs @ [PStr l]"
  from assms(1) obtain e0 es' where es: "es = e0 # es'" by (cases es) auto
  have f1: "filter is_range (map range_parg rs) = map range_parg rs"
    using assms(2) by (simp add: list_all_iff)
  have f2: "filter (\<lambda>a. \<not> (is_range a \<or> is_str a)) (map range_parg rs) = []"
    using assms(2) by (simp add: list_all_iff filter_empty_conv)
  have f3: "filter is_range (map PExpr xs) = []" "filter (\<lambda>a. \<not> (is_range a \<or> is_str a)) (map PExpr xs) = map PExpr xs"
    for xs by (induction xs) simp_all
  have ex: "shared_exprs ?args = map PExpr es"
    using f2 f3 by (simp add: shared_exprs_def)
  have rg: "shared_ranges ?args 1 = map range_parg rs"
    using f1 f3 es by (simp add: shared_ranges_def)
  have lb: "shared_label ?args = l" by (simp add: shared_label_def str_val_def)
  have it: "shared_items (map PExpr es) 1 = map PExpr es" by (simp add: shared_items_def)
  have ok: "list_all is_range (map range_parg rs)" using assms(2) by (simp add: list_all_iff)
  have cr: "create_ranges (args_free_syms (map PExpr es)) (map as_range (map range_parg rs)) npar d = Inr (rs', d')"
    using assms(3) by (simp add: args_free_syms_PExpr comp_def)
  show ?thesis
    using es ex rg lb it ok cr
    by (simp add: check_arguments_def check_args_shared_def Let_def shared_item_def)
qed


text \<open>
  C26. \<open>_unpack_args\<close> inverts packing: expressions, then ranges, then a label are
  recovered as given, the ranges unchanged; an empty label is replaced by the string form
  of the expression (or of the tuple of expressions).  The first example of the docstring
  (lines 273--276), which shows \<open>(x, -10, 10)\<close> coming back as \<open>(x, -2, 2)\<close>, does not
  match the code.
\<close>

theorem unpack_args_roundtrip:
  assumes "list_all (\<lambda>a. \<not> is_range a \<and> \<not> is_str a) es" "list_all is_range rs"
  shows "unpack_args False (es @ rs @ [PStr l]) =
           (es, rs, if l = [] then (if length es = 1 then parg_str (hd es) else tuple_str (map parg_str es)) else l)"
proof -
  have "filter is_range es = []" "filter is_str es = []"
    "filter (\<lambda>a. \<not> (is_range a \<or> is_str a)) es = es"
    using assms(1) by (auto simp: list_all_iff filter_empty_conv)
  moreover have "filter is_range rs = rs" "filter is_str rs = []"
    "filter (\<lambda>a. \<not> (is_range a \<or> is_str a)) rs = []"
    using assms(2) is_range_not_str by (auto simp: list_all_iff filter_empty_conv)
  ultimately show ?thesis by (simp add: unpack_args_def Let_def str_val_def)
qed

text \<open>
  \<open>_split_vector\<close> rejects a non-sequence with \<open>TypeError\<close> and a sequence of
  other than 2 or 3 components with \<open>ValueError\<close>, and fails in no other case.
\<close>

theorem split_vector_error:
  "split_vector v rs f = Inl e \<longleftrightarrow>
     (\<not> is_tuple v \<and> e = TypeError) \<or>
     (is_tuple v \<and> (length (tuple_items v) < 2 \<or> 3 < length (tuple_items v)) \<and> e = ValueError)"
  by (auto simp: split_vector_def Let_def)

text \<open>
  \<open>_split_vector\<close> returns the components in order, with a zero third
  component for a 2D vector.
\<close>

theorem split_vector_components:
  assumes "split_vector v rs f = Inr ((ex, ey, ez), rs')"
  shows "(tuple_items v = [ex, ey] \<and> ez = PExpr (Num 0 0)) \<or> tuple_items v = [ex, ey, ez]"
proof -
  from assms have len: "2 \<le> length (tuple_items v)" "length (tuple_items v) \<le> 3"
    by (auto simp: split_vector_def Let_def split: if_splits)
  then consider "length (tuple_items v) = 2" | "length (tuple_items v) = 3" by linarith
  then show ?thesis
  proof cases
    case 1
    then obtain a b where "tuple_items v = [a, b]"
      by (auto simp: length_Suc_conv numeral_2_eq_2)
    with assms show ?thesis by (auto simp: split_vector_def Let_def split: if_splits)
  next
    case 2
    then obtain a b c where "tuple_items v = [a, b, c]"
      by (auto simp: length_Suc_conv numeral_3_eq_3)
    with assms show ?thesis by (auto simp: split_vector_def Let_def split: if_splits)
  qed
qed

text \<open>
  When \<open>_split_vector\<close> fills ranges (fewer ranges than free symbols), it keeps
  the given ranges as a prefix and afterwards every free symbol has a range.
\<close>

theorem split_vector_covers:
  assumes "split_vector v rs True = Inr (c, rs')"
    and "length rs < card (args_free_syms (tuple_items v))"
  shows "take (length rs) rs' = rs \<and>
         (\<forall>s\<in>args_free_syms (tuple_items v). PExpr (Var s) \<in> range_syms rs')"
proof -
  have fin: "finite (args_free_syms (tuple_items v))"
    by (simp add: args_free_syms_def)
  from assms show ?thesis
    using fin by (auto simp: split_vector_def Let_def split: if_splits)
qed


section \<open>Type preservation\<close>


lemma range_typed_default [simp]: "range_typed (default_range s)"
  by (simp add: default_range_def)

lemma create_ranges_typed:
  assumes "list_all range_typed rs" "create_ranges fs rs npar d = Inr (rs', d')"
  shows "list_all range_typed rs'"
proof (cases "length rs < npar")
  case True
  with create_ranges_Inr_fill[OF assms(2)] assms(1) show ?thesis by (auto simp: fill_ranges_eq list_all_iff)
next
  case False
  with create_ranges_Inr_fill[OF assms(2)] assms(1) show ?thesis by (simp add: fill_ranges_noop)
qed

lemma args_typed_range: "args_typed a \<Longrightarrow> is_range a \<Longrightarrow> range_typed (as_range a)"
  by (cases a) simp_all

lemma args_typed_ranges: "list_all args_typed xs \<Longrightarrow> list_all range_typed (map as_range (filter is_range xs))"
  by (induction xs) (auto simp: args_typed_range)

lemma check_group_ranges:
  assumes "check_group labels ranges nexpr npar il xs d = Inr ((es, rs, l), d')"
  shows "\<exists>d0. (let r = (if filter is_range xs = [] then ranges else filter is_range xs)
              in if length r \<noteq> npar then create_ranges (args_free_syms (take nexpr xs)) (map as_range r) npar d
                 else Inr (map as_range r, d)) = Inr (rs, d0)"
proof -
  define r where "r = (if filter is_range xs = [] then ranges else filter is_range xs)"
  define lb where "lb = (if filter is_str xs = [] then labels else filter is_str xs)"
  define C where "C = (if length r \<noteq> npar then create_ranges (args_free_syms (take nexpr xs)) (map as_range r) npar d
         else Inr (map as_range r, d))"
  have eq: "check_group labels ranges nexpr npar il xs d =
     rbind C (\<lambda>(rs, d').
        if lb = [] then
          (if nexpr = 1 then (case take nexpr xs of [] \<Rightarrow> Inl IndexError
                              | a0 # _ \<Rightarrow> Inr ((take nexpr xs, rs, parg_str a0), d'))
           else Inr ((take nexpr xs, rs, seq_str il (take nexpr xs)), d'))
        else Inr ((take nexpr xs, rs, str_val (hd lb)), d'))"
    unfolding check_group_def Let_def r_def lb_def C_def ..
  obtain p where c: "C = Inr p" and
    f: "(\<lambda>(rs, d').
        if lb = [] then
          (if nexpr = 1 then (case take nexpr xs of [] \<Rightarrow> Inl IndexError
                              | a0 # _ \<Rightarrow> Inr ((take nexpr xs, rs, parg_str a0), d'))
           else Inr ((take nexpr xs, rs, seq_str il (take nexpr xs)), d'))
        else Inr ((take nexpr xs, rs, str_val (hd lb)), d')) p = Inr ((es, rs, l), d')"
    using assms unfolding eq rbind_eq_Inr_iff by blast
  obtain rs0 d0 where p: "p = (rs0, d0)" by fastforce
  from f have "rs = rs0" unfolding p by (auto split: if_splits list.splits)
  with c p show ?thesis by (auto simp: C_def r_def Let_def)
qed

lemma check_group_typed:
  assumes "list_all range_typed (map as_range ranges)" "list_all args_typed xs"
    and "check_group labels ranges nexpr npar il xs d = Inr ((es, rs, l), d')"
  shows "list_all range_typed rs"
proof -
  define r where "r = (if filter is_range xs = [] then ranges else filter is_range xs)"
  have rt: "list_all range_typed (map as_range r)"
    using assms(1) args_typed_ranges[OF assms(2)] by (simp add: r_def)
  have "\<exists>d0. (if length r \<noteq> npar then create_ranges (args_free_syms (take nexpr xs)) (map as_range r) npar d
         else Inr (map as_range r, d)) = Inr (rs, d0)"
    using check_group_ranges[OF assms(3)] unfolding Let_def r_def .
  then obtain d0 where
    c: "(if length r \<noteq> npar then create_ranges (args_free_syms (take nexpr xs)) (map as_range r) npar d
         else Inr (map as_range r, d)) = Inr (rs, d0)" ..
  show ?thesis
  proof (cases "length r \<noteq> npar")
    case True
    with c have "create_ranges (args_free_syms (take nexpr xs)) (map as_range r) npar d = Inr (rs, d0)"
      by simp
    then show ?thesis by (rule create_ranges_typed[OF rt])
  next
    case False
    with c have "rs = map as_range r" by simp
    with rt show ?thesis by simp
  qed
qed

lemma check_groups_typed:
  "list_all range_typed (map as_range ranges) \<Longrightarrow> list_all args_typed gs \<Longrightarrow>
   check_groups labels ranges nexpr npar gs d = Inr (ts, d') \<Longrightarrow> tuples_typed ts"
proof (induction gs arbitrary: d ts)
  case (Cons g gs)
  then obtain xs where g: "g = PTup xs"
    by (cases g) auto
  from Cons.prems g obtain es rs l d1 ts' where
    t: "check_group labels ranges nexpr npar False xs d = Inr ((es, rs, l), d1)" and
    r: "check_groups labels ranges nexpr npar gs d1 = Inr (ts', d')" and ts: "ts = (es, rs, l) # ts'"
    by (auto simp: rbind_eq_Inr_iff split: prod.splits)
  from Cons.prems(2) g have "list_all args_typed xs" "list_all args_typed gs" by simp_all
  with Cons.IH[OF Cons.prems(1) _ r] check_group_typed[OF Cons.prems(1) _ t] ts show ?case by simp
qed simp

lemma list_all_drop_last: "list_all P xs \<Longrightarrow> list_all P (drop_last n xs)"
  by (auto simp: drop_last_def list_all_iff dest: in_set_takeD)

lemma check_args_groups_typed:
  assumes "list_all args_typed args" "check_args_groups args nexpr npar d = Inr (ts, d')"
  shows "tuples_typed ts"
proof -
  let ?n = "length (filter is_range args) + length (filter is_str args)"
  define new where "new = (if 0 < ?n then drop_last ?n args else args)"
  have R: "list_all range_typed (map as_range (filter is_range args))"
    using args_typed_ranges[OF assms(1)] .
  have N: "list_all args_typed new" using assms(1) by (simp add: new_def list_all_drop_last)
  from assms(2) obtain a0 rest where nw: "new = a0 # rest" and
    c: "(if is_tuple a0 then check_groups (filter is_str args) (filter is_range args) nexpr npar new d
         else rbind (check_group (filter is_str args) (filter is_range args) nexpr npar True new d)
                (\<lambda>(t, d'). Inr ([t], d'))) = Inr (ts, d')"
    unfolding check_args_groups_def Let_def new_def[symmetric] by (auto split: list.splits)
  show ?thesis
  proof (cases "is_tuple a0")
    case True
    with c have "check_groups (filter is_str args) (filter is_range args) nexpr npar new d = Inr (ts, d')" by simp
    from check_groups_typed[OF R N this] show ?thesis .
  next
    case False
    with c obtain es rs l where
      t: "check_group (filter is_str args) (filter is_range args) nexpr npar True new d = Inr ((es, rs, l), d')"
      and ts: "ts = [(es, rs, l)]"
      by (auto simp: rbind_eq_Inr_iff)
    from check_group_typed[OF R N t] ts show ?thesis by simp
  qed
qed

lemma check_args_shared_typed:
  assumes "list_all args_typed args" "check_args_shared args nexpr npar d = Inr (ts, d')"
  shows "tuples_typed ts"
proof -
  have R: "list_all range_typed (map as_range (shared_ranges args nexpr))"
    using args_typed_ranges[of "drop nexpr args"] assms(1)
    by (auto simp: shared_ranges_def list_all_iff dest: in_set_dropD)
  from assms(2) obtain rs where
    c: "create_ranges (args_free_syms (shared_exprs args)) (map as_range (shared_ranges args nexpr)) npar d = Inr (rs, d')"
    and ts: "ts = map (shared_item (shared_label args) rs) (shared_items (shared_exprs args) nexpr)"
    by (auto simp: check_args_shared_def Let_def rbind_eq_Inr_iff split: if_splits)
  from create_ranges_typed[OF R c] ts show ?thesis
    by (simp add: list_all_iff shared_item_def)
qed

text \<open>
  C23. Type preservation of _check_arguments: when every range among the arguments (also inside groups) is a well-typed range, a symbol with two numeric ends, every range of every tuple it returns is well typed, in both modes, including the default ranges and dummies it adds.
\<close>

theorem check_arguments_typed:
  assumes "list_all args_typed args" "check_arguments args nexpr npar d = Inr (ts, d')"
  shows "tuples_typed ts"
  using assms check_args_shared_typed check_args_groups_typed
  by (auto simp: check_arguments_def split: if_splits)

text \<open>
  \<open>_is_range\<close> does not check the variable: \<open>(2, -1, 1)\<close> passes as a range, and a
  surface call keeps it beside the default range of the real variable.
\<close>

lemma check_arguments_untyped_range:
  "check_arguments [PExpr (Var xS), PTup [PExpr (Num 2 0), PExpr (Num (-1) 0), PExpr (Num 1 0)]] 1 2 0 =
     Inr ([([PExpr (Var xS)], [(PExpr (Num 2 0), PExpr (Num (-1) 0), PExpr (Num 1 0)), default_range xS], ''x'')], 0)"
  by code_simp

section \<open>Witnesses\<close>

theorem check_arguments_never_malformed_witness:
  "check_arguments [PExpr (Var xS), rng ''x'' 0 1, rng ''x'' 2 3] 1 1 0 = Inl TooManyRanges"
proof -
  have "check_arguments [PExpr (Var xS), rng ''x'' 0 1, rng ''x'' 2 3] 1 1 0 = Inl TooManyRanges"
    by (simp add: rng_def check_arguments_def check_args_shared_def shared_exprs_def shared_ranges_def
        create_ranges_def args_free_syms_def)
  moreover note check_arguments_never_malformed [of "[PExpr (Var xS), rng ''x'' 0 1, rng ''x'' 2 3]" 1 1 0]
  ultimately show ?thesis by simp
qed

theorem check_arguments_one_expr_two_ranges_witness:
  "check_arguments [PExpr sinxy, rng ''x'' (-2) 2, rng ''y'' (-3) 3, PStr ''f2''] 1 2 0 =
   Inr ([([PExpr sinxy], [as_range (rng ''x'' (-2) 2), as_range (rng ''y'' (-3) 3)], ''f2'')], 0)"
  by (rule check_arguments_one_expr_two_ranges) auto

theorem check_arguments_parametric_pair_witness:
  "check_arguments [PExpr (Fn ''cos'' [Var xS]), PExpr (Fn ''sin'' [Var xS]), rng ''x'' (-2) 2, PStr ''name''] 2 1 0 =
   Inr ([([PExpr (Fn ''cos'' [Var xS]), PExpr (Fn ''sin'' [Var xS])], [as_range (rng ''x'' (-2) 2)], ''name'')], 0)"
  by (rule check_arguments_parametric_pair) auto

theorem check_arguments_index_error_witness:
  "check_arguments [rng ''x'' 0 1, PStr ''lbl''] 1 1 0 = Inl IndexError"
  by (rule check_arguments_index_error) (auto simp: rng_def)

theorem check_group_npar_unchecked_witness:
  "check_group [] [] 1 1 False [PExpr (Fn ''Mul'' [Var xS, Var yS]), rng ''x'' 0 1, PStr ''f''] 0 =
     Inr (([PExpr (Fn ''Mul'' [Var xS, Var yS])], [as_range (rng ''x'' 0 1)], ''f''), 0) \<and>
   1 < card (free_syms (Fn ''Mul'' [Var xS, Var yS]))"
proof -
  have "check_group [] [] 1 1 False [PExpr (Fn ''Mul'' [Var xS, Var yS]), rng ''x'' 0 1, PStr ''f''] 0 =
     Inr (([PExpr (Fn ''Mul'' [Var xS, Var yS])], [as_range (rng ''x'' 0 1)], ''f''), 0)"
    using check_group_npar_unchecked [of "[PExpr (Fn ''Mul'' [Var xS, Var yS]), rng ''x'' 0 1, PStr ''f'']" 1]
    by (simp add: str_val_def)
  then show ?thesis by simp
qed

theorem check_groups_order_witness:
  "map fst (fst (projr (check_groups [] [] 1 1 [PTup [PExpr (Var xS), rng ''x'' 0 1], PTup [PExpr (Var yS), PStr ''g'']] 0)))
     = [[PExpr (Var xS)], [PExpr (Var yS)]]"
proof -
  obtain out d' where h: "check_groups [] [] 1 1 [PTup [PExpr (Var xS), rng ''x'' 0 1], PTup [PExpr (Var yS), PStr ''g'']] 0
      = Inr (out, d')"
    by (simp add: rng_def check_group_def Let_def create_ranges_def fill_ranges_def missing_syms_def
        range_syms_def args_free_syms_def default_range_def range_sym_def str_val_def)
  from check_groups_order [OF h] h show ?thesis by (simp add: rng_def)
qed

theorem check_arguments_shared_series_witness:
  "create_ranges (\<Union>e\<in>set [Var xS, Fn ''pow'' [Var xS, Num 2 0]]. free_syms e) [] 1 0 = Inr ([default_range xS], 0) \<and>
   check_arguments (map PExpr [Var xS, Fn ''pow'' [Var xS, Num 2 0]] @ map range_parg [] @ [PStr ''f'']) 1 1 0 =
     Inr ([([PExpr (Var xS)], [default_range xS], ''f''), ([PExpr (Fn ''pow'' [Var xS, Num 2 0])], [default_range xS], ''f'')], 0)"
proof -
  have c: "create_ranges (\<Union>e\<in>set [Var xS, Fn ''pow'' [Var xS, Num 2 0]]. free_syms e) [] 1 0 = Inr ([default_range xS], 0)"
    by code_simp
  from check_arguments_shared_series[OF _ _ c, of "''f''"] c show ?thesis by simp
qed

theorem unpack_args_roundtrip_witness:
  "unpack_args False [PExpr (Fn ''sin'' [Var xS]), rng ''x'' (-10) 10, PStr ''f1''] =
     ([PExpr (Fn ''sin'' [Var xS])], [rng ''x'' (-10) 10], ''f1'') \<and>
   unpack_args False [PExpr sinxy, rng ''x'' (-2) 2, rng ''y'' (-3) 3, PStr []] =
     ([PExpr sinxy], [rng ''x'' (-2) 2, rng ''y'' (-3) 3], ''sin(Add(x, y))'')"
  using unpack_args_roundtrip [of "[PExpr (Fn ''sin'' [Var xS])]" "[rng ''x'' (-10) 10]" "''f1''"]
        unpack_args_roundtrip [of "[PExpr sinxy]" "[rng ''x'' (-2) 2, rng ''y'' (-3) 3]" "[]"]
  by (simp add: sep_join.simps)

theorem split_vector_error_witness:
  "split_vector (PExpr (Var xS)) [] True = Inl TypeError"
  using split_vector_error [of "PExpr (Var xS)" "[]" True TypeError] by simp

theorem split_vector_components_witness:
  "split_vector (PTup [PExpr (Var yS), PExpr (Var xS)]) [] True =
     Inr ((PExpr (Var yS), PExpr (Var xS), PExpr (Num 0 0)), [default_range xS, default_range yS])"
proof -
  have h: "split_vector (PTup [PExpr (Var yS), PExpr (Var xS)]) [] True =
     Inr ((PExpr (Var yS), PExpr (Var xS), PExpr (Num 0 0)), [default_range xS, default_range yS])"
    by code_simp
  from split_vector_components [OF h] h show ?thesis by simp
qed

theorem split_vector_covers_witness:
  "PExpr (Var yS) \<in> range_syms [default_range xS, default_range yS]"
proof -
  have h: "split_vector (PTup [PExpr (Var yS), PExpr (Var xS)]) [] True =
     Inr ((PExpr (Var yS), PExpr (Var xS), PExpr (Num 0 0)), [default_range xS, default_range yS])"
    by code_simp
  have "card (args_free_syms (tuple_items (PTup [PExpr (Var yS), PExpr (Var xS)]))) = 2"
    by (simp add: args_free_syms_def)
  with split_vector_covers [OF h] show ?thesis by (simp add: args_free_syms_def)
qed

lemma check_arguments_typed_witness:
  "list_all args_typed [PExpr (Var xS), rng ''x'' 0 1] \<and>
   check_arguments [PExpr (Var xS), rng ''x'' 0 1] 1 1 0 = Inr ([([PExpr (Var xS)], [as_range (rng ''x'' 0 1)], ''x'')], 0) \<and>
   tuples_typed [([PExpr (Var xS)], [as_range (rng ''x'' 0 1)], ''x'')]"
proof -
  have a: "list_all args_typed [PExpr (Var xS), rng ''x'' 0 1]" by (simp add: rng_def)
  have c: "check_arguments [PExpr (Var xS), rng ''x'' 0 1] 1 1 0 = Inr ([([PExpr (Var xS)], [as_range (rng ''x'' 0 1)], ''x'')], 0)"
    by code_simp
  from check_arguments_typed[OF a c] a c show ?thesis by simp
qed

end
