(* ===== verification/Complex_Dispatch.thy ===== *)
theory Complex_Dispatch
  imports Arguments
begin

text \<open>
  The complex-function series dispatcher.  \<open>src/spb/ccomplex/complex.py\<close>:
  \<open>_build_series\<close> (lines 102--230) turns each canonical argument tuple into one series
  per enabled projection (real, imaginary, modulus, argument, modulus coloured by argument),
  \<open>_plot_complex\<close> (233--256) warns when no series results, and the entry points
  \<open>plot_real_imag\<close> (298--647) and \<open>plot_complex\<close> (650--971) fix the projection flags.
  \<open>src/spb/complex.py\<close>: the older \<open>complex_plot\<close> (12--201), which calls the
  argument unpacker of \<open>utils.py\<close> and makes a real and an imaginary series for a function
  over a line.  Keyword arguments are a map from names to values; \<open>pop\<close>,
  \<open>setdefault\<close>, \<open>copy\<close> and item assignment are map operations.  A series is a record of
  the constructor it was built with and the arguments it received.  SymPy's \<open>complex()\<close>
  of a range end is the interface function \<open>cv\<close>, a parameter of the model: every lemma
  holds for any \<open>cv\<close>.
\<close>

section \<open>Keyword arguments\<close>

datatype kwval = KBool bool | KInt int | KStr string | KNone | KObj string | KFun "bool \<Rightarrow> string"

type_synonym kwargs = "string \<rightharpoonup> kwval"

text \<open>Python truthiness of a keyword value (\<open>if flag:\<close>).\<close>

fun truthy :: "kwval \<Rightarrow> bool" where
  "truthy (KBool b) = b"
| "truthy (KInt i) = (i \<noteq> 0)"
| "truthy (KStr s) = (s \<noteq> [])"
| "truthy KNone = False"
| "truthy (KObj n) = True"
| "truthy (KFun f) = True"

definition kw_pop :: "string \<Rightarrow> kwval \<Rightarrow> kwargs \<Rightarrow> kwval \<times> kwargs" where
  "kw_pop k dflt kw = ((case kw k of Some v \<Rightarrow> v | None \<Rightarrow> dflt), kw(k := None))"

definition kw_setdefault :: "string \<Rightarrow> kwval \<Rightarrow> kwargs \<Rightarrow> kwargs" where
  "kw_setdefault k v kw = (case kw k of Some _ \<Rightarrow> kw | None \<Rightarrow> kw(k \<mapsto> v))"

definition kw_get :: "string \<Rightarrow> kwval \<Rightarrow> kwargs \<Rightarrow> kwval" where
  "kw_get k dflt kw = (case kw k of Some v \<Rightarrow> v | None \<Rightarrow> dflt)"

section \<open>Series\<close>

text \<open>The projections, their keyword names and the label templates of \<open>mapping\<close> (lines 113--122).\<close>

datatype proj = PAbsarg | PReal | PImag | PAbs | PArg

fun proj_key :: "proj \<Rightarrow> string" where
  "proj_key PAbsarg = ''absarg''"
| "proj_key PReal = ''real''"
| "proj_key PImag = ''imag''"
| "proj_key PAbs = ''abs''"
| "proj_key PArg = ''arg''"

fun proj_wrap :: "proj \<Rightarrow> string \<Rightarrow> string" where
  "proj_wrap PReal l = ''Re('' @ l @ '')''"
| "proj_wrap PImag l = ''Im('' @ l @ '')''"
| "proj_wrap PAbs l = ''Abs('' @ l @ '')''"
| "proj_wrap PAbsarg l = ''Arg('' @ l @ '')''"
| "proj_wrap PArg l = ''Arg('' @ l @ '')''"

text \<open>The order of the \<open>add_series\<close> calls (lines 222--226) and the \<open>pop\<close> defaults (191--195).\<close>

definition proj_order :: "proj list" where
  "proj_order = [PAbsarg, PReal, PImag, PAbs, PArg]"

fun proj_default :: "proj \<Rightarrow> bool" where
  "proj_default PAbsarg = True"
| "proj_default _ = False"

text \<open>A complex number \<open>re + im*I\<close>; a range after line 168: symbol and complex ends.\<close>

type_synonym cnum = "int \<times> int"
type_synonym crange = "parg \<times> cnum \<times> cnum"

datatype fexpr = SymExpr parg | PyCallable string

fun fexpr_str :: "fexpr \<Rightarrow> string" where
  "fexpr_str (SymExpr p) = parg_str p"
| "fexpr_str (PyCallable n) = n"

fun is_callable :: "fexpr \<Rightarrow> bool" where
  "is_callable (PyCallable n) = True"
| "is_callable _ = False"

datatype skind = LineOver1DRange | ComplexSurfaceBase | ComplexSeriesK | ComplexPoint

record cseries =
  s_kind :: skind
  s_expr :: fexpr
  s_ranges :: "crange list"
  s_label :: string
  s_kw :: kwargs

section \<open>\<open>_build_series\<close>\<close>

text \<open>Lines 191--195: the five flags are popped from the keyword arguments.\<close>

definition pop_flags :: "kwargs \<Rightarrow> (proj \<Rightarrow> bool) \<times> kwargs" where
  "pop_flags kw =
     (case kw_pop ''absarg'' (KBool True) kw of (a, kw1) \<Rightarrow>
      case kw_pop ''real'' (KBool False) kw1 of (r, kw2) \<Rightarrow>
      case kw_pop ''imag'' (KBool False) kw2 of (i, kw3) \<Rightarrow>
      case kw_pop ''abs'' (KBool False) kw3 of (ab, kw4) \<Rightarrow>
      case kw_pop ''arg'' (KBool False) kw4 of (ar, kw5) \<Rightarrow>
        ((\<lambda>p. case p of PAbsarg \<Rightarrow> truthy a | PReal \<Rightarrow> truthy r | PImag \<Rightarrow> truthy i
                      | PAbs \<Rightarrow> truthy ab | PArg \<Rightarrow> truthy ar), kw5))"

text \<open>
  One \<open>add_series(flag, key)\<close> call with its flag set (lines 199--220): a copy of the keyword
  arguments with the projection's flag and \<open>return\<close> set; a line series over a line, a
  surface series over a 2D domain, where the \<open>absarg\<close> label is not wrapped.
\<close>

definition proj_series :: "bool \<Rightarrow> fexpr \<Rightarrow> crange list \<Rightarrow> string \<Rightarrow> kwargs \<Rightarrow> proj \<Rightarrow> cseries" where
  "proj_series line e rs label kw p =
     (let kw2 = kw(proj_key p \<mapsto> KBool True, ''return'' \<mapsto> KStr (proj_key p))
      in if line then \<lparr>s_kind = LineOver1DRange, s_expr = e, s_ranges = rs,
                       s_label = proj_wrap p label, s_kw = kw2\<rparr>
         else \<lparr>s_kind = ComplexSurfaceBase, s_expr = e, s_ranges = rs,
               s_label = (if p = PAbsarg then label else proj_wrap p label), s_kw = kw2\<rparr>)"

text \<open>\<open>(r[0], complex(r[1]), complex(r[2]))\<close> of line 168, with SymPy's \<open>complex\<close> as \<open>cv\<close>.\<close>

definition crange_of :: "(parg \<Rightarrow> cnum) \<Rightarrow> range \<Rightarrow> crange" where
  "crange_of cv r = (case r of (s, a, b) \<Rightarrow> (s, cv a, cv b))"

text \<open>Line 197: the first range is a line when its ends have the same imaginary part.\<close>

definition is_line :: "crange \<Rightarrow> bool" where
  "is_line r = (snd (fst (snd r)) = snd (snd (snd r)))"

type_synonym new_arg = "fexpr \<times> range list \<times> string option \<times> kwval"

text \<open>
  The body of the loop of line 154 for one tuple \<open>(expr, *ranges, label, rendering_kw)\<close>:
  default label, copy of the keyword arguments with \<open>rendering_kw\<close>, callable check,
  complex range ends, flags, line or 2D domain by the imaginary parts of the first range's
  ends (\<open>ranges[0]\<close> of an empty list raises), default colouring for a 2D domain, then
  the enabled projections in the fixed order.
\<close>

definition build_one ::
  "(parg \<Rightarrow> cnum) \<Rightarrow> bool \<Rightarrow> kwval \<Rightarrow> kwargs \<Rightarrow> new_arg \<Rightarrow> cseries list result" where
  "build_one cv allow_lambda coloring kwargs a =
     (case a of (e, rs, lbl, rkw) \<Rightarrow>
        let label = (case lbl of None \<Rightarrow> fexpr_str e | Some l \<Rightarrow> l);
            kw = kwargs(''rendering_kw'' \<mapsto> rkw)
        in if \<not> allow_lambda \<and> is_callable e then Inl TypeError
           else let crs = map (crange_of cv) rs in
             case pop_flags kw of (flags, kw') \<Rightarrow>
             (case crs of
                [] \<Rightarrow> Inl IndexError
              | r0 # _ \<Rightarrow>
                  let line = is_line r0;
                      kw'' = (if line then kw' else kw_setdefault ''coloring'' coloring kw')
                  in Inr (map (proj_series line e crs label kw'') (filter flags proj_order))))"

text \<open>
  The loop of lines 154--226 over the canonical tuples, after the global \<open>label\<close> and
  \<open>rendering_kw\<close> are popped and \<open>modules\<close> defaulted (lines 103--104, 123); the
  series of all tuples are concatenated in order.  (\<open>_set_labels\<close> and
  \<open>_plot3d_wireframe_helper\<close> of lines 228--229 live in \<open>spb.functions\<close>, which is not
  in the repository snapshot.)
\<close>

definition build_kwargs :: "kwval \<Rightarrow> kwargs \<Rightarrow> kwargs" where
  "build_kwargs modules kwargs = kw_setdefault ''modules'' modules (kwargs(''label'' := None, ''rendering_kw'' := None))"

definition build_loop ::
  "(parg \<Rightarrow> cnum) \<Rightarrow> bool \<Rightarrow> kwval \<Rightarrow> kwargs \<Rightarrow> new_arg list \<Rightarrow> cseries list result" where
  "build_loop cv allow_lambda coloring kw new_args =
     rfold (\<lambda>a acc. rbind (build_one cv allow_lambda coloring kw a) (\<lambda>ss. Inr (acc @ ss))) new_args []"

text \<open>
  Lines 124--152, as composed with the \<open>utils.py\<close> of the repository: every call of
  \<open>add_series\<close> passes the keyword arguments, which always hold \<open>modules\<close>, to
  \<open>_check_arguments(args, nexpr, npar)\<close>, which takes no keyword arguments
  (\<open>TypeError\<close>); \<open>_unpack_args\<close> returns three values, which line 147 unpacks into
  four (\<open>ValueError\<close>).  When every argument is a tuple and every tuple a range,
  \<open>tmp\<close> is empty and no tuple is produced.
\<close>

definition build_front :: "parg list \<Rightarrow> new_arg list result" where
  "build_front args =
     (if list_all is_tuple args
      then (if length (filter is_range args) < length args then Inl TypeError else Inr [])
      else (case unpack_args False args of (exprs, r, label) \<Rightarrow> Inl ValueError))"

text \<open>
  The two helpers of \<open>spb.functions\<close> (not in the repository) that \<open>_build_series\<close>
  and \<open>_build_complex_point_series\<close> call last: \<open>_set_labels(series, global_labels,
  global_rendering_kw)\<close> (the popped \<open>label\<close>, \<open>None\<close> when absent and then \<open>[]\<close>, and the
  popped \<open>rendering_kw\<close>), which may raise and otherwise yields the relabelled series,
  and \<open>_plot3d_wireframe_helper(series, **kwargs)\<close>, whose series are appended.
\<close>

record series_ext =
  ext_set_labels :: "cseries list \<Rightarrow> kwval option \<Rightarrow> kwval \<Rightarrow> cseries list result"
  ext_wireframe :: "cseries list \<Rightarrow> kwargs \<Rightarrow> cseries list result"

text \<open>\<open>_build_series\<close> (lines 100--230): the front end, the loop, then lines 228--229.\<close>

definition build_series ::
  "series_ext \<Rightarrow> (parg \<Rightarrow> cnum) \<Rightarrow> bool \<Rightarrow> kwval \<Rightarrow> kwval \<Rightarrow> kwargs \<Rightarrow> parg list \<Rightarrow> cseries list result" where
  "build_series ext cv allow_lambda modules coloring kwargs args =
     (let kw = build_kwargs modules kwargs
      in rbind (build_front args) (\<lambda>new_args.
         rbind (build_loop cv allow_lambda coloring kw new_args) (\<lambda>series.
         rbind (ext_set_labels ext series (kwargs ''label'') (kw_get ''rendering_kw'' KNone kwargs)) (\<lambda>series.
         rbind (ext_wireframe ext series kw) (\<lambda>wf. Inr (series @ wf))))))"

text \<open>\<open>_plot_complex\<close> up to the warning of line 244: the series and whether it warned.\<close>

definition plot_complex_series ::
  "series_ext \<Rightarrow> (parg \<Rightarrow> cnum) \<Rightarrow> bool \<Rightarrow> kwval \<Rightarrow> kwval \<Rightarrow> kwargs \<Rightarrow> parg list \<Rightarrow> (cseries list \<times> bool) result" where
  "plot_complex_series ext cv allow_lambda modules coloring kwargs args =
     rbind (build_series ext cv allow_lambda modules coloring kwargs args) (\<lambda>ss. Inr (ss, ss = []))"

text \<open>Helpers that leave the series as they are and add no wireframe.\<close>

definition ext_plain :: series_ext where
  "ext_plain = \<lparr>ext_set_labels = (\<lambda>ss l r. Inr ss), ext_wireframe = (\<lambda>ss kw. Inr [])\<rparr>"

text \<open>The flags \<open>plot_real_imag\<close> (lines 642--647) and \<open>plot_complex\<close> (966--971) set.\<close>

definition real_imag_kwargs :: "kwargs \<Rightarrow> kwargs" where
  "real_imag_kwargs kw =
     kw_setdefault ''imag'' (KBool True) (kw_setdefault ''real'' (KBool True)
       (kw_setdefault ''arg'' (KBool False) (kw_setdefault ''abs'' (KBool False) (kw(''absarg'' \<mapsto> KBool False)))))"

definition complex_kwargs :: "kwargs \<Rightarrow> kwargs" where
  "complex_kwargs kw =
     kw(''absarg'' \<mapsto> KBool True, ''real'' \<mapsto> KBool False, ''imag'' \<mapsto> KBool False,
        ''abs'' \<mapsto> KBool False, ''arg'' \<mapsto> KBool False)"

section \<open>The older \<open>complex_plot\<close> of \<open>src/spb/complex.py\<close>\<close>

text \<open>
  \<open>a.is_complex\<close>: true of numbers, \<open>None\<close> (false) of symbolic expressions and of
  \<open>Tuple\<close>s; a Python string has no such attribute.
\<close>

fun is_complex_arg :: "parg \<Rightarrow> bool result" where
  "is_complex_arg (PExpr e) = Inr (expr_is_number e)"
| "is_complex_arg (PStr s) = Inl AttributeError"
| "is_complex_arg (PTup xs) = Inr False"

text \<open>The list comprehension \<open>[a.is_complex for a in args]\<close>: evaluated in full, raising at the first string.\<close>

fun all_complex :: "parg list \<Rightarrow> bool result" where
  "all_complex [] = Inr True"
| "all_complex (a # as) = rbind (is_complex_arg a) (\<lambda>b. rbind (all_complex as) (\<lambda>c. Inr (b \<and> c)))"

text \<open>\<open>(r[0], complex(r[1]), complex(r[2]))\<close> of line 166; anything but a 3-tuple cannot be unpacked so.\<close>

fun to_crange :: "(parg \<Rightarrow> cnum) \<Rightarrow> parg \<Rightarrow> crange result" where
  "to_crange cv (PTup [s, a, b]) = Inr (s, cv a, cv b)"
| "to_crange cv (PTup xs) = Inl IndexError"
| "to_crange cv _ = Inl TypeError"

fun map_result :: "('a \<Rightarrow> 'b result) \<Rightarrow> 'a list \<Rightarrow> 'b list result" where
  "map_result f [] = Inr []"
| "map_result f (x # xs) = rbind (f x) (\<lambda>y. rbind (map_result f xs) (\<lambda>ys. Inr (y # ys)))"

definition cseries_of :: "fexpr \<Rightarrow> crange list \<Rightarrow> string \<Rightarrow> kwargs \<Rightarrow> cseries" where
  "cseries_of e rs l kw = \<lparr>s_kind = ComplexSeriesK, s_expr = e, s_ranges = rs, s_label = l, s_kw = kw\<rparr>"

text \<open>
  The loop of lines 160--193 for one canonical tuple \<open>a = (*e, *ranges, label)\<close>:
  \<open>expr, ranges, label = a[0], a[1:-1], a[-1]\<close>.
\<close>

definition complex_plot_one :: "(parg \<Rightarrow> cnum) \<Rightarrow> kwargs \<Rightarrow> plot_tuple \<Rightarrow> cseries list result" where
  "complex_plot_one cv kwargs t =
     (case t of (es, rs, label) \<Rightarrow>
        let flat = es @ map range_parg rs;
            expr = hd flat;
            rargs = tl flat
        in rbind (map_result (to_crange cv) rargs) (\<lambda>crs.
           rbind (is_complex_arg expr) (\<lambda>c.
             if c then Inr [cseries_of (SymExpr (PTup [expr])) [] label kwargs]
             else case crs of
               [] \<Rightarrow> Inl IndexError
             | r0 # _ \<Rightarrow>
                 if is_line r0 \<and> \<not> truthy (kw_get ''absarg'' (KBool False) kwargs)
                 then Inr [cseries_of (SymExpr expr) crs label (kwargs(''real'' \<mapsto> KBool True, ''imag'' \<mapsto> KBool False)),
                           cseries_of (SymExpr expr) crs label (kwargs(''real'' \<mapsto> KBool False, ''imag'' \<mapsto> KBool True))]
                 else Inr [cseries_of (SymExpr expr) crs label kwargs])))"

text \<open>
  \<open>complex_plot\<close> up to the construction of the plot: complex numbers, lists of points
  with labels, or functions through \<open>_check_arguments(args, 1, 1)\<close>.  Returns the series
  and the dummy counter.
\<close>

definition complex_plot_series ::
  "(parg \<Rightarrow> cnum) \<Rightarrow> kwargs \<Rightarrow> parg list \<Rightarrow> nat \<Rightarrow> (cseries list \<times> nat) result" where
  "complex_plot_series cv kwargs0 args d =
     (let kwargs = kw_setdefault ''aspect'' (KStr ''equal'') kwargs0
      in rbind (all_complex args) (\<lambda>allc.
         if allc then Inr (map (\<lambda>a. cseries_of (SymExpr (PTup [a])) [] (parg_str a) kwargs) args, d)
         else if args \<noteq> [] \<and> list_all is_tuple args \<and> list_all (\<lambda>a. tuple_items a \<noteq> []) args
                 \<and> list_all (\<lambda>a. is_tuple (hd (tuple_items a))) args
         then Inr (map (\<lambda>a. cseries_of (SymExpr (hd (tuple_items a))) [] (str_val (last (tuple_items a))) kwargs) args, d)
         else rbind (check_arguments args 1 1 d) (\<lambda>(ts, d').
                rbind (rfold (\<lambda>t acc. rbind (complex_plot_one cv kwargs t) (\<lambda>ss. Inr (acc @ ss))) ts [])
                  (\<lambda>ss. Inr (ss, d')))))"

text \<open>
  \<open>complex_plot(*args, **kwargs)\<close> (lines 139--198): sympify the arguments, the
  discretization defaults of \<open>spb.series\<close> (the parameter \<open>disc\<close>), the series above,
  and the keyword arguments the \<open>Plot\<close> receives, with \<open>backend\<close> defaulted to
  \<open>TWO_D_B\<close>.
\<close>

definition complex_plot ::
  "(parg \<Rightarrow> cnum) \<Rightarrow> (kwargs \<Rightarrow> kwargs) \<Rightarrow> kwval \<Rightarrow> kwargs \<Rightarrow> pyval list \<Rightarrow> nat \<Rightarrow>
   ((cseries list \<times> kwargs) \<times> nat) result" where
  "complex_plot cv disc two_d kwargs0 args0 d =
     (let kwargs = disc kwargs0
      in rbind (complex_plot_series cv kwargs (plot_sympify args0) d) (\<lambda>(ss, d').
           Inr ((ss, kw_setdefault ''backend'' two_d (kw_setdefault ''aspect'' (KStr ''equal'') kwargs)), d')))"

section \<open>Abstract reading of the flags\<close>

text \<open>
  What the five \<open>pop\<close> calls of lines 191--195 read: the truth value of each projection's
  keyword, with its default; the keyword arguments left after the pops; the keyword
  arguments each series of one tuple starts from.
\<close>


definition flag_of :: "kwargs \<Rightarrow> proj \<Rightarrow> bool" where
  "flag_of kw p = truthy (kw_get (proj_key p) (KBool (proj_default p)) kw)"

definition pop_keys :: "kwargs \<Rightarrow> kwargs" where
  "pop_keys kw = kw(''absarg'' := None, ''real'' := None, ''imag'' := None, ''abs'' := None, ''arg'' := None)"

definition series_kw :: "bool \<Rightarrow> kwval \<Rightarrow> kwargs \<Rightarrow> kwval \<Rightarrow> kwargs" where
  "series_kw line col kw rkw =
     (if line then pop_keys (kw(''rendering_kw'' \<mapsto> rkw))
      else kw_setdefault ''coloring'' col (pop_keys (kw(''rendering_kw'' \<mapsto> rkw))))"

text \<open>Concrete arguments of the examples.\<close>

abbreviation "zS \<equiv> Sym ''z''"
abbreviation "sqrt_z \<equiv> SymExpr (PExpr (Fn ''sqrt'' [Var zS]))"
abbreviation "cv_lit \<equiv> (\<lambda>p. case p of PExpr (Num a b) \<Rightarrow> (a, b) | _ \<Rightarrow> (0, 0))"
abbreviation "line_z \<equiv> (PExpr (Var zS), PExpr (Num (-3) 0), PExpr (Num 3 0))"
abbreviation "box_z \<equiv> (PExpr (Var zS), PExpr (Num (-3) (-3)), PExpr (Num 3 3))"

section \<open>Lemmas on one tuple\<close>

lemma pop_flags_eq: "pop_flags kw = (flag_of kw, pop_keys kw)"
proof -
  have "fst (pop_flags kw) = flag_of kw"
  proof
    fix p show "fst (pop_flags kw) p = flag_of kw p"
      by (cases p) (simp_all add: pop_flags_def kw_pop_def flag_of_def kw_get_def)
  qed
  moreover have "snd (pop_flags kw) = pop_keys kw"
    by (simp add: pop_flags_def kw_pop_def pop_keys_def)
  ultimately show ?thesis by (metis prod.collapse)
qed

lemma proj_key_inj: "proj_key p = proj_key q \<longleftrightarrow> p = q"
  by (cases p; cases q) simp_all

lemma proj_key_ne_rendering [simp]: "proj_key p \<noteq> ''rendering_kw''" "proj_key p \<noteq> ''return''"
  "proj_key p \<noteq> ''coloring''" "''coloring'' \<noteq> proj_key p"
  by (cases p; simp)+

lemma flag_of_rendering [simp]: "flag_of (kw(''rendering_kw'' \<mapsto> v)) = flag_of kw"
proof
  fix p show "flag_of (kw(''rendering_kw'' \<mapsto> v)) p = flag_of kw p"
    by (cases p) (simp_all add: flag_of_def kw_get_def)
qed

lemma build_one_Cons:
  "build_one cv al col kw (e, r # rs, lbl, rkw) =
     (if \<not> al \<and> is_callable e then Inl TypeError
      else Inr (map (proj_series (is_line (crange_of cv r)) e (map (crange_of cv) (r # rs))
                       (case lbl of None \<Rightarrow> fexpr_str e | Some l \<Rightarrow> l)
                       (series_kw (is_line (crange_of cv r)) col kw rkw))
                 (filter (flag_of kw) proj_order)))"
  by (simp add: build_one_def pop_flags_eq series_kw_def Let_def)

lemma build_one_Nil: "build_one cv al col kw (e, [], lbl, rkw) = (if \<not> al \<and> is_callable e then Inl TypeError else Inl IndexError)"
  by (simp add: build_one_def pop_flags_eq Let_def)

lemma build_one_Inr:
  "build_one cv al col kw a = Inr ss \<longleftrightarrow>
     (\<exists>e r rs lbl rkw. a = (e, r # rs, lbl, rkw) \<and> (al \<or> \<not> is_callable e) \<and>
        ss = map (proj_series (is_line (crange_of cv r)) e (map (crange_of cv) (r # rs))
                       (case lbl of None \<Rightarrow> fexpr_str e | Some l \<Rightarrow> l)
                       (series_kw (is_line (crange_of cv r)) col kw rkw))
                 (filter (flag_of kw) proj_order))"
  apply (cases a)
  subgoal for e rs lbl rkw by (cases rs) (auto simp: build_one_Cons build_one_Nil)
  done

lemma s_kw_proj_series [simp]:
  "s_kw (proj_series line e rs l kw p) = kw(proj_key p \<mapsto> KBool True, ''return'' \<mapsto> KStr (proj_key p))"
  by (simp add: proj_series_def Let_def)

lemma s_expr_proj_series [simp]: "s_expr (proj_series line e rs l kw p) = e"
  by (simp add: proj_series_def Let_def)

lemma s_ranges_proj_series [simp]: "s_ranges (proj_series line e rs l kw p) = rs"
  by (simp add: proj_series_def Let_def)

lemma s_kind_proj_series [simp]:
  "s_kind (proj_series line e rs l kw p) = (if line then LineOver1DRange else ComplexSurfaceBase)"
  by (simp add: proj_series_def Let_def)

lemma s_label_proj_series [simp]:
  "s_label (proj_series line e rs l kw p) = (if \<not> line \<and> p = PAbsarg then l else proj_wrap p l)"
  by (simp add: proj_series_def Let_def)

lemma series_kw_flags [simp]: "series_kw line col kw rkw (proj_key q) = None"
  by (cases q) (simp_all add: series_kw_def pop_keys_def kw_setdefault_def split: option.split)

lemma series_kw_coloring:
  "\<not> line \<Longrightarrow> series_kw line col kw rkw ''coloring'' = Some (kw_get ''coloring'' col kw)"
  by (simp add: series_kw_def pop_keys_def kw_setdefault_def kw_get_def split: option.split)


lemma flag_of_real_imag:
  assumes "kw ''real'' = None" "kw ''imag'' = None" "kw ''abs'' = None" "kw ''arg'' = None"
  shows "flag_of (real_imag_kwargs kw) = (\<lambda>p. p = PReal \<or> p = PImag)"
proof
  fix p show "flag_of (real_imag_kwargs kw) p = (p = PReal \<or> p = PImag)"
    using assms by (cases p) (simp_all add: flag_of_def kw_get_def real_imag_kwargs_def kw_setdefault_def)
qed

lemma flag_of_complex: "flag_of (complex_kwargs kw) = (\<lambda>p. p = PAbsarg)"
proof
  fix p show "flag_of (complex_kwargs kw) p = (p = PAbsarg)"
    by (cases p) (simp_all add: flag_of_def kw_get_def complex_kwargs_def)
qed

lemma is_range_tuple: "is_range a \<Longrightarrow> is_tuple a"
  by (cases a rule: is_range.cases) simp_all

lemma all_complex_eq:
  "all_complex args = (if list_ex is_str args then Inl AttributeError else Inr (list_all (\<lambda>a. case a of PExpr e \<Rightarrow> expr_is_number e | _ \<Rightarrow> False) args))"
proof (induction args)
  case (Cons a as) then show ?case by (cases a) auto
qed simp

lemma to_crange_range_parg [simp]: "to_crange cv (range_parg r) = Inr (crange_of cv r)"
  by (cases r) (simp add: range_parg_def crange_of_def)

lemma map_result_range_parg [simp]: "map_result (to_crange cv) (map range_parg rs) = Inr (map (crange_of cv) rs)"
  by (induction rs) simp_all

section \<open>Properties\<close>

text \<open>
  For one canonical tuple, \<open>_build_series\<close> makes one series per enabled projection flag, tagged by the \<open>return\<close> keyword with that projection, in the fixed order absarg, real, imag, abs, arg, whatever order the flags were given in.
\<close>

theorem build_one_tags:
  assumes "build_one cv al col kw a = Inr ss"
  shows "map (\<lambda>s. s_kw s ''return'') ss = map (\<lambda>p. Some (KStr (proj_key p))) (filter (flag_of kw) proj_order)"
  using assms by (auto simp: build_one_Inr)

text \<open>
  C15. Each series of one tuple carries exactly one projection: its own flag is set to True, the other four flags are absent, and its \<open>return\<close> keyword names the same projection, which is an enabled one.
\<close>

theorem build_one_single_projection:
  assumes "build_one cv al col kw a = Inr ss" and "s \<in> set ss"
  shows "\<exists>p. flag_of kw p \<and> s_kw s ''return'' = Some (KStr (proj_key p)) \<and>
             (\<forall>q. s_kw s (proj_key q) = (if q = p then Some (KBool True) else None))"
  using assms by (auto simp: build_one_Inr proj_key_inj)

text \<open>
  Every projection series of one tuple evaluates the user expression itself, unchanged, over the same complex ranges; no symbolic real or imaginary part is taken.
\<close>

theorem build_one_same_expr:
  assumes "build_one cv al col kw (e, rs, lbl, rkw) = Inr ss" and "s \<in> set ss"
  shows "s_expr s = e \<and> s_ranges s = map (crange_of cv) rs"
  using assms by (auto simp: build_one_Inr)

text \<open>
  Over a line (equal imaginary parts of the first range ends) every series is a line series, labelled by the projection template applied to the base label, or to the string form of the expression when no label was given.
\<close>

theorem build_one_line:
  assumes "build_one cv al col kw (e, r # rs, lbl, rkw) = Inr ss" and "is_line (crange_of cv r)"
  shows "map s_kind ss = map (\<lambda>p. LineOver1DRange) (filter (flag_of kw) proj_order) \<and>
         map s_label ss = map (\<lambda>p. proj_wrap p (case lbl of None \<Rightarrow> fexpr_str e | Some l \<Rightarrow> l)) (filter (flag_of kw) proj_order)"
  using assms by (auto simp: build_one_Cons split: if_splits)

text \<open>
  Over a 2D domain every series is a complex surface series carrying a colouring scheme, the user one if given and the configured default otherwise; the absarg series keeps the bare label and the other projections wrap it.
\<close>

theorem build_one_domain:
  assumes "build_one cv al col kw (e, r # rs, lbl, rkw) = Inr ss" and "\<not> is_line (crange_of cv r)"
  shows "map s_label ss = map (\<lambda>p. if p = PAbsarg then (case lbl of None \<Rightarrow> fexpr_str e | Some l \<Rightarrow> l)
                                  else proj_wrap p (case lbl of None \<Rightarrow> fexpr_str e | Some l \<Rightarrow> l))
                              (filter (flag_of kw) proj_order) \<and>
         (\<forall>s\<in>set ss. s_kind s = ComplexSurfaceBase \<and> s_kw s ''coloring'' = Some (kw_get ''coloring'' col kw))"
  using assms by (auto simp: build_one_Cons series_kw_coloring split: if_splits)

text \<open>
  One canonical tuple with the flags of \<open>plot_real_imag\<close> left at their defaults, on a line, yields exactly two line series, labelled \<open>Re(f)\<close> and \<open>Im(f)\<close> in that order (one iteration of the loop of \<open>_build_series\<close>; the front end never hands the loop such a tuple, see \<open>build_series_eq\<close>).
\<close>

theorem build_one_real_imag_line:
  assumes "kw ''real'' = None" "kw ''imag'' = None" "kw ''abs'' = None" "kw ''arg'' = None"
    and "is_line (crange_of cv r)" and "\<not> is_callable e"
  shows "map (\<lambda>s. (s_kind s, s_label s)) (projr (build_one cv False col (real_imag_kwargs kw) (e, r # rs, Some l, rkw)))
         = [(LineOver1DRange, ''Re('' @ l @ '')''), (LineOver1DRange, ''Im('' @ l @ '')'')]"
  using assms by (simp add: build_one_Cons flag_of_real_imag proj_order_def)

text \<open>
  \<open>plot_complex\<close> on a 2D domain yields exactly one domain-colouring series, with the bare label and the absarg projection, also for a Python callable.
\<close>

theorem plot_complex_domain:
  assumes "\<not> is_line (crange_of cv r)"
  shows "map (\<lambda>s. (s_kind s, s_label s, s_kw s ''return''))
           (projr (build_one cv True col (complex_kwargs kw) (e, r # rs, Some l, rkw)))
         = [(ComplexSurfaceBase, l, Some (KStr ''absarg''))]"
  using assms by (simp add: build_one_Cons flag_of_complex proj_order_def)

text \<open>
  With every projection flag false, a tuple yields no series and no error.
\<close>

theorem build_one_no_flags:
  assumes "flag_of kw = (\<lambda>p. False)" and "\<not> is_callable e"
  shows "build_one cv al col kw (e, r # rs, lbl, rkw) = Inr []"
  using assms by (simp add: build_one_Cons)

text \<open>
  Unless lambdas are allowed, a Python callable is refused with a TypeError.
\<close>

theorem build_one_callable:
  "is_callable e \<Longrightarrow> build_one cv False col kw (e, rs, lbl, rkw) = Inl TypeError"
  by (simp add: build_one_def)

text \<open>
  When every tuple succeeds, the loop returns the series of the tuples concatenated in the order of the tuples.
\<close>

theorem build_loop_concat:
  assumes "\<forall>a\<in>set as. build_one cv al col kw a = Inr (f a)"
  shows "build_loop cv al col kw as = Inr (concat (map f as))"
  using assms rfold_concat[of "as" "build_one cv al col kw" f "[]"] by (simp add: build_loop_def)

text \<open>
  As composed with the argument helpers of \<open>utils.py\<close>, \<open>_build_series\<close> builds no
  series of its own: when every argument is a range only the two external helpers run,
  on the empty list; otherwise it raises, \<open>TypeError\<close> when all arguments are tuples,
  \<open>ValueError\<close> otherwise.
\<close>

lemma build_series_eq:
  "build_series ext cv al m col kw args =
     (if list_all is_range args
      then rbind (ext_set_labels ext [] (kw ''label'') (kw_get ''rendering_kw'' KNone kw)) (\<lambda>ss.
           rbind (ext_wireframe ext ss (build_kwargs m kw)) (\<lambda>wf. Inr (ss @ wf)))
      else if list_all is_tuple args then Inl TypeError else Inl ValueError)"
proof -
  have "list_all is_range args \<Longrightarrow> list_all is_tuple args"
    by (auto simp: list_all_iff is_range_tuple)
  then show ?thesis
    by (auto simp: build_series_def build_front_def build_loop_def length_filter_less_iff split: prod.split)
qed

lemma build_series_raises:
  "\<not> list_all is_range args \<Longrightarrow>
     build_series ext cv al m col kw args = Inl (if list_all is_tuple args then TypeError else ValueError)"
  by (simp add: build_series_eq)

text \<open>
  C32. The older \<open>complex_plot\<close> raises AttributeError whenever a top-level argument is a string, e.g. the label of \<open>complex_plot(expr, (z, -2, 2), "f")\<close>.
\<close>

theorem complex_plot_str_label:
  "list_ex is_str args \<Longrightarrow> complex_plot_series cv kw args d = Inl AttributeError"
  by (simp add: complex_plot_series_def all_complex_eq Let_def)

text \<open>
  The older \<open>complex_plot\<close> turns a non-numeric expression over a line, without \<open>absarg\<close>, into two complex series, the first with \<open>real\<close> and the second with \<open>imag\<close> set.
\<close>

theorem complex_plot_line:
  assumes "\<not> expr_is_number e" and "is_line (crange_of cv r)" and "kw ''absarg'' = None"
  shows "complex_plot_one cv kw ([PExpr e], r # rs, l) =
         Inr [cseries_of (SymExpr (PExpr e)) (map (crange_of cv) (r # rs)) l (kw(''real'' \<mapsto> KBool True, ''imag'' \<mapsto> KBool False)),
              cseries_of (SymExpr (PExpr e)) (map (crange_of cv) (r # rs)) l (kw(''real'' \<mapsto> KBool False, ''imag'' \<mapsto> KBool True))]"
  using assms by (simp add: complex_plot_one_def kw_get_def Let_def)

lemma complex_plot_kwargs:
  assumes "complex_plot cv disc two_d kw args d = Inr ((ss, kw'), d')"
  shows "kw' ''backend'' = (case disc kw ''backend'' of None \<Rightarrow> Some two_d | v \<Rightarrow> v) \<and>
         kw' ''aspect'' = (case disc kw ''aspect'' of None \<Rightarrow> Some (KStr ''equal'') | v \<Rightarrow> v)"
  using assms
  by (auto simp: complex_plot_def Let_def rbind_eq_Inr_iff kw_setdefault_def split: option.splits)

section \<open>Witnesses\<close>

lemma build_one_tags_witness:
  "build_one cv_lit False KNone (real_imag_kwargs Map.empty) (sqrt_z, [line_z], None, KNone) =
     Inr (projr (build_one cv_lit False KNone (real_imag_kwargs Map.empty) (sqrt_z, [line_z], None, KNone))) \<and>
   map (\<lambda>s. s_kw s ''return'') (projr (build_one cv_lit False KNone (real_imag_kwargs Map.empty) (sqrt_z, [line_z], None, KNone)))
     = [Some (KStr ''real''), Some (KStr ''imag'')]"
  using build_one_tags[of cv_lit False KNone "real_imag_kwargs Map.empty" "(sqrt_z, [line_z], None, KNone)"]
  by (simp add: build_one_Cons flag_of_real_imag proj_order_def)

lemma build_one_single_projection_witness:
  "\<exists>p. flag_of (complex_kwargs Map.empty) p \<and> s_kw (hd (projr (build_one cv_lit True KNone (complex_kwargs Map.empty) (sqrt_z, [box_z], None, KNone)))) ''return'' = Some (KStr (proj_key p)) \<and>
      (\<forall>q. s_kw (hd (projr (build_one cv_lit True KNone (complex_kwargs Map.empty) (sqrt_z, [box_z], None, KNone)))) (proj_key q) = (if q = p then Some (KBool True) else None))"
proof -
  let ?b = "build_one cv_lit True KNone (complex_kwargs Map.empty) (sqrt_z, [box_z], None, KNone)"
  have h: "?b = Inr (projr ?b)" and m: "hd (projr ?b) \<in> set (projr ?b)"
    by (simp_all add: build_one_Cons flag_of_complex proj_order_def)
  show ?thesis by (rule build_one_single_projection[OF h m])
qed

lemma build_one_line_witness:
  "build_one cv_lit False KNone (real_imag_kwargs Map.empty) (sqrt_z, [line_z], Some ''f'', KNone) =
     Inr (projr (build_one cv_lit False KNone (real_imag_kwargs Map.empty) (sqrt_z, [line_z], Some ''f'', KNone))) \<and>
   is_line (crange_of cv_lit line_z) \<and>
   map s_label (projr (build_one cv_lit False KNone (real_imag_kwargs Map.empty) (sqrt_z, [line_z], Some ''f'', KNone)))
     = [''Re(f)'', ''Im(f)'']"
  using build_one_line[of cv_lit False KNone "real_imag_kwargs Map.empty" sqrt_z line_z "[]" "Some ''f''" KNone]
  by (simp add: build_one_Cons flag_of_real_imag proj_order_def is_line_def crange_of_def)

lemma build_one_domain_witness:
  "build_one cv_lit False (KStr ''hsv'') (complex_kwargs Map.empty) (sqrt_z, [box_z], Some ''f'', KNone) =
     Inr (projr (build_one cv_lit False (KStr ''hsv'') (complex_kwargs Map.empty) (sqrt_z, [box_z], Some ''f'', KNone))) \<and>
   \<not> is_line (crange_of cv_lit box_z) \<and>
   map s_label (projr (build_one cv_lit False (KStr ''hsv'') (complex_kwargs Map.empty) (sqrt_z, [box_z], Some ''f'', KNone))) = [''f''] \<and>
   map (\<lambda>s. s_kw s ''coloring'') (projr (build_one cv_lit False (KStr ''hsv'') (complex_kwargs Map.empty) (sqrt_z, [box_z], Some ''f'', KNone)))
     = [Some (KStr ''hsv'')]"
proof -
  have "kw_get ''coloring'' (KStr ''hsv'') (complex_kwargs Map.empty) = KStr ''hsv''"
    by (simp add: kw_get_def complex_kwargs_def)
  then show ?thesis
    using build_one_domain[of cv_lit False "KStr ''hsv''" "complex_kwargs Map.empty" sqrt_z box_z "[]" "Some ''f''" KNone]
    by (simp add: build_one_Cons flag_of_complex proj_order_def is_line_def crange_of_def)
qed

lemma build_one_real_imag_line_witness:
  "map (\<lambda>s. (s_kind s, s_label s)) (projr (build_one cv_lit False KNone (real_imag_kwargs Map.empty) (sqrt_z, [line_z], Some ''f'', KNone)))
     = [(LineOver1DRange, ''Re(f)''), (LineOver1DRange, ''Im(f)'')]"
  using build_one_real_imag_line[where kw = Map.empty and cv = cv_lit and r = line_z and e = sqrt_z and rs = "[]"
      and col = KNone and l = "''f''" and rkw = KNone]
  by (simp add: is_line_def crange_of_def)

lemma plot_complex_domain_witness:
  "map (\<lambda>s. (s_kind s, s_label s, s_kw s ''return''))
     (projr (build_one cv_lit True KNone (complex_kwargs Map.empty) (PyCallable ''f'', [box_z], Some ''f'', KNone)))
   = [(ComplexSurfaceBase, ''f'', Some (KStr ''absarg''))]"
  using plot_complex_domain[of cv_lit box_z KNone "Map.empty" "PyCallable ''f''" "[]" "''f''" KNone]
  by (simp add: is_line_def crange_of_def)

lemma build_one_no_flags_witness:
  "build_one cv_lit False KNone (Map.empty(''absarg'' \<mapsto> KBool False)) (sqrt_z, [line_z], None, KNone) = Inr []"
proof -
  have "flag_of (Map.empty(''absarg'' \<mapsto> KBool False)) = (\<lambda>p. False)"
  proof
    fix p show "flag_of (Map.empty(''absarg'' \<mapsto> KBool False)) p = False"
      by (cases p) (simp_all add: flag_of_def kw_get_def)
  qed
  then show ?thesis by (rule build_one_no_flags) simp
qed

lemma build_one_callable_witness:
  "build_one cv_lit False KNone Map.empty (PyCallable ''f'', [line_z], None, KNone) = Inl TypeError"
  by (rule build_one_callable) simp

lemma build_loop_concat_witness:
  "build_loop cv_lit False KNone (complex_kwargs Map.empty) [(sqrt_z, [line_z], None, KNone), (sqrt_z, [box_z], None, KNone)]
   = Inr (concat (map (\<lambda>a. projr (build_one cv_lit False KNone (complex_kwargs Map.empty) a))
                   [(sqrt_z, [line_z], None, KNone), (sqrt_z, [box_z], None, KNone)]))"
  by (rule build_loop_concat) (auto simp: build_one_Cons)

lemma complex_plot_str_label_witness:
  "complex_plot_series cv_lit Map.empty [PExpr (Fn ''sqrt'' [Var zS]), range_parg line_z, PStr ''f''] 0 = Inl AttributeError"
  by (rule complex_plot_str_label) simp

lemma complex_plot_line_witness:
  "complex_plot_one cv_lit Map.empty ([PExpr (Fn ''sqrt'' [Var zS])], [line_z], ''f'') =
   Inr [cseries_of sqrt_z [((PExpr (Var zS)), (-3, 0), (3, 0))] ''f'' (Map.empty(''real'' \<mapsto> KBool True, ''imag'' \<mapsto> KBool False)),
        cseries_of sqrt_z [((PExpr (Var zS)), (-3, 0), (3, 0))] ''f'' (Map.empty(''real'' \<mapsto> KBool False, ''imag'' \<mapsto> KBool True))]"
  using complex_plot_line[of "Fn ''sqrt'' [Var zS]" cv_lit line_z Map.empty "[]" "''f''"]
  by (simp add: is_line_def crange_of_def)


lemma build_one_same_expr_witness:
  "s_expr (hd (projr (build_one cv_lit True KNone (complex_kwargs Map.empty) (sqrt_z, [box_z], None, KNone)))) = sqrt_z \<and>
   s_ranges (hd (projr (build_one cv_lit True KNone (complex_kwargs Map.empty) (sqrt_z, [box_z], None, KNone)))) = [crange_of cv_lit box_z]"
proof -
  let ?b = "build_one cv_lit True KNone (complex_kwargs Map.empty) (sqrt_z, [box_z], None, KNone)"
  have h: "?b = Inr (projr ?b)" and m: "hd (projr ?b) \<in> set (projr ?b)"
    by (simp_all add: build_one_Cons flag_of_complex proj_order_def)
  show ?thesis using build_one_same_expr[OF h m] by simp
qed

lemma build_series_eq_example:
  "build_series ext_plain cv_lit False KNone KNone Map.empty [PExpr (Var zS), range_parg line_z] = Inl ValueError \<and>
   build_series ext_plain cv_lit False KNone KNone Map.empty [range_parg line_z] = Inr []"
  by (simp add: build_series_eq range_parg_def ext_plain_def)

end
