(* ===== verification/Implicit.thy ===== *)
theory Implicit
  imports Expressions
begin

text \<open>
  The front end of implicit plotting, \<open>plot_implicit\<close> of \<open>src/spb/plot_implicit.py\<close>
  (lines 46--270): the expression is normalised to a relation (\<open>Eq(expr, 0)\<close> for a
  plain expression), whether it contains an equality-like relation is decided through
  \<open>arg_expand\<close> (lines 189--200), the two plotting variables and their ranges are chosen
  (lines 217--243, default range \<open>(-5, 5)\<close>), and the refinement depth is clamped to
  \<open>[0, 4]\<close> (lines 245--249).  The result is the data the \<open>ImplicitSeries\<close> receives
  and the axis limits.  Boolean functions (\<open>And\<close>, \<open>Or\<close>, ...) are \<open>Fn\<close> nodes of the
  expression interface with their SymPy class name; relations are \<open>Rel\<close> nodes with their
  operator.  \<open>_set_discretization_points\<close> lives in a module that is not in the
  repository and is the parameter \<open>disc\<close>.  \<open>Dummy('f(x)')\<close> is a fresh dummy of the
  counter threaded through the model, as in \<open>_create_ranges\<close>.
\<close>

section \<open>Expressions of implicit plots\<close>

text \<open>\<open>isinstance(e, BooleanFunction)\<close>, \<open>isinstance(e, Relational)\<close>, and
  \<open>isinstance(e, (Equality, GreaterThan, LessThan))\<close> (\<open>==\<close>, \<open>>=\<close>, \<open><=\<close>).\<close>

fun is_boolfn :: "expr \<Rightarrow> bool" where
  "is_boolfn (Fn f es) = (f \<in> {''And'', ''Or'', ''Not'', ''Xor'', ''Nand'', ''Nor'', ''Implies'', ''Equivalent''})"
| "is_boolfn _ = False"

fun is_relational :: "expr \<Rightarrow> bool" where
  "is_relational (Rel r a b) = True"
| "is_relational _ = False"

fun is_eq_like :: "expr \<Rightarrow> bool" where
  "is_eq_like (Rel r a b) = (r \<in> {''=='', ''>='', ''<=''})"
| "is_eq_like _ = False"

text \<open>\<open>arg_expand\<close>: the relations among the arguments of a boolean function, recursively.\<close>

fun arg_expand :: "expr \<Rightarrow> expr list" where
  "arg_expand (Fn f es) =
     concat (map (\<lambda>a. if is_boolfn a then arg_expand a else if is_relational a then [a] else []) es)"
| "arg_expand _ = []"

text \<open>Lines 183--215: the relation plotted and \<open>has_equality\<close>.\<close>

definition implicit_expr :: "expr \<Rightarrow> expr \<times> bool" where
  "implicit_expr e =
     (if is_boolfn e then (e, list_ex is_eq_like (arg_expand e))
      else if \<not> is_relational e then (Rel ''=='' e (Num 0 0), True)
      else (e, is_eq_like e))"

section \<open>Variables and ranges\<close>

text \<open>
  An \<open>x_var\<close> or \<open>y_var\<close> argument: an expression (a \<open>Symbol\<close> in the documented use) or a
  tuple \<open>(symbol, min, max)\<close>.
\<close>

datatype ivar = IVExpr expr | IVTup "parg list"

fun ivar_free_syms :: "ivar \<Rightarrow> sym set" where
  "ivar_free_syms (IVExpr e) = free_syms e"
| "ivar_free_syms (IVTup ps) = (\<Union>p\<in>set ps. parg_free_syms p)"

text \<open>\<open>_range_tuple\<close>: a symbol gets the default range \<open>(-5, 5)\<close>; \<open>len\<close> of another expression raises.\<close>

fun range_tuple :: "ivar \<Rightarrow> range result" where
  "range_tuple (IVExpr (Var s)) = Inr (PExpr (Var s), PExpr (Num (-5) 0), PExpr (Num 5 0))"
| "range_tuple (IVExpr e) = Inl TypeError"
| "range_tuple (IVTup [a, b, c]) = Inr (a, b, c)"
| "range_tuple (IVTup ps) = Inl ValueError"

text \<open>The optional arguments present, in the order \<open>x_var, y_var\<close> (line 217).\<close>

definition given_vars :: "ivar option \<Rightarrow> ivar option \<Rightarrow> ivar list" where
  "given_vars xv yv = (case xv of Some v \<Rightarrow> [v] | None \<Rightarrow> []) @ (case yv of Some v \<Rightarrow> [v] | None \<Rightarrow> [])"

text \<open>
  Lines 235--243: the second variable when the list does not hold two.  The first range's
  symbol is kept if it is undeclared or nothing is; then a \<open>Dummy\<close> named after it is
  appended (\<open>x.name\<close> raises unless it is a symbol); otherwise an undeclared symbol is
  appended (\<open>set.pop\<close>, whose choice Python leaves open: the least one here).
\<close>

definition second_var :: "parg \<Rightarrow> sym set \<Rightarrow> nat \<Rightarrow> (ivar \<times> nat) result" where
  "second_var x undeclared d =
     (if (case x of PExpr (Var s) \<Rightarrow> s \<in> undeclared | _ \<Rightarrow> False) \<or> undeclared = {}
      then (case x of PExpr (Var s) \<Rightarrow> Inr (IVExpr (Var (Dum d)), Suc d) | _ \<Rightarrow> Inl AttributeError)
      else Inr (IVExpr (Var (Min undeclared)), d))"

text \<open>Lines 245--249.\<close>

definition clamp_depth :: "int \<Rightarrow> int" where
  "clamp_depth depth = (if depth > 4 then 4 else if depth < 0 then 0 else depth)"

record implicit_series =
  i_expr :: expr
  i_xrange :: range
  i_yrange :: range
  i_has_eq :: bool
  i_adaptive :: bool
  i_depth :: int
  i_points :: int
  i_xlim :: "parg \<times> parg"
  i_ylim :: "parg \<times> parg"

text \<open>
  \<open>plot_implicit(expr, x_var, y_var, adaptive, depth, points)\<close> up to the construction of
  the series and the axis limits (lines 180--265), with the dummy counter.  SymPy's
  \<open>_sort_gens\<close> (line 235), which orders the free symbols when no variable is given, is the
  parameter \<open>sort_gens\<close>: it orders \<open>x, y, z\<close> before other letters and compares numeric
  suffixes as numbers, so it is not the order of the names.
\<close>

definition plot_implicit ::
  "(sym set \<Rightarrow> sym list) \<Rightarrow> (int \<Rightarrow> int) \<Rightarrow> expr \<Rightarrow> ivar option \<Rightarrow> ivar option \<Rightarrow> bool \<Rightarrow> int \<Rightarrow> int \<Rightarrow> nat \<Rightarrow> (implicit_series \<times> nat) result" where
  "plot_implicit sort_gens disc e0 xv yv adaptive depth points d =
     (case implicit_expr e0 of (e, has_eq) \<Rightarrow>
      let xyvar = given_vars xv yv;
          fs = free_syms e;
          rs = (\<Union>v\<in>set xyvar. ivar_free_syms v);
          undeclared = fs - rs
      in if 2 < card (fs \<inter> rs) then Inl NotImplementedError
         else
           let xyvar = (if xyvar = [] then map (\<lambda>s. IVExpr (Var s)) (sort_gens fs) else xyvar)
           in case xyvar of [] \<Rightarrow> Inl IndexError
              | v0 # _ \<Rightarrow>
                rbind (range_tuple v0) (\<lambda>rx.
                rbind (if length xyvar \<noteq> 2 then rbind (second_var (fst rx) undeclared d) (\<lambda>(v, d'). Inr (xyvar @ [v], d'))
                       else Inr (xyvar, d)) (\<lambda>(xyvar', d').
                rbind (range_tuple (xyvar' ! 1)) (\<lambda>ry.
                Inr (\<lparr>i_expr = e, i_xrange = rx, i_yrange = ry, i_has_eq = has_eq, i_adaptive = adaptive,
                      i_depth = clamp_depth depth, i_points = disc points,
                      i_xlim = snd rx, i_ylim = snd ry\<rparr>, d')))))"

section \<open>Reference definition of the relational leaves\<close>

text \<open>\<open>bool_leaf e r\<close>: \<open>r\<close> is a relation reached from \<open>e\<close> through boolean functions only.\<close>

inductive bool_leaf :: "expr \<Rightarrow> expr \<Rightarrow> bool" where
  leaf: "is_boolfn (Fn f es) \<Longrightarrow> a \<in> set es \<Longrightarrow> \<not> is_boolfn a \<Longrightarrow> is_relational a \<Longrightarrow> bool_leaf (Fn f es) a"
| node: "is_boolfn (Fn f es) \<Longrightarrow> a \<in> set es \<Longrightarrow> is_boolfn a \<Longrightarrow> bool_leaf a r \<Longrightarrow> bool_leaf (Fn f es) r"

text \<open>Examples.\<close>

abbreviation "xV \<equiv> Var (Sym ''x'')"
abbreviation "yV \<equiv> Var (Sym ''y'')"
abbreviation "zV \<equiv> Var (Sym ''z'')"
abbreviation "region \<equiv> Fn ''And'' [Rel ''>'' xV yV, Fn ''Or'' [Rel ''<='' xV (Num 1 0), Fn ''Add'' [xV, yV]]]"
abbreviation "range5 s \<equiv> (PExpr (Var s), PExpr (Num (-5) 0), PExpr (Num 5 0))"
abbreviation "lim5 \<equiv> (PExpr (Num (-5) 0), PExpr (Num 5 0))"

section \<open>Lemmas\<close>

lemma arg_expand_leaf: "is_boolfn e \<Longrightarrow> r \<in> set (arg_expand e) \<Longrightarrow> bool_leaf e r"
proof (induction e arbitrary: r rule: arg_expand.induct)
  case (1 f es)
  then obtain a where a: "a \<in> set es" and r: "r \<in> set (if is_boolfn a then arg_expand a else if is_relational a then [a] else [])"
    by auto
  show ?case
  proof (cases "is_boolfn a")
    case True
    then show ?thesis using "1.IH"[OF a True] r a "1.prems"(1) by (auto intro: bool_leaf.node)
  next
    case False
    then show ?thesis using r a "1.prems"(1) by (auto split: if_splits intro: bool_leaf.leaf)
  qed
qed simp_all

lemma leaf_arg_expand: "bool_leaf e r \<Longrightarrow> r \<in> set (arg_expand e)"
  by (induction rule: bool_leaf.induct) force+

text \<open>
  C27. \<open>arg_expand\<close> collects exactly the relational leaves of a boolean combination: the relations reachable from the root through nested boolean functions (\<open>bool_leaf\<close>, an inductive reference definition); other arguments are ignored.
\<close>

theorem arg_expand_leaves: "is_boolfn e \<Longrightarrow> set (arg_expand e) = {r. bool_leaf e r}"
  using arg_expand_leaf leaf_arg_expand by blast

lemma free_syms_implicit_expr [simp]: "free_syms (fst (implicit_expr e)) = free_syms e"
  by (simp add: implicit_expr_def)

text \<open>
  C39. With no variable given and an expression whose free symbols \<open>_sort_gens\<close> orders as \<open>[s, t]\<close>, \<open>plot_implicit\<close> plots \<open>s\<close> on the x-axis and \<open>t\<close> on the y-axis, both over the default range \<open>(-5, 5)\<close>, a plain expression as \<open>Eq(expr, 0)\<close>, and creates no dummy.
\<close>

theorem plot_implicit_two_free:
  assumes "sort_gens (free_syms e) = [s, t]"
  shows "plot_implicit sort_gens disc e None None ad dp pts d =
           Inr (\<lparr>i_expr = fst (implicit_expr e), i_xrange = (PExpr (Var s), PExpr (Num (-5) 0), PExpr (Num 5 0)),
                 i_yrange = (PExpr (Var t), PExpr (Num (-5) 0), PExpr (Num 5 0)),
                 i_has_eq = snd (implicit_expr e), i_adaptive = ad, i_depth = clamp_depth dp, i_points = disc pts,
                 i_xlim = (PExpr (Num (-5) 0), PExpr (Num 5 0)), i_ylim = (PExpr (Num (-5) 0), PExpr (Num 5 0))\<rparr>, d)"
proof -
  obtain e' h where ie: "implicit_expr e = (e', h)" by fastforce
  have fe: "free_syms e' = free_syms e" using free_syms_implicit_expr[of e] ie by simp
  show ?thesis using assms by (simp add: plot_implicit_def given_vars_def Let_def ie fe)
qed


text \<open>
  When only \<open>y_var\<close> is given, \<open>plot_implicit\<close> puts that symbol on the x-axis and a fresh dummy on the y-axis, although the docstring says \<open>y_var\<close> is the symbol plotted on the y-axis.
\<close>

theorem plot_implicit_y_var_only:
  assumes "free_syms e \<subseteq> {y}"
  shows "plot_implicit sg disc e None (Some (IVExpr (Var y))) ad dp pts d =
           Inr (\<lparr>i_expr = fst (implicit_expr e), i_xrange = range5 y, i_yrange = range5 (Dum d),
                 i_has_eq = snd (implicit_expr e), i_adaptive = ad, i_depth = clamp_depth dp, i_points = disc pts,
                 i_xlim = lim5, i_ylim = lim5\<rparr>, Suc d)"
proof -
  obtain e' h where ie: "implicit_expr e = (e', h)" by fastforce
  have fe: "free_syms e' \<subseteq> {y}" using free_syms_implicit_expr[of e] ie assms by simp
  then have u: "free_syms e' - {y} = {}" and c: "card (free_syms e' \<inter> {y}) \<le> 1"
    by (auto simp: card_le_Suc0_iff_eq)
  show ?thesis using u c by (simp add: plot_implicit_def given_vars_def Let_def ie second_var_def)
qed

text \<open>
  C36. An expression in three free symbols with no variables given is not refused: the check for more than two variables only counts the symbols of given ranges, and the first two symbols are plotted (a dummy is created and not used).
\<close>

theorem plot_implicit_three_free:
  assumes "set (sort_gens (free_syms e)) = free_syms e" "distinct (sort_gens (free_syms e))"
    and "2 < card (free_syms e)"
  shows "plot_implicit sort_gens disc e None None ad dp pts d =
           Inr (\<lparr>i_expr = fst (implicit_expr e), i_xrange = range5 (sort_gens (free_syms e) ! 0),
                 i_yrange = range5 (sort_gens (free_syms e) ! 1),
                 i_has_eq = snd (implicit_expr e), i_adaptive = ad, i_depth = clamp_depth dp, i_points = disc pts,
                 i_xlim = lim5, i_ylim = lim5\<rparr>, Suc d)"
proof -
  obtain e' h where ie: "implicit_expr e = (e', h)" by fastforce
  have fe: "free_syms e' = free_syms e" using free_syms_implicit_expr[of e] ie by simp
  have "Suc (Suc (Suc 0)) \<le> length (sort_gens (free_syms e))"
    using assms distinct_card[of "sort_gens (free_syms e)"] by simp
  then obtain a b c rest where l: "sort_gens (free_syms e) = a # b # c # rest"
    by (auto simp: Suc_le_length_iff)
  have "a \<in> free_syms e" using assms(1) l by auto
  then show ?thesis by (simp add: plot_implicit_def given_vars_def Let_def ie fe l second_var_def)
qed

theorem plot_implicit_no_free:
  "free_syms e = {} \<Longrightarrow> set (sort_gens {}) = {} \<Longrightarrow> plot_implicit sort_gens disc e None None ad dp pts d = Inl IndexError"
  by (cases "implicit_expr e") (simp add: plot_implicit_def given_vars_def Let_def free_syms_implicit_expr[of e, symmetric])

lemma plot_implicit_depth_Inr:
  "plot_implicit sg disc e xv yv ad dp pts d = Inr (r, d') \<Longrightarrow> i_depth r = clamp_depth dp"
  by (auto simp: plot_implicit_def Let_def rbind_eq_Inr_iff split: prod.splits if_splits list.splits)

text \<open>
  The depth handed to the implicit series is clamped into \<open>[0, 4]\<close> and left unchanged when it is already there.
\<close>

theorem plot_implicit_depth:
  assumes "plot_implicit sg disc e xv yv ad dp pts d = Inr (r, d')"
  shows "0 \<le> i_depth r \<and> i_depth r \<le> 4 \<and> (0 \<le> dp \<and> dp \<le> 4 \<longrightarrow> i_depth r = dp)"
  using plot_implicit_depth_Inr[OF assms] by (simp add: clamp_depth_def)

section \<open>Witnesses\<close>

lemma arg_expand_leaves_witness:
  "set (arg_expand region) = {r. bool_leaf region r} \<and> arg_expand region = [Rel ''>'' xV yV, Rel ''<='' xV (Num 1 0)]"
  using arg_expand_leaves[of region] by simp

lemma plot_implicit_two_free_witness:
  "plot_implicit sorted_list_of_set id (Fn ''Add'' [xV, yV]) None None True 0 300 0 =
     Inr (\<lparr>i_expr = Rel ''=='' (Fn ''Add'' [xV, yV]) (Num 0 0), i_xrange = range5 (Sym ''x''),
           i_yrange = range5 (Sym ''y''), i_has_eq = True, i_adaptive = True, i_depth = 0, i_points = 300,
           i_xlim = lim5, i_ylim = lim5\<rparr>, 0)"
  using plot_implicit_two_free[where e = "Fn ''Add'' [xV, yV]" and s = "Sym ''x''" and t = "Sym ''y''"
      and sort_gens = sorted_list_of_set and disc = id and ad = True and dp = 0 and pts = 300 and d = 0]
  by (simp add: less_eq_sym_def implicit_expr_def clamp_depth_def insert_commute)

lemma plot_implicit_y_var_only_witness:
  "plot_implicit sorted_list_of_set id (Fn ''Add'' [yV, Num (-1) 0]) None (Some (IVExpr yV)) True 0 300 0 =
     Inr (\<lparr>i_expr = Rel ''=='' (Fn ''Add'' [yV, Num (-1) 0]) (Num 0 0), i_xrange = range5 (Sym ''y''),
           i_yrange = range5 (Dum 0), i_has_eq = True, i_adaptive = True, i_depth = 0, i_points = 300,
           i_xlim = lim5, i_ylim = lim5\<rparr>, 1)"
  using plot_implicit_y_var_only[where e = "Fn ''Add'' [yV, Num (-1) 0]" and y = "Sym ''y''" and sg = sorted_list_of_set
      and disc = id and ad = True and dp = 0 and pts = 300 and d = 0]
  by (simp add: implicit_expr_def clamp_depth_def)

lemma plot_implicit_three_free_witness:
  "plot_implicit sorted_list_of_set id (Fn ''Add'' [xV, yV, zV]) None None True 0 300 0 =
     Inr (\<lparr>i_expr = Rel ''=='' (Fn ''Add'' [xV, yV, zV]) (Num 0 0), i_xrange = range5 (Sym ''x''),
           i_yrange = range5 (Sym ''y''), i_has_eq = True, i_adaptive = True, i_depth = 0, i_points = 300,
           i_xlim = lim5, i_ylim = lim5\<rparr>, 1)"
proof -
  have so: "sorted_list_of_set {Sym ''x'', Sym ''y'', Sym ''z''} = [Sym ''x'', Sym ''y'', Sym ''z'']"
  proof -
    have "sorted_list_of_set (set [Sym ''x'', Sym ''y'', Sym ''z'']) = [Sym ''x'', Sym ''y'', Sym ''z'']"
      by (rule sorted_list_of_set.idem_if_sorted_distinct) (auto simp: less_eq_sym_def less_sym_def)
    then show ?thesis by simp
  qed
  have fs: "free_syms (Fn ''Add'' [xV, yV, zV]) = {Sym ''x'', Sym ''y'', Sym ''z''}" by auto
  show ?thesis
    using plot_implicit_three_free[where e = "Fn ''Add'' [xV, yV, zV]" and sort_gens = sorted_list_of_set
        and disc = id and ad = True and dp = 0 and pts = 300 and d = 0, unfolded fs so]
    by (simp add: implicit_expr_def clamp_depth_def)
qed

lemma plot_implicit_no_free_witness:
  "plot_implicit sorted_list_of_set id (Rel ''=='' (Num 1 0) (Num 1 0)) None None True 0 300 0 = Inl IndexError"
  by (rule plot_implicit_no_free) simp_all

lemma plot_implicit_depth_witness:
  "i_depth (fst (projr (plot_implicit sorted_list_of_set id (Fn ''Add'' [xV, yV]) None None True 7 300 0))) = 4"
proof -
  have h: "plot_implicit sorted_list_of_set id (Fn ''Add'' [xV, yV]) None None True 7 300 0 =
           Inr (fst (projr (plot_implicit sorted_list_of_set id (Fn ''Add'' [xV, yV]) None None True 7 300 0)), 0)"
    by code_simp
  show ?thesis using plot_implicit_depth[OF h] plot_implicit_depth_Inr[OF h] by (simp add: clamp_depth_def)
qed

end
