(* ===== verification/Complex_Points.thy ===== *)
theory Complex_Points
  imports Complex_Dispatch Implicit
begin

text \<open>
  The entry points of \<open>src/spb/ccomplex/complex.py\<close> that do not go through the projection
  loop alone: \<open>_build_complex_point_series\<close> (lines 25--99) with \<open>plot_complex_list\<close>
  (974--1143), and \<open>plot_complex_vector\<close> (1146--1421) up to its call of
  \<open>plot_vector\<close>, which lives in a module that is not in the repository.  Both build on
  the argument helpers of \<open>utils.py\<close> as the repository has them.  \<open>re\<close>, \<open>im\<close> and
  \<open>subs\<close> of SymPy are parameters of the model (\<open>reim\<close>, \<open>subs\<close>).
\<close>

section \<open>Point series\<close>

text \<open>\<open>isinstance(a, Expr)\<close>: relations and boolean functions are not expressions.\<close>

fun is_Expr :: "parg \<Rightarrow> bool" where
  "is_Expr (PExpr e) = (\<not> is_relational e \<and> \<not> is_boolfn e)"
| "is_Expr _ = False"

text \<open>\<open>isinstance(t, Expr) and t.is_complex\<close>: a number.\<close>

definition is_complex_number :: "parg \<Rightarrow> bool" where
  "is_complex_number t = (is_Expr t \<and> (case t of PExpr e \<Rightarrow> expr_is_number e | _ \<Rightarrow> False))"

definition point_series :: "parg list \<Rightarrow> string \<Rightarrow> kwargs \<Rightarrow> cseries" where
  "point_series pts label kw = \<lparr>s_kind = ComplexPoint, s_expr = SymExpr (PTup pts), s_ranges = [], s_label = label, s_kw = kw\<rparr>"

text \<open>
  \<open>_build_complex_point_series\<close>: four shapes of arguments.  The second and fourth branch and
  the fallback unpack four values from \<open>_unpack_args\<close>, which returns three
  (\<open>ValueError\<close>).  \<open>_set_labels\<close> of line 97, from \<open>spb.functions\<close>, is the field
  \<open>ext_set_labels\<close> of the helpers.
\<close>

definition build_point_series :: "series_ext \<Rightarrow> kwargs \<Rightarrow> parg list \<Rightarrow> cseries list result" where
  "build_point_series ext kwargs0 args =
     (let kwargs = kwargs0(''label'' := None, ''rendering_kw'' := None)
      in rbind
         (if list_all is_Expr args then Inr (map (\<lambda>a. point_series [a] [] kwargs) args)
         else if args \<noteq> [] \<and> list_all is_tuple args \<and> list_all (\<lambda>a. tuple_items a \<noteq> []) args
                 \<and> list_all (\<lambda>a. is_tuple (hd (tuple_items a))) args
         then (case unpack_args False (tuple_items (hd args)) of (e, r, l) \<Rightarrow> Inl ValueError)
         else if args \<noteq> [] \<and> list_all is_tuple args \<and> list_all (\<lambda>a. list_all is_complex_number (tuple_items a)) args
         then Inr (map (\<lambda>a. point_series (tuple_items a) [] kwargs) args)
         else if args \<noteq> [] \<and> list_all is_tuple args \<and> list_all (\<lambda>a. tuple_items a \<noteq> []) args
         then (case unpack_args False (tuple_items (hd args)) of (e, r, l) \<Rightarrow> Inl ValueError)
         else (case unpack_args False args of (e, r, l) \<Rightarrow> Inl ValueError))
         (\<lambda>series. ext_set_labels ext series (kwargs0 ''label'') (kw_get ''rendering_kw'' KNone kwargs0)))"

text \<open>
  \<open>plot_complex_list\<close> (lines 1137--1143) through \<open>_plot_complex(..., pcl=True)\<close>: the
  flags are reset, and the keyword \<open>pcl\<close>, which \<open>_build_complex_point_series\<close> does not
  take (its parameter is \<open>pc\<close>), stays in the keyword arguments of every series.  The
  result carries whether \<open>_plot_complex\<close> warns (line 243).
\<close>

definition list_kwargs :: "kwargs \<Rightarrow> kwargs" where
  "list_kwargs kw =
     kw(''absarg'' \<mapsto> KBool False, ''abs'' \<mapsto> KBool False, ''arg'' \<mapsto> KBool False,
        ''real'' \<mapsto> KBool False, ''imag'' \<mapsto> KBool False, ''threed'' \<mapsto> KBool False)"

definition plot_complex_list :: "series_ext \<Rightarrow> kwargs \<Rightarrow> parg list \<Rightarrow> (cseries list \<times> bool) result" where
  "plot_complex_list ext kw args =
     rbind (build_point_series ext ((list_kwargs kw)(''pcl'' \<mapsto> KBool True)) args) (\<lambda>ss. Inr (ss, ss = []))"

section \<open>\<open>plot_complex_vector\<close>\<close>









text \<open>An example range over a 2D domain.\<close>

abbreviation "zrange \<equiv> PTup [PExpr (Var (Sym ''z'')), PExpr (Num (-2) (-2)), PExpr (Num 2 2)]"

section \<open>Lemmas\<close>

lemma is_tuple_not_Expr: "is_tuple a \<Longrightarrow> \<not> is_Expr a"
  by (cases a) simp_all

lemma list_all_tuple_not_Expr: "args \<noteq> [] \<Longrightarrow> list_all is_tuple args \<Longrightarrow> \<not> list_all is_Expr args"
  by (cases args) (auto simp: is_tuple_not_Expr)

text \<open>
  \<open>plot_complex_list\<close> of complex numbers makes one point series per number, in order, with an empty label, the five projection flags off, and the stray keyword \<open>pcl\<close> in its keyword arguments; it warns exactly when there are no numbers.
\<close>

theorem plot_complex_list_numbers:
  assumes "list_all is_Expr args"
  shows "plot_complex_list ext kw args =
           rbind (ext_set_labels ext
                    (map (\<lambda>a. point_series [a] [] (((list_kwargs kw)(''pcl'' \<mapsto> KBool True))(''label'' := None, ''rendering_kw'' := None))) args)
                    (kw ''label'') (kw_get ''rendering_kw'' KNone kw))
             (\<lambda>ss. Inr (ss, ss = []))"
  using assms by (simp add: plot_complex_list_def build_point_series_def list_kwargs_def kw_get_def)

text \<open>
  C37. \<open>plot_complex_list\<close> in the documented form \<open>(n1, label1), (n2, label2), ...\<close> raises ValueError: every branch that handles labelled tuples unpacks four values from \<open>_unpack_args\<close>, which returns three.
\<close>

theorem plot_complex_list_labelled:
  assumes "args \<noteq> []" "list_all is_tuple args" "list_all (\<lambda>a. list_ex is_str (tuple_items a)) args"
  shows "plot_complex_list ext kw args = Inl ValueError"
proof -
  have ne: "list_all (\<lambda>a. tuple_items a \<noteq> []) args" using assms(3) by (auto simp: list_all_iff list_ex_iff)
  have nc: "\<not> list_all (\<lambda>a. list_all is_complex_number (tuple_items a)) args"
  proof -
    obtain a where a: "a \<in> set args" using assms(1) by (cases args) auto
    then have "list_ex is_str (tuple_items a)" using assms(3) by (simp add: list_all_iff)
    then obtain t where t: "t \<in> set (tuple_items a)" "is_str t" by (auto simp: list_ex_iff)
    from t(2) have "\<not> is_complex_number t" by (cases t) (simp_all add: is_complex_number_def)
    then have "\<not> list_all is_complex_number (tuple_items a)" using t(1) by (auto simp: list_all_iff)
    then show ?thesis using a by (auto simp: list_all_iff)
  qed
  show ?thesis using assms(1,2) ne nc list_all_tuple_not_Expr[OF assms(1,2)]
    by (simp add: plot_complex_list_def build_point_series_def Let_def split: prod.split)
qed



section \<open>Witnesses\<close>

lemma plot_complex_list_numbers_witness:
  "map s_expr (fst (projr (plot_complex_list ext_plain Map.empty [PExpr (Num 3 2), PExpr (Num 0 4)]))) =
     [SymExpr (PTup [PExpr (Num 3 2)]), SymExpr (PTup [PExpr (Num 0 4)])]"
  using plot_complex_list_numbers[of "[PExpr (Num 3 2), PExpr (Num 0 4)]" ext_plain Map.empty]
  by (simp add: point_series_def ext_plain_def)

lemma plot_complex_list_labelled_witness:
  "plot_complex_list ext_plain Map.empty [PTup [PExpr (Num 3 2), PStr ''n1''], PTup [PExpr (Num 0 4), PStr ''n2'']] = Inl ValueError"
  by (rule plot_complex_list_labelled) simp_all


end
