(* ===== verification/Axis_Labels.thy ===== *)
theory Axis_Labels
  imports Complex_Points
begin

text \<open>
  The end of \<open>_plot_complex\<close> in \<open>src/spb/ccomplex/complex.py\<close> (lines 233--256) and
  \<open>_set_axis_labels\<close> (lines 259--295).  The series classes live in \<open>spb.series\<close>, which
  is not in the repository: what \<open>_set_axis_labels\<close> reads of a series is the record
  \<open>sattrs\<close> of its attributes, and the model is stated for any attribute function
  \<open>attrs\<close> from series to attributes.  SymPy's \<open>latex\<close> of a symbol is the parameter
  \<open>latex\<close>.  Axis labels are strings or callables \<open>use_latex \<mapsto> label\<close> (\<open>KFun\<close>).
\<close>

section \<open>Series attributes\<close>

record sattrs =
  a_parametric :: bool
  a_domain_coloring :: bool
  a_3Dsurface :: bool
  a_point_series :: bool
  a_complex :: bool
  a_3D :: bool
  a_point :: bool
  a_var :: sym

text \<open>\<open>Symbol.name\<close>: a \<open>Dummy\<close> is named \<open>Dummy_n\<close> and printed \<open>_Dummy_n\<close>.\<close>

fun sym_name :: "sym \<Rightarrow> string" where
  "sym_name (Sym s) = s"
| "sym_name (Dum n) = ''Dummy_'' @ nat_str n"

section \<open>Keyword helpers\<close>

text \<open>\<open>kwargs.get(k, None) is None\<close>: the key is absent or bound to \<open>None\<close>.\<close>

definition kw_is_none :: "string \<Rightarrow> kwargs \<Rightarrow> bool" where
  "kw_is_none k kw = (kw_get k KNone kw = KNone)"

text \<open>\<open>if kwargs.get(k, None) is None: kwargs[k] = v\<close>.\<close>

definition set_if_none :: "string \<Rightarrow> kwval \<Rightarrow> kwargs \<Rightarrow> kwargs" where
  "set_if_none k v kw = (if kw_is_none k kw then kw(k \<mapsto> v) else kw)"

text \<open>\<open>"%s" % v\<close> of a keyword value that is not callable.\<close>

fun kw_text :: "kwval \<Rightarrow> string" where
  "kw_text (KBool b) = (if b then ''True'' else ''False'')"
| "kw_text (KInt i) = int_str i"
| "kw_text (KStr s) = s"
| "kw_text KNone = ''None''"
| "kw_text (KObj n) = n"
| "kw_text (KFun f) = ''<function>''"

section \<open>\<open>_set_axis_labels\<close>\<close>

text \<open>Line 283: \<open>fx = lambda use_latex: var.name if not use_latex else latex(var)\<close>.\<close>

definition x_default :: "(sym \<Rightarrow> string) \<Rightarrow> sym \<Rightarrow> kwval" where
  "x_default latex var = KFun (\<lambda>u. if u then latex var else sym_name var)"

text \<open>Line 286: \<open>wrap\<close>, \<open>"f(%s)"\<close> or its LaTeX form with left and right parentheses, filled with a label.\<close>

definition f_wrap :: "bool \<Rightarrow> string \<Rightarrow> string" where
  "f_wrap u s =
     (if u then ''f'' @ [CHR 0x5C] @ ''left('' @ s @ [CHR 0x5C] @ ''right)'' else ''f('' @ s @ '')'')"

text \<open>
  Lines 287--288: \<open>x\<close> is the x label if it is callable, else a function returning it;
  \<open>fy(use_latex) = wrap(use_latex) % x(use_latex)\<close>.
\<close>

definition y_label :: "kwval \<Rightarrow> kwval" where
  "y_label xv = KFun (\<lambda>u. f_wrap u (case xv of KFun g \<Rightarrow> g u | v \<Rightarrow> kw_text v))"

text \<open>
  The last branch (lines 280--289), for the variable of the first series: the defaults
  are installed with \<open>setdefault\<close>, after a test for \<open>None\<close>; \<open>kwargs["xlabel"]\<close>
  raises \<open>KeyError\<close> when absent.
\<close>

definition var_labels :: "(sym \<Rightarrow> string) \<Rightarrow> sym \<Rightarrow> kwargs \<Rightarrow> kwargs result" where
  "var_labels latex var kw =
     (let kw1 = (if kw_is_none ''xlabel'' kw then kw_setdefault ''xlabel'' (x_default latex var) kw else kw)
      in if kw_is_none ''ylabel'' kw1
         then (case kw1 ''xlabel'' of
                 None \<Rightarrow> Inl KeyError
               | Some xv \<Rightarrow> Inr (kw_setdefault ''ylabel'' (y_label xv) kw1))
         else Inr kw1)"

text \<open>
  Lines 263--289, on the attributes of the series: parametric series get Real/Abs;
  domain colourings, 3D surfaces, point series (and parametric ones) get Re/Im and, with a
  domain colouring, an Abs z label; other series are labelled after the variable of
  \<open>series[0]\<close>.
\<close>

definition label_axes :: "sattrs list \<Rightarrow> (sym \<Rightarrow> string) \<Rightarrow> kwargs \<Rightarrow> kwargs result" where
  "label_axes as latex kw =
     (if list_all a_parametric as
      then Inr (set_if_none ''ylabel'' (KStr ''Abs'') (set_if_none ''xlabel'' (KStr ''Real'') kw))
      else if list_all (\<lambda>a. a_domain_coloring a \<or> a_3Dsurface a \<or> a_point_series a \<or> a_parametric a) as
      then Inr (let kw1 = set_if_none ''ylabel'' (KStr ''Im'') (set_if_none ''xlabel'' (KStr ''Re'') kw)
                in if kw_is_none ''zlabel'' kw1 \<and> list_ex a_domain_coloring as
                   then kw1(''zlabel'' \<mapsto> KStr ''Abs'') else kw1)
      else (case as of [] \<Rightarrow> Inl IndexError | a0 # _ \<Rightarrow> var_labels latex (a_var a0) kw))"

text \<open>Lines 291--295: an equal aspect for 2D domain colourings and point series.\<close>

definition default_aspect :: "sattrs list \<Rightarrow> kwargs \<Rightarrow> kwargs" where
  "default_aspect as kw =
     (if kw_is_none ''aspect'' kw \<and> list_ex (\<lambda>a. (a_complex a \<and> a_domain_coloring a \<and> \<not> a_3D a) \<or> a_point a) as
      then kw_setdefault ''aspect'' (KStr ''equal'') kw else kw)"

text \<open>\<open>_set_axis_labels(series, kwargs)\<close>, which updates \<open>kwargs\<close> in place.\<close>

definition set_axis_labels :: "('s \<Rightarrow> sattrs) \<Rightarrow> (sym \<Rightarrow> string) \<Rightarrow> 's list \<Rightarrow> kwargs \<Rightarrow> kwargs result" where
  "set_axis_labels attrs latex series kw =
     (let as = map attrs series in rbind (label_axes as latex kw) (\<lambda>kw'. Inr (default_aspect as kw')))"

text \<open>A series of the last branch: a plain line (or other) series.\<close>

abbreviation line_series :: "sattrs \<Rightarrow> bool" where
  "line_series a \<equiv> \<not> (a_domain_coloring a \<or> a_3Dsurface a \<or> a_point_series a \<or> a_parametric a)"

section \<open>\<open>_plot_complex\<close>\<close>

text \<open>
  What \<open>_plot_complex\<close> returns: the interactive plot of \<open>create_interactive_plot\<close>, or
  the backend class instantiated by \<open>_instantiate_backend\<close>, with the series and the
  keyword arguments they receive.
\<close>

datatype 's plot_result = Interactive "'s list" kwargs | Backend kwval "'s list" kwargs

text \<open>
  Lines 243--256 on the series built: the warning for no series, the axis labels, the
  backend (\<open>THREE_D_B\<close> as default when a series is a 3D surface, else \<open>TWO_D_B\<close>),
  and the interactive plot when \<open>params\<close> is given.  The flag is whether it warned.
\<close>

definition plot_complex_finish ::
  "('s \<Rightarrow> sattrs) \<Rightarrow> (sym \<Rightarrow> string) \<Rightarrow> kwval \<Rightarrow> kwval \<Rightarrow> kwargs \<Rightarrow> 's list \<Rightarrow> ('s plot_result \<times> bool) result" where
  "plot_complex_finish attrs latex two_d three_d kw series =
     rbind (set_axis_labels attrs latex series kw) (\<lambda>kw'.
       let backend = kw_get ''backend'' (if list_ex (\<lambda>s. a_3Dsurface (attrs s)) series then three_d else two_d) kw'
       in Inr (if truthy (kw_get ''params'' KNone kw') then Interactive series kw' else Backend backend series kw',
               series = []))"


text \<open>The attributes of a line series over \<open>x\<close>, for the examples.\<close>

abbreviation line_x :: sattrs where
  "line_x \<equiv> \<lparr>a_parametric = False, a_domain_coloring = False, a_3Dsurface = False, a_point_series = False,
             a_complex = True, a_3D = False, a_point = False, a_var = Sym ''x''\<rparr>"

section \<open>Lemmas\<close>


lemma kw_is_none_iff: "kw_is_none k kw \<longleftrightarrow> kw k = None \<or> kw k = Some KNone"
  by (auto simp: kw_is_none_def kw_get_def split: option.split)

lemma set_if_none_other [simp]: "k' \<noteq> k \<Longrightarrow> set_if_none k v kw k' = kw k'"
  by (simp add: set_if_none_def)

lemma kw_setdefault_other [simp]: "k' \<noteq> k \<Longrightarrow> kw_setdefault k v kw k' = kw k'"
  by (simp add: kw_setdefault_def split: option.split)

lemma kw_setdefault_same: "kw k \<noteq> None \<Longrightarrow> kw_setdefault k v kw = kw"
  by (auto simp: kw_setdefault_def)

lemma set_if_none_same: "\<not> kw_is_none k kw \<Longrightarrow> set_if_none k v kw = kw"
  by (simp add: set_if_none_def)

lemma set_if_none_not_none: "v \<noteq> KNone \<Longrightarrow> \<not> kw_is_none k (set_if_none k v kw)"
  by (auto simp: set_if_none_def kw_is_none_iff)

lemma kw_is_none_set_if_none_other [simp]:
  "k' \<noteq> k \<Longrightarrow> kw_is_none k' (set_if_none k v kw) = kw_is_none k' kw"
  by (simp add: kw_is_none_def kw_get_def)

lemma not_none_present: "\<not> kw_is_none k kw \<Longrightarrow> kw k \<noteq> None"
  by (auto simp: kw_is_none_iff)

lemma var_labels_Inr: "\<exists>kw'. var_labels latex v kw = Inr kw'"
  by (auto simp: var_labels_def Let_def kw_is_none_iff kw_setdefault_def split: option.split)

lemma var_labels_keys:
  assumes "var_labels latex v kw = Inr kw'" "k \<noteq> ''xlabel''" "k \<noteq> ''ylabel''"
  shows "kw' k = kw k"
proof -
  define kw1 where "kw1 = (if kw_is_none ''xlabel'' kw then kw_setdefault ''xlabel'' (x_default latex v) kw else kw)"
  have k1: "kw1 k = kw k" using assms(2) by (simp add: kw1_def)
  have "var_labels latex v kw = (if kw_is_none ''ylabel'' kw1
         then (case kw1 ''xlabel'' of None \<Rightarrow> Inl KeyError | Some xv \<Rightarrow> Inr (kw_setdefault ''ylabel'' (y_label xv) kw1))
         else Inr kw1)" unfolding var_labels_def kw1_def Let_def by (rule refl)
  with assms(1) have "kw' = kw1 \<or> (\<exists>xv. kw' = kw_setdefault ''ylabel'' (y_label xv) kw1)"
    by (auto split: if_splits option.splits)
  with k1 assms(3) show ?thesis by auto
qed

lemma var_labels_present:
  "var_labels latex v kw = Inr kw' \<Longrightarrow> kw' ''xlabel'' \<noteq> None \<and> kw' ''ylabel'' \<noteq> None"
  by (auto simp: var_labels_def Let_def kw_setdefault_def kw_is_none_iff split: if_splits option.splits)

lemma var_labels_fix:
  assumes "var_labels latex v kw = Inr kw1"
    and "kw2 ''xlabel'' = kw1 ''xlabel''" "kw2 ''ylabel'' = kw1 ''ylabel''"
  shows "var_labels latex' v' kw2 = Inr kw2"
proof -
  from var_labels_present[OF assms(1)] assms(2,3)
  obtain xv yv where "kw2 ''xlabel'' = Some xv" "kw2 ''ylabel'' = Some yv" by auto
  then show ?thesis by (simp add: var_labels_def Let_def kw_setdefault_same)
qed

lemma label_axes_Inr: "\<exists>kw'. label_axes as latex kw = Inr kw'"
  using var_labels_Inr by (auto simp: label_axes_def Let_def split: list.split)

lemma label_axes_keys:
  assumes "label_axes as latex kw = Inr kw'" "k \<noteq> ''xlabel''" "k \<noteq> ''ylabel''" "k \<noteq> ''zlabel''"
  shows "kw' k = kw k"
  using assms var_labels_keys[where kw = kw and kw' = kw' and k = k]
  by (auto simp: label_axes_def Let_def split: if_splits list.splits)

lemma default_aspect_keys: "k \<noteq> ''aspect'' \<Longrightarrow> default_aspect as kw k = kw k"
  by (simp add: default_aspect_def)

lemma default_aspect_idem: "default_aspect as (default_aspect as kw) = default_aspect as kw"
  by (auto simp: default_aspect_def kw_is_none_iff kw_setdefault_def split: option.splits)

lemma label_axes_fix:
  assumes "label_axes as latex kw = Inr kw1"
    and "kw2 ''xlabel'' = kw1 ''xlabel''" "kw2 ''ylabel'' = kw1 ''ylabel''" "kw2 ''zlabel'' = kw1 ''zlabel''"
  shows "label_axes as latex kw2 = Inr kw2"
proof (cases "list_all a_parametric as")
  case True
  with assms(1) have "kw1 = set_if_none ''ylabel'' (KStr ''Abs'') (set_if_none ''xlabel'' (KStr ''Real'') kw)"
    by (simp add: label_axes_def)
  then have "\<not> kw_is_none ''xlabel'' kw1" "\<not> kw_is_none ''ylabel'' kw1"
    by (simp_all add: set_if_none_not_none)
  with assms(2,3) have "\<not> kw_is_none ''xlabel'' kw2" "\<not> kw_is_none ''ylabel'' kw2"
    by (simp_all add: kw_is_none_def kw_get_def)
  with True show ?thesis
    by (simp add: label_axes_def set_if_none_same)
next
  case np: False
  show ?thesis
  proof (cases "list_all (\<lambda>a. a_domain_coloring a \<or> a_3Dsurface a \<or> a_point_series a \<or> a_parametric a) as")
    case True
    define kw0 where "kw0 = set_if_none ''ylabel'' (KStr ''Im'') (set_if_none ''xlabel'' (KStr ''Re'') kw)"
    have x0: "\<not> kw_is_none ''xlabel'' kw0" and y0: "\<not> kw_is_none ''ylabel'' kw0"
      by (simp_all add: kw0_def set_if_none_not_none)
    from assms(1) np True have k1: "kw1 = (if kw_is_none ''zlabel'' kw0 \<and> list_ex a_domain_coloring as
                   then kw0(''zlabel'' \<mapsto> KStr ''Abs'') else kw0)"
      unfolding kw0_def by (simp add: label_axes_def Let_def eq_commute del: kw_is_none_set_if_none_other)
    then have "\<not> kw_is_none ''xlabel'' kw1" "\<not> kw_is_none ''ylabel'' kw1"
      using x0 y0 by (simp_all add: kw_is_none_def kw_get_def)
    moreover have "list_ex a_domain_coloring as \<Longrightarrow> \<not> kw_is_none ''zlabel'' kw1"
      using k1 by (auto simp: kw_is_none_def kw_get_def)
    ultimately have "\<not> kw_is_none ''xlabel'' kw2" "\<not> kw_is_none ''ylabel'' kw2"
      "list_ex a_domain_coloring as \<Longrightarrow> \<not> kw_is_none ''zlabel'' kw2"
      using assms(2-4) by (simp_all add: kw_is_none_def kw_get_def)
    then show ?thesis using np True
      by (auto simp: label_axes_def Let_def set_if_none_same)
  next
    case False
    with np assms(1) obtain a0 rest where as: "as = a0 # rest" and v: "var_labels latex (a_var a0) kw = Inr kw1"
      by (auto simp: label_axes_def split: list.splits)
    have "label_axes as latex kw2 = (case as of [] \<Rightarrow> Inl IndexError | a0 # _ \<Rightarrow> var_labels latex (a_var a0) kw2)"
      using np False by (simp add: label_axes_def)
    with as show ?thesis using var_labels_fix[OF v assms(2,3)] by simp
  qed
qed

text \<open>
  C20. _set_axis_labels never raises: the KeyError of kwargs["xlabel"] and the IndexError of series[0] are unreachable, for any series and keyword arguments.
\<close>

theorem set_axis_labels_total: "\<exists>kw'. set_axis_labels attrs latex series kw = Inr kw'"
proof -
  obtain kw1 where "label_axes (map attrs series) latex kw = Inr kw1" using label_axes_Inr by blast
  then show ?thesis by (simp add: set_axis_labels_def)
qed

text \<open>
  C21. _set_axis_labels is idempotent: running it again on the keyword arguments it produced changes nothing.
\<close>

theorem set_axis_labels_idem:
  "rbind (set_axis_labels attrs latex series kw) (set_axis_labels attrs latex series) =
   set_axis_labels attrs latex series kw"
proof -
  let ?as = "map attrs series"
  obtain kw1 where l: "label_axes ?as latex kw = Inr kw1" using label_axes_Inr by blast
  have "label_axes ?as latex (default_aspect ?as kw1) = Inr (default_aspect ?as kw1)"
    by (rule label_axes_fix[OF l]) (simp_all add: default_aspect_keys)
  with l show ?thesis by (simp add: set_axis_labels_def default_aspect_idem)
qed

text \<open>
  _set_axis_labels changes no keyword argument other than xlabel, ylabel, zlabel and aspect.
\<close>

theorem set_axis_labels_keys:
  assumes "set_axis_labels attrs latex series kw = Inr kw'"
    and "k \<notin> {''xlabel'', ''ylabel'', ''zlabel'', ''aspect''}"
  shows "kw' k = kw k"
proof -
  from assms(1) obtain kw1 where l: "label_axes (map attrs series) latex kw = Inr kw1"
    and r: "kw' = default_aspect (map attrs series) kw1"
    by (auto simp: set_axis_labels_def Let_def rbind_eq_Inr_iff)
  from assms(2) have "kw1 k = kw k" by (intro label_axes_keys[OF l]) auto
  with r assms(2) show ?thesis by (simp add: default_aspect_keys)
qed

lemma label_axes_line:
  "line_series a \<Longrightarrow> label_axes (a # as) latex kw = var_labels latex (a_var a) kw"
  by (simp add: label_axes_def)

text \<open>
  C34. When the first series is neither parametric, domain colouring, 3D surface nor point series and no labels are given, the x label is the name (or LaTeX) of its variable and the y label is f(name), wrapped with LaTeX parentheses around the LaTeX of the variable when LaTeX is asked for.
\<close>

theorem set_axis_labels_line_defaults:
  assumes "series = s # rest" "line_series (attrs s)"
    and "kw ''xlabel'' = None" "kw ''ylabel'' = None"
  shows "\<exists>kw'. set_axis_labels attrs latex series kw = Inr kw' \<and>
           kw' ''xlabel'' = Some (x_default latex (a_var (attrs s))) \<and>
           kw' ''ylabel'' = Some (KFun (\<lambda>u. f_wrap u (if u then latex (a_var (attrs s)) else sym_name (a_var (attrs s)))))"
  using assms
  by (simp add: set_axis_labels_def label_axes_line var_labels_def kw_is_none_def kw_get_def kw_setdefault_def
      default_aspect_def y_label_def x_default_def split: option.split)

text \<open>
  C33. A user passing xlabel=None to a line plot keeps xlabel None (setdefault does not replace it) and gets the y label f(None).
\<close>

theorem set_axis_labels_explicit_none:
  assumes "series = s # rest" "line_series (attrs s)"
    and "kw ''xlabel'' = Some KNone" "kw ''ylabel'' = None"
  shows "\<exists>kw'. set_axis_labels attrs latex series kw = Inr kw' \<and>
           kw' ''xlabel'' = Some KNone \<and> kw' ''ylabel'' = Some (KFun (\<lambda>u. f_wrap u ''None''))"
  using assms
  by (simp add: set_axis_labels_def label_axes_line var_labels_def kw_is_none_def kw_get_def kw_setdefault_def
      default_aspect_def y_label_def split: option.split)

text \<open>
  C35. Without backend and params, _plot_complex instantiates THREE_D_B exactly when some series is a 3D surface and TWO_D_B otherwise, and warns exactly when there is no series.
\<close>

theorem plot_complex_finish_backend:
  assumes "kw ''backend'' = None" "\<not> truthy (kw_get ''params'' KNone kw)"
  shows "\<exists>kw'. plot_complex_finish attrs latex two_d three_d kw series =
           Inr (Backend (if list_ex (\<lambda>s. a_3Dsurface (attrs s)) series then three_d else two_d) series kw', series = [])"
proof -
  obtain kw1 where l: "label_axes (map attrs series) latex kw = Inr kw1" using label_axes_Inr by blast
  have "kw1 ''backend'' = kw ''backend''" "kw1 ''params'' = kw ''params''"
    by (rule label_axes_keys[OF l]; simp)+
  with assms l show ?thesis
    by (simp add: plot_complex_finish_def set_axis_labels_def default_aspect_keys kw_get_def)
qed


section \<open>Witnesses\<close>

lemma set_axis_labels_line_defaults_witness:
  "\<exists>kw'. set_axis_labels id (\<lambda>s. sym_name s) [line_x] Map.empty = Inr kw' \<and>
        kw' ''xlabel'' = Some (x_default (\<lambda>s. sym_name s) (Sym ''x'')) \<and>
        kw' ''ylabel'' = Some (KFun (\<lambda>u. f_wrap u (if u then sym_name (Sym ''x'') else sym_name (Sym ''x''))))"
  using set_axis_labels_line_defaults[where series = "[line_x]" and s = line_x and rest = "[]" and attrs = id
        and kw = Map.empty and latex = "\<lambda>s. sym_name s"] by simp

lemma set_axis_labels_explicit_none_witness:
  "\<exists>kw'. set_axis_labels id (\<lambda>s. sym_name s) [line_x] [''xlabel'' \<mapsto> KNone] = Inr kw' \<and>
        kw' ''xlabel'' = Some KNone \<and> kw' ''ylabel'' = Some (KFun (\<lambda>u. f_wrap u ''None''))"
  using set_axis_labels_explicit_none[where series = "[line_x]" and s = line_x and rest = "[]" and attrs = id
        and kw = "[''xlabel'' \<mapsto> KNone]" and latex = "\<lambda>s. sym_name s"] by simp

lemma plot_complex_finish_backend_witness:
  "\<exists>kw'. plot_complex_finish id (\<lambda>s. sym_name s) (KObj ''MB'') (KObj ''KB'') Map.empty [line_x] =
        Inr (Backend (KObj ''MB'') [line_x] kw', False)"
  using plot_complex_finish_backend[where kw = Map.empty and attrs = id and latex = "\<lambda>s. sym_name s"
        and two_d = "KObj ''MB''" and three_d = "KObj ''KB''" and series = "[line_x]"]
  by (simp add: kw_get_def)


end
