(* ===== verification/Mesh.thy ===== *)
theory Mesh
  imports Prelude
begin

text \<open>
  The mesh connectivity builder of \<open>src/spb/utils.py\<close>: \<open>ij2k\<close> (lines 310--314) and
  \<open>get_vertices_indices\<close> (317--340).  A 2D numpy array is a list of rows of equal
  length; \<open>flatten\<close> is row-major concatenation; \<open>np.vstack([x, y, z]).T\<close> pairs the
  flattened arrays up and raises \<open>ValueError\<close> when their lengths differ.  A face
  \<open>[a, b, c]\<close> is the triple \<open>(a, b, c)\<close>.
\<close>

type_synonym face = "nat \<times> nat \<times> nat"

definition ij2k :: "nat \<Rightarrow> nat \<Rightarrow> nat \<Rightarrow> nat" where
  "ij2k cols i j = cols * i + j"

text \<open>The two triangles of the cell whose lower-right corner is \<open>(i, j)\<close> (lines 334--339).\<close>

definition cell_faces :: "nat \<Rightarrow> nat \<Rightarrow> nat \<Rightarrow> face list" where
  "cell_faces cols i j =
     [(ij2k cols i j, ij2k cols (i - 1) j, ij2k cols i (j - 1)),
      (ij2k cols (i - 1) (j - 1), ij2k cols i (j - 1), ij2k cols (i - 1) j)]"

text \<open>The double loop \<open>for i in range(1, rows): for j in range(1, cols)\<close>.\<close>

definition mesh_indices :: "nat \<Rightarrow> nat \<Rightarrow> face list" where
  "mesh_indices rows cols = concat (map (\<lambda>i. concat (map (cell_faces cols i) [1..<cols])) [1..<rows])"

text \<open>\<open>x.shape\<close> of a 2D array.\<close>

definition grid_shape :: "'a list list \<Rightarrow> nat \<times> nat" where
  "grid_shape x = (length x, case x of [] \<Rightarrow> 0 | r # _ \<Rightarrow> length r)"

definition get_vertices_indices ::
  "'a list list \<Rightarrow> 'a list list \<Rightarrow> 'a list list \<Rightarrow> (('a \<times> 'a \<times> 'a) list \<times> face list) result" where
  "get_vertices_indices x y z =
     (case grid_shape x of (rows, cols) \<Rightarrow>
        let xf = concat x; yf = concat y; zf = concat z
        in if length yf \<noteq> length xf \<or> length zf \<noteq> length xf then Inl ValueError
           else Inr (zip xf (zip yf zf), mesh_indices rows cols))"

text \<open>A rectangular 2D array of the given shape (what a numpy array always is).\<close>

definition is_grid :: "nat \<Rightarrow> nat \<Rightarrow> 'a list list \<Rightarrow> bool" where
  "is_grid rows cols x \<longleftrightarrow> length x = rows \<and> list_all (\<lambda>r. length r = cols) x"

text \<open>The directed edges of a face, in its winding order.\<close>

fun face_edges :: "face \<Rightarrow> (nat \<times> nat) list" where
  "face_edges (a, b, c) = [(a, b), (b, c), (c, a)]"

text \<open>
  Proof devices for the orientation theorem: the \<open>e\<close>-th directed edge (\<open>e < 6\<close>) of
  the two faces of cell \<open>(i, j)\<close> in grid coordinates, its vertex-index form, and the
  decoding of a directed edge back to its cell and number.
\<close>

definition edge_at :: "nat \<Rightarrow> nat \<Rightarrow> nat \<Rightarrow> (nat \<times> nat) \<times> (nat \<times> nat)" where
  "edge_at i j e =
     (if e = 0 then ((i, j), (i - 1, j))
      else if e = 1 then ((i - 1, j), (i, j - 1))
      else if e = 2 then ((i, j - 1), (i, j))
      else if e = 3 then ((i - 1, j - 1), (i, j - 1))
      else if e = 4 then ((i, j - 1), (i - 1, j))
      else ((i - 1, j), (i - 1, j - 1)))"

definition edge_key :: "nat \<Rightarrow> (nat \<times> nat) \<times> (nat \<times> nat) \<Rightarrow> nat \<times> nat" where
  "edge_key cols p = (case p of ((a, b), (c, d)) \<Rightarrow> (ij2k cols a b, ij2k cols c d))"

fun edge_cell :: "(nat \<times> nat) \<times> (nat \<times> nat) \<Rightarrow> nat \<times> nat \<times> nat" where
  "edge_cell ((r1, c1), (r2, c2)) =
     (if Suc r2 = r1 \<and> c2 = c1 then (r1, c1, 0)
      else if r2 = Suc r1 \<and> Suc c2 = c1 then (r2, c1, 1)
      else if r2 = r1 \<and> c2 = Suc c1 then (r1, c2, 2)
      else if r2 = Suc r1 \<and> c2 = c1 then (r2, Suc c1, 3)
      else if Suc r2 = r1 \<and> c2 = Suc c1 then (r1, c2, 4)
      else (Suc r1, c1, 5))"

definition edge_decode :: "nat \<Rightarrow> nat \<times> nat \<Rightarrow> nat \<times> nat \<times> nat" where
  "edge_decode cols k = (case k of (k1, k2) \<Rightarrow>
     edge_cell ((k1 div cols, k1 mod cols), (k2 div cols, k2 mod cols)))"

section \<open>Lemmas\<close>

lemma ij2k_inj:
  "j < cols \<Longrightarrow> j' < cols \<Longrightarrow> ij2k cols i j = ij2k cols i' j' \<longleftrightarrow> i = i' \<and> j = j'"
proof
  assume j: "j < cols" "j' < cols" and eq: "ij2k cols i j = ij2k cols i' j'"
  have "(cols * i + j) div cols = i" "(cols * i' + j') div cols = i'"
    using j by simp_all
  with eq have "i = i'" by (simp add: ij2k_def)
  with eq show "i = i' \<and> j = j'" by (simp add: ij2k_def)
qed simp

lemma ij2k_bound: "i < rows \<Longrightarrow> j < cols \<Longrightarrow> ij2k cols i j < rows * cols"
proof -
  assume "i < rows" "j < cols"
  then have "cols * i + j < cols * i + cols" by simp
  also have "\<dots> = cols * Suc i" by simp
  also have "\<dots> \<le> cols * rows" using \<open>i < rows\<close> by (intro mult_le_mono2) simp
  finally show ?thesis by (simp add: ij2k_def mult.commute)
qed

lemma set_mesh_indices:
  "set (mesh_indices rows cols) = (\<Union>i\<in>{1..<rows}. \<Union>j\<in>{1..<cols}. set (cell_faces cols i j))"
  by (simp add: mesh_indices_def)

lemma length_cell_faces [simp]: "length (cell_faces cols i j) = 2"
  by (simp add: cell_faces_def)

lemma nth_concat_rect:
  "list_all (\<lambda>r. length r = c) xs \<Longrightarrow> i < length xs \<Longrightarrow> j < c \<Longrightarrow> concat xs ! (c * i + j) = xs ! i ! j"
proof (induction xs arbitrary: i)
  case Nil
  then show ?case by simp
next
  case (Cons r xs)
  show ?case
  proof (cases i)
    case 0
    with Cons.prems show ?thesis by (simp add: nth_append)
  next
    case (Suc i')
    with Cons.prems have "concat xs ! (c * i' + j) = xs ! i' ! j"
      by (intro Cons.IH) simp_all
    with Cons.prems Suc show ?thesis by (simp add: nth_append)
  qed
qed

lemma length_concat_rect: "list_all (\<lambda>r. length r = c) xs \<Longrightarrow> length (concat xs) = c * length xs"
  by (induction xs) auto

lemma grid_shape_is_grid: "is_grid rows cols x \<Longrightarrow> 0 < rows \<Longrightarrow> grid_shape x = (rows, cols)"
  by (cases x) (auto simp: is_grid_def grid_shape_def)

lemma is_grid_length_concat: "is_grid rows cols x \<Longrightarrow> length (concat x) = rows * cols"
  unfolding is_grid_def using length_concat_rect [of cols x] by simp

text \<open>
  C10. The builder emits two triangles per grid cell: \<open>2 * (rows - 1) * (cols - 1)\<close> faces (8 for a 3 by 3 grid).
\<close>

theorem mesh_faces_count: "length (mesh_indices rows cols) = 2 * (rows - 1) * (cols - 1)"
proof -
  have row: "length (concat (map (cell_faces cols i) [1..<cols])) = 2 * (cols - 1)" for i
    by (subst concat_map_const_length [where k = 2]) simp_all
  have "length (mesh_indices rows cols) = 2 * (cols - 1) * length [1..<rows]"
    unfolding mesh_indices_def by (rule concat_map_const_length) (use row in simp)
  then show ?thesis by simp
qed

lemma mesh_indices_bound:
  assumes "(a, b, c) \<in> set (mesh_indices rows cols)"
  shows "a < rows * cols \<and> b < rows * cols \<and> c < rows * cols"
proof -
  from assms obtain i j where ij: "1 \<le> i" "i < rows" "1 \<le> j" "j < cols"
    and f: "(a, b, c) \<in> set (cell_faces cols i j)"
    by (auto simp: set_mesh_indices)
  have "i - 1 < rows" "j - 1 < cols" using ij by simp_all
  with ij f show ?thesis
    by (auto simp: cell_faces_def intro: ij2k_bound)
qed

text \<open>
  C9. Every vertex index of every face is an index of the vertex list: \<open>k(i, j) < rows * cols\<close>.
\<close>

theorem get_vertices_indices_bounds:
  assumes "is_grid rows cols x" "get_vertices_indices x y z = Inr (vs, fs)"
  shows "\<forall>(a, b, c)\<in>set fs. a < length vs \<and> b < length vs \<and> c < length vs"
proof (cases "rows = 0")
  case True
  with assms show ?thesis
    by (auto simp: is_grid_def get_vertices_indices_def grid_shape_def mesh_indices_def split: if_splits)
next
  case False
  with assms(1) have shape: "grid_shape x = (rows, cols)" by (simp add: grid_shape_is_grid)
  from assms(1) have "length (concat x) = rows * cols"
    by (rule is_grid_length_concat)
  with assms(2) shape have "length vs = rows * cols" and "fs = mesh_indices rows cols"
    by (auto simp: get_vertices_indices_def Let_def split: if_splits)
  then show ?thesis by (auto dest: mesh_indices_bound)
qed

text \<open>
  C16. On three arrays of one shape the builder succeeds, and vertex \<open>k(i, j) = cols * i + j\<close> is the sample \<open>(x[i][j], y[i][j], z[i][j])\<close>: flattening is row-major.
\<close>

theorem get_vertices_indices_vertex:
  assumes "is_grid rows cols x" "is_grid rows cols y" "is_grid rows cols z"
    and "i < rows" "j < cols"
  shows "\<exists>vs fs. get_vertices_indices x y z = Inr (vs, fs) \<and>
           vs ! ij2k cols i j = (x ! i ! j, y ! i ! j, z ! i ! j)"
proof -
  from assms have shape: "grid_shape x = (rows, cols)" by (simp add: grid_shape_is_grid)
  from assms(1-3) have len: "length (concat x) = rows * cols" "length (concat y) = rows * cols"
    "length (concat z) = rows * cols"
    by (simp_all add: is_grid_length_concat)
  have k: "ij2k cols i j < rows * cols"
    using ij2k_bound [OF assms(4,5)] .
  have "concat x ! ij2k cols i j = x ! i ! j" "concat y ! ij2k cols i j = y ! i ! j"
    "concat z ! ij2k cols i j = z ! i ! j"
    using assms by (simp_all add: ij2k_def is_grid_def nth_concat_rect)
  with len k shape show ?thesis
    by (simp add: get_vertices_indices_def)
qed

text \<open>
  Every face has three distinct vertices.
\<close>

theorem mesh_faces_nondegenerate:
  assumes "(a, b, c) \<in> set (mesh_indices rows cols)"
  shows "a \<noteq> b \<and> b \<noteq> c \<and> c \<noteq> a"
proof -
  from assms obtain i j where ij: "1 \<le> i" "1 \<le> j" "j < cols"
    and f: "(a, b, c) \<in> set (cell_faces cols i j)"
    by (auto simp: set_mesh_indices)
  have "j - 1 < cols" using ij by simp
  with ij f show ?thesis
    by (auto simp: cell_faces_def ij2k_inj)
qed


lemma ij2k_div_mod: "j < cols \<Longrightarrow> ij2k cols i j div cols = i" "j < cols \<Longrightarrow> ij2k cols i j mod cols = j"
  by (simp_all add: ij2k_def)

lemma edge_decode_edge_key:
  assumes "1 \<le> i" "1 \<le> j" "j < cols" "e < 6"
  shows "edge_decode cols (edge_key cols (edge_at i j e)) = (i, j, e)"
proof -
  obtain a where a: "i = Suc a" using assms(1) by (cases i) auto
  obtain b where b: "j = Suc b" using assms(2) by (cases j) auto
  from assms(3) b have "b < cols" by simp
  from assms(4) consider "e = 0" | "e = 1" | "e = 2" | "e = 3" | "e = 4" | "e = 5" by linarith
  then show ?thesis
    using assms(3) \<open>b < cols\<close>
    by cases (simp_all add: edge_at_def edge_key_def edge_decode_def ij2k_div_mod a b)
qed

lemma upt_6: "[0..<6] = [0, 1, 2, 3, 4, 5::nat]"
  by (simp add: upt_rec)

lemma cell_edges_eq:
  "concat (map face_edges (cell_faces cols i j)) = map (\<lambda>e. edge_key cols (edge_at i j e)) [0..<6]"
  by (simp add: upt_6 cell_faces_def edge_at_def edge_key_def)

lemma concat_map_concat: "concat (map f (concat xss)) = concat (map (\<lambda>xs. concat (map f xs)) xss)"
  by (induction xss) auto

lemma concat_concat_map: "concat (concat (map f xs)) = concat (map (\<lambda>x. concat (f x)) xs)"
  by (induction xs) auto

lemma mesh_edges_eq:
  "concat (map face_edges (mesh_indices rows cols)) =
   map (\<lambda>(i, j, e). edge_key cols (edge_at i j e)) (List.product [1..<rows] (List.product [1..<cols] [0..<6]))"
proof -
  have "concat (map face_edges (concat (map (cell_faces cols i) [1..<cols]))) =
        concat (map (\<lambda>j. map (\<lambda>e. edge_key cols (edge_at i j e)) [0..<6]) [1..<cols])" for i
    by (simp add: concat_map_concat cell_edges_eq comp_def)
  then show ?thesis
    unfolding mesh_indices_def concat_map_concat product_concat_map
    by (simp add: map_concat comp_def concat_concat_map)
qed

text \<open>
  C8. The fixed winding is consistent: no directed edge occurs in two faces.  The two
  triangles of a cell traverse their shared diagonal in opposite directions, and so do
  neighbouring cells on their shared sides, which is what makes the faces of the surface
  consistently oriented.
\<close>

theorem mesh_orientation_consistent:
  "distinct (concat (map face_edges (mesh_indices rows cols)))"
proof -
  let ?P = "List.product [1..<rows] (List.product [1..<cols] [0..<6::nat])"
  have "inj_on (\<lambda>(i, j, e). edge_key cols (edge_at i j e)) (set ?P)"
    by (rule inj_on_inverseI [where g = "edge_decode cols"]) (auto simp: edge_decode_edge_key)
  moreover have "distinct ?P" by (simp add: distinct_product)
  ultimately show ?thesis
    by (simp add: mesh_edges_eq distinct_map)
qed

section \<open>Witnesses\<close>

theorem get_vertices_indices_bounds_witness:
  "\<exists>vs fs. get_vertices_indices [[0, 1, 2], [3, 4, 5], [6, 7, 8 :: int]] [[0, 1, 2], [3, 4, 5], [6, 7, 8]]
      [[0, 1, 2], [3, 4, 5], [6, 7, 8]] = Inr (vs, fs) \<and>
     (8, 5, 7) \<in> set fs \<and> 8 < length vs \<and> 5 < length vs \<and> 7 < length vs"
proof -
  let ?g = "[[0, 1, 2], [3, 4, 5], [6, 7, 8]] :: int list list"
  let ?vs = "zip (concat ?g) (zip (concat ?g) (concat ?g))"
  have g: "is_grid 3 3 ?g" by (simp add: is_grid_def)
  have h: "get_vertices_indices ?g ?g ?g = Inr (?vs, mesh_indices 3 3)"
    by (simp add: get_vertices_indices_def grid_shape_def numeral_3_eq_3)
  have m: "(8, 5, 7) \<in> set (mesh_indices 3 3)"
    by (simp add: mesh_indices_def cell_faces_def ij2k_def upt_rec)
  from get_vertices_indices_bounds [OF g h] m have "8 < length ?vs \<and> 5 < length ?vs \<and> 7 < length ?vs"
    by blast
  with h m show ?thesis by blast
qed

theorem get_vertices_indices_vertex_witness:
  "\<exists>vs fs. get_vertices_indices [[1, 2], [3, 4]] [[5, 6], [7, 8]] [[0, 0], [0, 9 :: int]] = Inr (vs, fs) \<and>
     vs ! ij2k 2 1 1 = (4, 8, 9)"
proof -
  have "is_grid 2 2 [[1, 2], [3, 4 :: int]]" "is_grid 2 2 [[5, 6], [7, 8 :: int]]"
    "is_grid 2 2 [[0, 0], [0, 9 :: int]]"
    by (simp_all add: is_grid_def)
  from get_vertices_indices_vertex [OF this, of 1 1] show ?thesis by simp
qed

theorem mesh_faces_nondegenerate_witness: "(4::nat) \<noteq> 1 \<and> (1::nat) \<noteq> 3 \<and> (3::nat) \<noteq> 4"
proof -
  have "(4, 1, 3) \<in> set (mesh_indices 3 3)"
    by (simp add: mesh_indices_def cell_faces_def ij2k_def upt_rec)
  from mesh_faces_nondegenerate [OF this] show ?thesis .
qed

end
