(* ===== verification/Seeds.thy ===== *)
theory Seeds
  imports Complex_Main Mesh
begin

text \<open>
  The streamline seed finder, \<open>get_seeds_points\<close> of \<open>src/spb/utils.py\<close> (lines
  403--470).  The six arrays are 3D NumPy arrays of one shape \<open>(A, B, C)\<close>, as
  \<open>np.meshgrid\<close> makes them: the first axis is \<open>y\<close>, the second \<open>x\<close>, the third
  \<open>z\<close>.  They are nested lists here; a float is a finite real, NaN, or an infinity.
  \<open>np.stack\<close> refuses arrays of different shapes (\<open>ValueError\<close>) and the index \<open>0\<close>
  or \<open>-1\<close> of an empty axis raises \<open>IndexError\<close>.
\<close>

datatype flt = Fl real | FNaN | FInf bool  \<comment> \<open>\<open>FInf True\<close> is \<open>+inf\<close>\<close>

fun is_nan :: "flt \<Rightarrow> bool" where
  "is_nan FNaN = True"
| "is_nan _ = False"

text \<open>\<open>x > 0\<close> and \<open>x < 0\<close> on floats: false on NaN.\<close>

fun gt0 :: "flt \<Rightarrow> bool" where
  "gt0 (Fl r) = (0 < r)"
| "gt0 FNaN = False"
| "gt0 (FInf b) = b"

fun lt0 :: "flt \<Rightarrow> bool" where
  "lt0 (Fl r) = (r < 0)"
| "lt0 FNaN = False"
| "lt0 (FInf b) = (\<not> b)"

type_synonym pt = "flt \<times> flt \<times> flt"
type_synonym grid3 = "flt list list list"

definition nan_pt :: pt where
  "nan_pt = (FNaN, FNaN, FNaN)"

text \<open>\<open>np.all([np.isnan(t) for t in a])\<close> on a point.\<close>

fun all_nan :: "pt \<Rightarrow> bool" where
  "all_nan (x, y, z) = (is_nan x \<and> is_nan y \<and> is_nan z)"

section \<open>Faces of the sampling box\<close>

text \<open>\<open>g[:, 0, :]\<close>, \<open>g[:, -1, :]\<close>, \<open>g[0, :, :]\<close>, \<open>g[-1, :, :]\<close>, \<open>g[:, :, 0]\<close>, \<open>g[:, :, -1]\<close>.\<close>

definition face_x0 :: "'a list list list \<Rightarrow> 'a list list" where
  "face_x0 g = map hd g"

definition face_x1 :: "'a list list list \<Rightarrow> 'a list list" where
  "face_x1 g = map last g"

definition face_y0 :: "'a list list list \<Rightarrow> 'a list list" where
  "face_y0 g = hd g"

definition face_y1 :: "'a list list list \<Rightarrow> 'a list list" where
  "face_y1 g = last g"

definition face_z0 :: "'a list list list \<Rightarrow> 'a list list" where
  "face_z0 g = map (map hd) g"

definition face_z1 :: "'a list list list \<Rightarrow> 'a list list" where
  "face_z1 g = map (map last) g"

section \<open>The seed finder\<close>

text \<open>
  \<open>find_points_at_input_vectors\<close>: the coordinates of the face where the normal component
  passes the check, NaN elsewhere, flattened in row-major order and paired up, then the
  all-NaN rows dropped.
\<close>

definition find_points :: "(flt \<Rightarrow> bool) \<Rightarrow> flt list list \<Rightarrow> flt list list \<Rightarrow> flt list list \<Rightarrow> flt list list \<Rightarrow> pt list" where
  "find_points chk vf cx cy cz =
     (let tmp = map (\<lambda>(w, p). if chk w then p else nan_pt)
                  (zip (concat vf) (zip (concat cx) (zip (concat cy) (concat cz))))
      in filter (\<lambda>p. \<not> all_nan p) tmp)"

text \<open>The shape NumPy gives a nested list, read off its first items; a box of that shape.\<close>

definition box_shape :: "'a list list list \<Rightarrow> nat \<times> nat \<times> nat" where
  "box_shape g = (length g, (case g of [] \<Rightarrow> 0 | m # _ \<Rightarrow> length m),
                  (case g of [] \<Rightarrow> 0 | m # _ \<Rightarrow> (case m of [] \<Rightarrow> 0 | r # _ \<Rightarrow> length r)))"

definition is_box :: "nat \<Rightarrow> nat \<Rightarrow> nat \<Rightarrow> 'a list list list \<Rightarrow> bool" where
  "is_box a b c g \<longleftrightarrow> length g = a \<and> list_all (is_grid b c) g"

definition get_seeds_points :: "grid3 \<Rightarrow> grid3 \<Rightarrow> grid3 \<Rightarrow> grid3 \<Rightarrow> grid3 \<Rightarrow> grid3 \<Rightarrow> pt list result" where
  "get_seeds_points xx yy zz uu vv ww =
     (case box_shape xx of (a, b, c) \<Rightarrow>
        if \<not> list_all (is_box a b c) [xx, yy, zz, uu, vv, ww] then Inl ValueError
        else if a = 0 \<or> b = 0 \<or> c = 0 then Inl IndexError
        else Inr (find_points gt0 (face_x0 uu) (face_x0 xx) (face_x0 yy) (face_x0 zz) @
                  find_points lt0 (face_x1 uu) (face_x1 xx) (face_x1 yy) (face_x1 zz) @
                  find_points gt0 (face_y0 vv) (face_y0 xx) (face_y0 yy) (face_y0 zz) @
                  find_points lt0 (face_y1 vv) (face_y1 xx) (face_y1 yy) (face_y1 zz) @
                  find_points gt0 (face_z0 ww) (face_z0 xx) (face_z0 yy) (face_z0 zz) @
                  find_points lt0 (face_z1 ww) (face_z1 xx) (face_z1 yy) (face_z1 zz)))"

section \<open>Abstract specification\<close>

text \<open>The sample point with index \<open>(i, j, k)\<close>.\<close>

definition pt_at :: "grid3 \<Rightarrow> grid3 \<Rightarrow> grid3 \<Rightarrow> nat \<Rightarrow> nat \<Rightarrow> nat \<Rightarrow> pt" where
  "pt_at xx yy zz i j k = (xx ! i ! j ! k, yy ! i ! j ! k, zz ! i ! j ! k)"

text \<open>
  The seeds of one face of \<open>m \<times> n\<close> samples in row-major order: the sample points where the
  normal component \<open>v\<close> passes the check and the point is not all NaN.
\<close>

definition face_seeds :: "(flt \<Rightarrow> bool) \<Rightarrow> nat \<Rightarrow> nat \<Rightarrow> (nat \<Rightarrow> nat \<Rightarrow> flt) \<Rightarrow> (nat \<Rightarrow> nat \<Rightarrow> pt) \<Rightarrow> pt list" where
  "face_seeds chk m n v p = [p i j. i \<leftarrow> [0..<m], j \<leftarrow> [0..<n], chk (v i j) \<and> \<not> all_nan (p i j)]"

text \<open>
  The specification of the seed set of a box of \<open>a \<times> b \<times> c\<close> samples: the inward samples
  of the faces \<open>x_min\<close> (second index \<open>0\<close>, \<open>u > 0\<close>), \<open>x_max\<close> (second index last,
  \<open>u < 0\<close>), \<open>y_min\<close>, \<open>y_max\<close> (first index, \<open>v\<close>), \<open>z_min\<close>, \<open>z_max\<close> (third index,
  \<open>w\<close>), in this order, corner and edge points once per face they qualify on.
\<close>

definition seeds_spec :: "grid3 \<Rightarrow> grid3 \<Rightarrow> grid3 \<Rightarrow> grid3 \<Rightarrow> grid3 \<Rightarrow> grid3 \<Rightarrow> nat \<Rightarrow> nat \<Rightarrow> nat \<Rightarrow> pt list" where
  "seeds_spec xx yy zz uu vv ww a b c =
     face_seeds gt0 a c (\<lambda>i k. uu ! i ! 0 ! k) (\<lambda>i k. pt_at xx yy zz i 0 k) @
     face_seeds lt0 a c (\<lambda>i k. uu ! i ! (b - 1) ! k) (\<lambda>i k. pt_at xx yy zz i (b - 1) k) @
     face_seeds gt0 b c (\<lambda>j k. vv ! 0 ! j ! k) (\<lambda>j k. pt_at xx yy zz 0 j k) @
     face_seeds lt0 b c (\<lambda>j k. vv ! (a - 1) ! j ! k) (\<lambda>j k. pt_at xx yy zz (a - 1) j k) @
     face_seeds gt0 a b (\<lambda>i j. ww ! i ! j ! 0) (\<lambda>i j. pt_at xx yy zz i j 0) @
     face_seeds lt0 a b (\<lambda>i j. ww ! i ! j ! (c - 1)) (\<lambda>i j. pt_at xx yy zz i j (c - 1))"

text \<open>The sample \<open>(i, j, k)\<close> lies on a face of an \<open>a \<times> b \<times> c\<close> box where the field's normal component points inward.\<close>

definition inward :: "grid3 \<Rightarrow> grid3 \<Rightarrow> grid3 \<Rightarrow> nat \<Rightarrow> nat \<Rightarrow> nat \<Rightarrow> nat \<Rightarrow> nat \<Rightarrow> nat \<Rightarrow> bool" where
  "inward uu vv ww a b c i j k \<longleftrightarrow>
     (j = 0 \<and> gt0 (uu ! i ! j ! k)) \<or> (j = b - 1 \<and> lt0 (uu ! i ! j ! k)) \<or>
     (i = 0 \<and> gt0 (vv ! i ! j ! k)) \<or> (i = a - 1 \<and> lt0 (vv ! i ! j ! k)) \<or>
     (k = 0 \<and> gt0 (ww ! i ! j ! k)) \<or> (k = c - 1 \<and> lt0 (ww ! i ! j ! k))"

text \<open>Every entry of a 3D array satisfies \<open>P\<close>.\<close>

definition all3 :: "('a \<Rightarrow> bool) \<Rightarrow> 'a list list list \<Rightarrow> bool" where
  "all3 P g \<longleftrightarrow> list_all (list_all (list_all P)) g"

text \<open>A 2 x 2 x 2 meshgrid and a constant field.\<close>

abbreviation "mx \<equiv> [[[Fl 0, Fl 0], [Fl 1, Fl 1]], [[Fl 0, Fl 0], [Fl 1, Fl 1]]]"
abbreviation "my \<equiv> [[[Fl 0, Fl 0], [Fl 0, Fl 0]], [[Fl 1, Fl 1], [Fl 1, Fl 1]]]"
abbreviation "mz \<equiv> [[[Fl 0, Fl 1], [Fl 0, Fl 1]], [[Fl 0, Fl 1], [Fl 0, Fl 1]]]"
abbreviation "one3 \<equiv> replicate 2 (replicate 2 (replicate 2 (Fl 1)))"

section \<open>Lemmas\<close>

lemma grid_tab: "is_grid m n g \<Longrightarrow> g = map (\<lambda>i. map (\<lambda>j. g ! i ! j) [0..<n]) [0..<m]"
  by (auto simp: is_grid_def list_eq_iff_nth_eq list_all_length)

lemma map2_same: "map2 h ns ns = map (\<lambda>x. h x x) ns"
  by (induction ns) simp_all

lemma zip_concat_tab:
  "zip (concat (map (\<lambda>i. map (f i) ns) ms)) (concat (map (\<lambda>i. map (g i) ns) ms)) =
   concat (map (\<lambda>i. map (\<lambda>j. (f i j, g i j)) ns) ms)"
  by (induction ms) (simp_all add: zip_append zip_map_map map2_same)

lemma filter_nan_map:
  "filter (\<lambda>p. \<not> all_nan p) (map (\<lambda>j. if c j then p j else nan_pt) ns) = [p j. j \<leftarrow> ns, c j \<and> \<not> all_nan (p j)]"
  by (induction ns) (simp_all add: nan_pt_def)

lemma find_points_face_seeds:
  assumes "is_grid m n vf" "is_grid m n cx" "is_grid m n cy" "is_grid m n cz"
  shows "find_points chk vf cx cy cz = face_seeds chk m n (\<lambda>i j. vf ! i ! j) (\<lambda>i j. (cx ! i ! j, cy ! i ! j, cz ! i ! j))"
proof -
  have "find_points chk vf cx cy cz =
        filter (\<lambda>p. \<not> all_nan p) (map (\<lambda>(w, p). if chk w then p else nan_pt)
          (concat (map (\<lambda>i. map (\<lambda>j. (vf ! i ! j, cx ! i ! j, cy ! i ! j, cz ! i ! j)) [0..<n]) [0..<m])))"
    unfolding find_points_def Let_def
    by (subst grid_tab[OF assms(1)], subst grid_tab[OF assms(2)], subst grid_tab[OF assms(3)],
        subst grid_tab[OF assms(4)]) (simp only: zip_concat_tab)
  also have "\<dots> = face_seeds chk m n (\<lambda>i j. vf ! i ! j) (\<lambda>i j. (cx ! i ! j, cy ! i ! j, cz ! i ! j))"
    by (simp add: face_seeds_def filter_concat map_concat comp_def filter_nan_map)
  finally show ?thesis .
qed

lemma is_box_nth: "is_box a b c g \<Longrightarrow> i < a \<Longrightarrow> is_grid b c (g ! i)"
  by (simp add: is_box_def list_all_length)

lemma is_grid_nth: "is_grid m n g \<Longrightarrow> i < m \<Longrightarrow> length (g ! i) = n"
  by (simp add: is_grid_def list_all_length)

lemma face_x0_grid: "is_box a b c g \<Longrightarrow> 0 < b \<Longrightarrow> is_grid a c (face_x0 g)"
  by (auto simp: is_box_def face_x0_def is_grid_def list_all_iff hd_conv_nth)

lemma face_x1_grid: "is_box a b c g \<Longrightarrow> 0 < b \<Longrightarrow> is_grid a c (face_x1 g)"
  by (auto simp: is_box_def face_x1_def is_grid_def list_all_iff last_conv_nth)

lemma face_y0_grid: "is_box a b c g \<Longrightarrow> 0 < a \<Longrightarrow> is_grid b c (face_y0 g)"
  by (auto simp: is_box_def face_y0_def list_all_iff hd_conv_nth)

lemma face_y1_grid: "is_box a b c g \<Longrightarrow> 0 < a \<Longrightarrow> is_grid b c (face_y1 g)"
  by (auto simp: is_box_def face_y1_def list_all_iff last_conv_nth)

lemma face_z0_grid: "is_box a b c g \<Longrightarrow> is_grid a b (face_z0 g)"
  by (auto simp: is_box_def face_z0_def is_grid_def list_all_iff)

lemma face_z1_grid: "is_box a b c g \<Longrightarrow> is_grid a b (face_z1 g)"
  by (auto simp: is_box_def face_z1_def is_grid_def list_all_iff)

lemma face_x0_nth: "is_box a b c g \<Longrightarrow> 0 < b \<Longrightarrow> i < a \<Longrightarrow> face_x0 g ! i ! k = g ! i ! 0 ! k"
  using is_box_nth[of a b c g i] by (auto simp: is_box_def face_x0_def is_grid_def hd_conv_nth)

lemma face_x1_nth: "is_box a b c g \<Longrightarrow> 0 < b \<Longrightarrow> i < a \<Longrightarrow> face_x1 g ! i ! k = g ! i ! (b - 1) ! k"
  using is_box_nth[of a b c g i] by (auto simp: is_box_def face_x1_def is_grid_def last_conv_nth)

lemma face_y0_nth: "is_box a b c g \<Longrightarrow> 0 < a \<Longrightarrow> face_y0 g ! j ! k = g ! 0 ! j ! k"
  by (auto simp: is_box_def face_y0_def hd_conv_nth)

lemma face_y1_nth: "is_box a b c g \<Longrightarrow> 0 < a \<Longrightarrow> face_y1 g ! j ! k = g ! (a - 1) ! j ! k"
  by (auto simp: is_box_def face_y1_def last_conv_nth)

lemma face_z0_nth: "is_box a b c g \<Longrightarrow> 0 < c \<Longrightarrow> i < a \<Longrightarrow> j < b \<Longrightarrow> face_z0 g ! i ! j = g ! i ! j ! 0"
  using is_box_nth[of a b c g i] is_grid_nth[of b c "g ! i" j]
  by (auto simp: is_box_def face_z0_def hd_conv_nth is_grid_def)

lemma face_z1_nth: "is_box a b c g \<Longrightarrow> 0 < c \<Longrightarrow> i < a \<Longrightarrow> j < b \<Longrightarrow> face_z1 g ! i ! j = g ! i ! j ! (c - 1)"
  using is_box_nth[of a b c g i] is_grid_nth[of b c "g ! i" j]
  by (auto simp: is_box_def face_z1_def last_conv_nth is_grid_def)

lemma face_seeds_cong:
  "(\<And>i j. i < m \<Longrightarrow> j < n \<Longrightarrow> v i j = v' i j \<and> p i j = p' i j) \<Longrightarrow>
   face_seeds chk m n v p = face_seeds chk m n v' p'"
  unfolding face_seeds_def by (auto intro!: arg_cong[where f = concat] map_cong)

lemma box_shape_is_box: "is_box a b c g \<Longrightarrow> 0 < a \<Longrightarrow> 0 < b \<Longrightarrow> box_shape g = (a, b, c)"
  by (cases g) (auto simp: is_box_def box_shape_def is_grid_def split: list.split)

lemma find_points_face:
  assumes "is_grid m n vf" "is_grid m n cx" "is_grid m n cy" "is_grid m n cz"
    and "\<And>i j. i < m \<Longrightarrow> j < n \<Longrightarrow> vf ! i ! j = v i j \<and> (cx ! i ! j, cy ! i ! j, cz ! i ! j) = p i j"
  shows "find_points chk vf cx cy cz = face_seeds chk m n v p"
  unfolding find_points_face_seeds[OF assms(1-4)] by (rule face_seeds_cong) (rule assms(5))

lemma get_seeds_points_spec:
  assumes box: "list_all (is_box a b c) [xx, yy, zz, uu, vv, ww]" and pos: "0 < a" "0 < b" "0 < c"
  shows "get_seeds_points xx yy zz uu vv ww = Inr (seeds_spec xx yy zz uu vv ww a b c)"
proof -
  have bx: "is_box a b c xx" "is_box a b c yy" "is_box a b c zz" "is_box a b c uu" "is_box a b c vv" "is_box a b c ww"
    using box by simp_all
  have "find_points gt0 (face_x0 uu) (face_x0 xx) (face_x0 yy) (face_x0 zz) =
        face_seeds gt0 a c (\<lambda>i k. uu ! i ! 0 ! k) (\<lambda>i k. pt_at xx yy zz i 0 k)"
    by (rule find_points_face) (simp_all add: bx pos face_x0_grid[where a=a and b=b and c=c] face_x0_nth[where a=a and b=b and c=c] pt_at_def)
  moreover have "find_points lt0 (face_x1 uu) (face_x1 xx) (face_x1 yy) (face_x1 zz) =
        face_seeds lt0 a c (\<lambda>i k. uu ! i ! (b - 1) ! k) (\<lambda>i k. pt_at xx yy zz i (b - 1) k)"
    by (rule find_points_face) (simp_all add: bx pos face_x1_grid[where a=a and b=b and c=c] face_x1_nth[where a=a and b=b and c=c] pt_at_def)
  moreover have "find_points gt0 (face_y0 vv) (face_y0 xx) (face_y0 yy) (face_y0 zz) =
        face_seeds gt0 b c (\<lambda>j k. vv ! 0 ! j ! k) (\<lambda>j k. pt_at xx yy zz 0 j k)"
    by (rule find_points_face) (simp_all add: bx pos face_y0_grid[where a=a and b=b and c=c] face_y0_nth[where a=a and b=b and c=c] pt_at_def)
  moreover have "find_points lt0 (face_y1 vv) (face_y1 xx) (face_y1 yy) (face_y1 zz) =
        face_seeds lt0 b c (\<lambda>j k. vv ! (a - 1) ! j ! k) (\<lambda>j k. pt_at xx yy zz (a - 1) j k)"
    by (rule find_points_face) (simp_all add: bx pos face_y1_grid[where a=a and b=b and c=c] face_y1_nth[where a=a and b=b and c=c] pt_at_def)
  moreover have "find_points gt0 (face_z0 ww) (face_z0 xx) (face_z0 yy) (face_z0 zz) =
        face_seeds gt0 a b (\<lambda>i j. ww ! i ! j ! 0) (\<lambda>i j. pt_at xx yy zz i j 0)"
    by (rule find_points_face) (simp_all add: bx pos face_z0_grid[where a=a and b=b and c=c] face_z0_nth[where a=a and b=b and c=c] pt_at_def)
  moreover have "find_points lt0 (face_z1 ww) (face_z1 xx) (face_z1 yy) (face_z1 zz) =
        face_seeds lt0 a b (\<lambda>i j. ww ! i ! j ! (c - 1)) (\<lambda>i j. pt_at xx yy zz i j (c - 1))"
    by (rule find_points_face) (simp_all add: bx pos face_z1_grid[where a=a and b=b and c=c] face_z1_nth[where a=a and b=b and c=c] pt_at_def)
  ultimately show ?thesis
    using box pos by (simp add: get_seeds_points_def box_shape_is_box[OF bx(1) pos(1,2)] seeds_spec_def)
qed

text \<open>
  C17. On six arrays of one shape with no empty axis, \<open>get_seeds_points\<close> returns the seeds of the six faces in the order x_min, x_max, y_min, y_max, z_min, z_max, each face in row-major order, keeping a sample iff the normal field component points inward (positive on a min face, negative on a max face) and its coordinates are not all NaN.
\<close>

theorem get_seeds_points_refines:
  assumes box: "list_all (is_box a b c) [xx, yy, zz, uu, vv, ww]" and pos: "0 < a" "0 < b" "0 < c"
  shows "get_seeds_points xx yy zz uu vv ww = Inr (seeds_spec xx yy zz uu vv ww a b c)"
  using assms by (rule get_seeds_points_spec)

lemma set_face_seeds:
  "set (face_seeds chk m n v p) = {p i j |i j. i < m \<and> j < n \<and> chk (v i j) \<and> \<not> all_nan (p i j)}"
  unfolding face_seeds_def by (auto simp del: all_nan.simps) (use atLeastLessThan_iff in blast)+

text \<open>
  C18. Soundness and completeness of the seed finder: it returns, and the seeds are exactly the sample points that lie on a face of the box where the field points inward and whose coordinates are not all NaN.
\<close>

theorem get_seeds_points_set:
  assumes box: "list_all (is_box a b c) [xx, yy, zz, uu, vv, ww]" and pos: "0 < a" "0 < b" "0 < c"
  shows "\<exists>pts. get_seeds_points xx yy zz uu vv ww = Inr pts \<and>
           set pts = {pt_at xx yy zz i j k |i j k. i < a \<and> j < b \<and> k < c \<and>
                        inward uu vv ww a b c i j k \<and> \<not> all_nan (pt_at xx yy zz i j k)}"
proof -
  have "set (seeds_spec xx yy zz uu vv ww a b c) = {pt_at xx yy zz i j k |i j k. i < a \<and> j < b \<and> k < c \<and>
                        inward uu vv ww a b c i j k \<and> \<not> all_nan (pt_at xx yy zz i j k)}"
    using pos unfolding seeds_spec_def set_append set_face_seeds inward_def
    by auto (metis One_nat_def Suc_pred diff_less less_numeral_extra(1))+
  then show ?thesis using get_seeds_points_spec[OF box pos] by blast
qed

lemma concat_map_if_all: "(\<And>j. j \<in> set xs \<Longrightarrow> c j) \<Longrightarrow> concat (map (\<lambda>j. if c j then [f j] else []) xs) = map f xs"
  by (induction xs) auto

lemma face_seeds_all:
  "(\<And>i j. i < m \<Longrightarrow> j < n \<Longrightarrow> chk (v i j) \<and> \<not> all_nan (p i j)) \<Longrightarrow> length (face_seeds chk m n v p) = m * n"
proof -
  assume h: "\<And>i j. i < m \<Longrightarrow> j < n \<Longrightarrow> chk (v i j) \<and> \<not> all_nan (p i j)"
  have "face_seeds chk m n v p = concat (map (\<lambda>i. map (p i) [0..<n]) [0..<m])"
    unfolding face_seeds_def using h by (auto intro!: arg_cong[where f = concat] map_cong concat_map_if_all simp del: all_nan.simps)
  then show ?thesis by (simp add: length_concat comp_def sum_list_triv)
qed

lemma face_seeds_none: "(\<And>i j. i < m \<Longrightarrow> j < n \<Longrightarrow> \<not> chk (v i j)) \<Longrightarrow> face_seeds chk m n v p = []"
  unfolding face_seeds_def by (auto simp del: all_nan.simps)

lemma all3_nth: "all3 P g \<Longrightarrow> is_box a b c g \<Longrightarrow> i < a \<Longrightarrow> j < b \<Longrightarrow> k < c \<Longrightarrow> P (g ! i ! j ! k)"
  using is_box_nth[of a b c g i] is_grid_nth[of b c "g ! i" j]
  by (auto simp: all3_def is_box_def is_grid_def list_all_length)

lemma gt0_not_lt0: "gt0 x \<Longrightarrow> \<not> lt0 x"
  by (cases x) auto

lemma not_all_nan_pt_at: "\<not> is_nan (xx ! i ! j ! k) \<Longrightarrow> \<not> all_nan (pt_at xx yy zz i j k)"
  by (simp add: pt_at_def)

text \<open>
  C19. For a field whose three components are positive everywhere, on finite coordinates, the seed finder returns exactly one point per sample of the three min faces, a*c + b*c + a*b points in all (3N^2 on an N x N x N box; the max faces contribute none); corner and edge points are repeated, once per face.
\<close>

theorem get_seeds_points_positive_count:
  assumes box: "list_all (is_box a b c) [xx, yy, zz, uu, vv, ww]" and pos: "0 < a" "0 < b" "0 < c"
    and field: "all3 gt0 uu" "all3 gt0 vv" "all3 gt0 ww" and fin: "all3 (\<lambda>x. \<not> is_nan x) xx"
  shows "\<exists>pts. get_seeds_points xx yy zz uu vv ww = Inr pts \<and> length pts = a * c + b * c + a * b"
proof -
  have bx: "is_box a b c xx" "is_box a b c uu" "is_box a b c vv" "is_box a b c ww" using box by simp_all
  note at = all3_nth[OF field(1) bx(2)] all3_nth[OF field(2) bx(3)] all3_nth[OF field(3) bx(4)] all3_nth[OF fin bx(1)]
  have "length (seeds_spec xx yy zz uu vv ww a b c) = a * c + b * c + a * b"
    unfolding seeds_spec_def using pos
    by (simp add: face_seeds_all face_seeds_none at gt0_not_lt0 not_all_nan_pt_at)
  then show ?thesis using get_seeds_points_spec[OF box pos] by simp
qed

section \<open>Witnesses\<close>

lemma get_seeds_points_refines_witness:
  "get_seeds_points mx my mz one3 one3 one3 = Inr (seeds_spec mx my mz one3 one3 one3 2 2 2)"
  by (rule get_seeds_points_refines) (simp_all add: is_box_def is_grid_def numeral_2_eq_2)

lemma get_seeds_points_set_witness:
  "\<exists>pts. get_seeds_points mx my mz one3 one3 one3 = Inr pts \<and>
     set pts = {pt_at mx my mz i j k |i j k. i < 2 \<and> j < 2 \<and> k < 2 \<and>
                  inward one3 one3 one3 2 2 2 i j k \<and> \<not> all_nan (pt_at mx my mz i j k)}"
  by (rule get_seeds_points_set) (simp_all add: is_box_def is_grid_def numeral_2_eq_2)

lemma get_seeds_points_positive_count_witness:
  "\<exists>pts. get_seeds_points mx my mz one3 one3 one3 = Inr pts \<and> length pts = 12"
proof -
  have "list_all (is_box 2 2 2) [mx, my, mz, one3, one3, one3]"
    by (simp add: is_box_def is_grid_def numeral_2_eq_2)
  moreover have "all3 gt0 one3" "all3 (\<lambda>x. \<not> is_nan x) mx"
    by (simp_all add: all3_def numeral_2_eq_2)
  ultimately show ?thesis
    using get_seeds_points_positive_count[of 2 2 2 mx my mz one3 one3 one3] by simp
qed

end
