(* ===== verification/PlotGrid.thy ===== *)
theory PlotGrid
  imports Prelude
begin

text \<open>
  The grid layout of \<open>src/spb/backends/plotgrid.py\<close>: \<open>_nrows_ncols\<close> (lines 11--25),
  which completes a requested number of rows and columns to a grid holding all plots, and
  the first mode of operation of \<open>plotgrid\<close> (lines 143--156), which walks the grid in
  row-major order and places \<open>args[c]\<close> in cell \<open>c\<close>.  Python integers are \<open>int\<close>;
  \<open>np.ceil(n / d)\<close> for \<open>d > 0\<close> is the integer ceiling \<open>-((-n) div d)\<close>.  The
  recursion of \<open>_nrows_ncols\<close> is also a step relation with its reachable final state, and
  the figure builders \<open>_create_mpl_figure\<close> and \<open>_create_panel_figure\<close> (lines
  27--47) are modelled over the plots' attributes; matplotlib and panel objects are not.
\<close>

definition ceil_div :: "int \<Rightarrow> int \<Rightarrow> int" where
  "ceil_div n d = - ((- n) div d)"

function nrows_ncols :: "int \<Rightarrow> int \<Rightarrow> int \<Rightarrow> int \<times> int" where
  "nrows_ncols nr nc nplots =
     (if nc \<le> 0 \<and> nr \<le> 0 then (nplots, 1)
      else if nr \<le> 0 then (ceil_div nplots nc, nc)
      else if nc \<le> 0 then (nr, ceil_div nplots nr)
      else if nr * nc < nplots then nrows_ncols (nr + 1) nc nplots
      else (nr, nc))"
  by pat_completeness auto

termination
proof (relation "measure (\<lambda>(nr, nc, nplots). nat (nplots - nr * nc))")
  fix nr nc nplots :: int
  assume "\<not> (nc \<le> 0 \<and> nr \<le> 0)" "\<not> nr \<le> 0" "\<not> nc \<le> 0" "nr * nc < nplots"
  then show "((nr + 1, nc, nplots), nr, nc, nplots) \<in> measure (\<lambda>(nr, nc, nplots). nat (nplots - nr * nc))"
    by (simp add: distrib_right)
qed simp

declare nrows_ncols.simps [simp del]

text \<open>
  The loop of lines 152--156: \<open>for i in range(nr): for j in range(nc): mapping[gs[i, j]] =
  args[c]; c += 1\<close>; \<open>args[c]\<close> past the end raises \<open>IndexError\<close>.
\<close>

definition place_cell :: "'p list \<Rightarrow> nat \<times> nat \<Rightarrow> ((nat \<times> nat) \<times> 'p) list \<times> nat \<Rightarrow> (((nat \<times> nat) \<times> 'p) list \<times> nat) result" where
  "place_cell args ij st =
     (case st of (mapping, c) \<Rightarrow> if c < length args then Inr (mapping @ [(ij, args ! c)], c + 1) else Inl IndexError)"

definition grid_cells :: "int \<Rightarrow> int \<Rightarrow> (nat \<times> nat) list" where
  "grid_cells nr nc = [(i, j). i \<leftarrow> [0..<nat nr], j \<leftarrow> [0..<nat nc]]"

definition layout :: "int \<Rightarrow> int \<Rightarrow> 'p list \<Rightarrow> ((nat \<times> nat) \<times> 'p) list result" where
  "layout nr nc args = rbind (rfold (place_cell args) (grid_cells nr nc) ([], 0)) (\<lambda>st. Inr (fst st))"

text \<open>Lines 143--156 with the defaults \<open>nr = -1\<close>, \<open>nc = 1\<close> of lines 146--147 supplied by the caller.\<close>

definition plotgrid_layout :: "int \<Rightarrow> int \<Rightarrow> 'p list \<Rightarrow> ((nat \<times> nat) \<times> 'p) list result" where
  "plotgrid_layout nr nc args =
     (case nrows_ncols nr nc (int (length args)) of (nr', nc') \<Rightarrow> layout nr' nc' args)"

text \<open>
  The figure \<open>plotgrid\<close> builds (lines 140--178): an empty figure without plots, a
  Matplotlib figure when every plot is a Matplotlib backend (\<open>is_mb\<close>), a panel
  \<open>GridSpec\<close> otherwise; the figure objects themselves are not modelled, only the
  mapping from grid cells (or the user's subplot specs) to plots.
\<close>

datatype ('k, 'p) fig_plan = EmptyFigure | MplFigure "('k \<times> 'p) list" | PanelFigure "('k \<times> 'p) list"

text \<open>The \<open>gs\<close> keyword: absent, a dictionary (its items in order), or another value.\<close>

datatype ('k, 'p) gs_arg = GsNone | GsDict "('k \<times> 'p) list" | GsOther

definition fig_of :: "('p \<Rightarrow> bool) \<Rightarrow> ('k \<times> 'p) list \<Rightarrow> ('k, 'p) fig_plan" where
  "fig_of is_mb mapping = (if list_all (\<lambda>kp. is_mb (snd kp)) mapping then MplFigure mapping else PanelFigure mapping)"

text \<open>
  Both modes of \<open>plotgrid(*args, nr=-1, nc=1, gs=None)\<close>.  In the second mode the first
  key of \<open>gs\<close> must be a \<open>SubplotSpec\<close> (\<open>is_spec\<close>); \<open>list(gs.keys())[0]\<close> of an
  empty dictionary raises \<open>IndexError\<close>.
\<close>

definition plotgrid_plan ::
  "('p \<Rightarrow> bool) \<Rightarrow> ('k \<Rightarrow> bool) \<Rightarrow> int \<Rightarrow> int \<Rightarrow> ('k, 'p) gs_arg \<Rightarrow> 'p list \<Rightarrow> ((nat \<times> nat, 'p) fig_plan + ('k, 'p) fig_plan) result" where
  "plotgrid_plan is_mb is_spec nr nc gs args =
     (case gs of
        GsNone \<Rightarrow> (if args = [] then Inr (Inl EmptyFigure)
                  else rbind (plotgrid_layout nr nc args) (\<lambda>mapping. Inr (Inl (fig_of is_mb mapping))))
      | GsOther \<Rightarrow> Inl TypeError
      | GsDict items \<Rightarrow>
          (case items of [] \<Rightarrow> Inl IndexError
           | (k, p) # _ \<Rightarrow> if \<not> is_spec k then Inl ValueError else Inr (Inr (fig_of is_mb items))))"

section \<open>The recursion of \<open>_nrows_ncols\<close> as a state machine\<close>

text \<open>
  With both dimensions positive, \<open>_nrows_ncols\<close> is a loop over the state \<open>(nr, nc)\<close>:
  one step (lines 22--24) adds a row while the grid is too small; the loop stops (line 25)
  in a state that holds every plot.
\<close>

inductive grid_step :: "int \<Rightarrow> int \<times> int \<Rightarrow> int \<times> int \<Rightarrow> bool" where
  grow: "0 < nr \<Longrightarrow> 0 < nc \<Longrightarrow> nr * nc < nplots \<Longrightarrow> grid_step nplots (nr, nc) (nr + 1, nc)"

inductive_cases grid_step_elim: "grid_step nplots s t"

definition grid_final :: "int \<Rightarrow> int \<times> int \<Rightarrow> bool" where
  "grid_final nplots s = (case s of (nr, nc) \<Rightarrow> 0 < nr \<and> 0 < nc \<and> nplots \<le> nr * nc)"

section \<open>The figure builders\<close>

text \<open>
  \<open>_create_mpl_figure(mapping)\<close> (lines 27--39): one subplot per item of the mapping, in
  its order, with a 3D projection exactly when the plot has series and its first series
  is 3D (\<open>series3d\<close> lists \<open>is_3D\<close> of the plot's series); the plot is rebuilt over that
  subplot with \<open>backend=MB\<close>, the figure and the axes.  The result lists, per subplot,
  its spec, whether it is 3D and the plot drawn into it.
\<close>

definition mpl_figure :: "('p \<Rightarrow> bool list) \<Rightarrow> ('k \<times> 'p) list \<Rightarrow> ('k \<times> bool \<times> 'p) list" where
  "mpl_figure series3d mapping =
     map (\<lambda>(spec, p). (spec, (case series3d p of [] \<Rightarrow> False | b # _ \<Rightarrow> b), p)) mapping"

text \<open>
  \<open>_create_panel_figure(mapping)\<close> (lines 41--47): the figure of each plot is assigned to
  the slice \<open>[rs.start:rs.stop, cs.start:cs.stop]\<close> of a panel \<open>GridSpec\<close>, where
  \<open>span\<close> gives the row and column span of a spec.
\<close>

definition panel_figure ::
  "('k \<Rightarrow> (nat \<times> nat) \<times> (nat \<times> nat)) \<Rightarrow> ('k \<times> 'p) list \<Rightarrow> (((nat \<times> nat) \<times> (nat \<times> nat)) \<times> 'p) list" where
  "panel_figure span mapping = map (\<lambda>(spec, p). (span spec, p)) mapping"

text \<open>Line 155: the spec \<open>gs[i, j]\<close> of a \<open>GridSpec\<close> spans row \<open>i\<close> and column \<open>j\<close>.\<close>

definition cell_span :: "nat \<times> nat \<Rightarrow> (nat \<times> nat) \<times> (nat \<times> nat)" where
  "cell_span ij = (case ij of (i, j) \<Rightarrow> ((i, i + 1), (j, j + 1)))"

section \<open>Lemmas\<close>

lemma ceil_div_bounds:
  assumes "0 < d"
  shows "n \<le> ceil_div n d * d" and "(ceil_div n d - 1) * d < n"
proof -
  have e: "ceil_div n d * d = n + (- n) mod d"
    using minus_mod_eq_div_mult[of "- n" d] by (simp add: ceil_div_def)
  have "0 \<le> (- n) mod d" "(- n) mod d < d" using assms by simp_all
  then show "n \<le> ceil_div n d * d" "(ceil_div n d - 1) * d < n"
    using e by (simp_all add: algebra_simps)
qed

lemma ceil_div_nonneg: "0 < d \<Longrightarrow> 0 \<le> n \<Longrightarrow> 0 \<le> ceil_div n d"
  by (simp add: ceil_div_def div_nonpos_pos_le0)

lemma nrows_ncols_bounds:
  assumes "0 \<le> nplots" and "nrows_ncols nr nc nplots = (r, c)"
  shows "0 \<le> r \<and> 0 \<le> c \<and> nplots \<le> r * c \<and>
         (nr \<le> 0 \<and> 0 < nc \<longrightarrow> c = nc \<and> (r - 1) * c < nplots) \<and>
         (0 < nr \<and> nc \<le> 0 \<longrightarrow> r = nr \<and> (c - 1) * r < nplots) \<and>
         (0 < nr \<and> 0 < nc \<longrightarrow> c = nc \<and> nr \<le> r \<and> (nr < r \<longrightarrow> (r - 1) * c < nplots))"
  using assms
proof (induction nr nc nplots arbitrary: r c rule: nrows_ncols.induct)
  case (1 nr nc nplots)
  show ?case
  proof (cases "nc \<le> 0 \<and> nr \<le> 0")
    case True then show ?thesis using "1.prems" by (simp add: nrows_ncols.simps)
  next
    case nb: False
    show ?thesis
    proof (cases "nr \<le> 0")
      case True
      then have "0 < nc" using nb by simp
      then show ?thesis using True "1.prems" ceil_div_bounds[of nc nplots] ceil_div_nonneg[of nc nplots]
        by (auto simp: nrows_ncols.simps mult.commute)
    next
      case nr: False
      show ?thesis
      proof (cases "nc \<le> 0")
        case True
        then show ?thesis using nr "1.prems" ceil_div_bounds[of nr nplots] ceil_div_nonneg[of nr nplots]
          by (auto simp: nrows_ncols.simps mult.commute)
      next
        case nc: False
        show ?thesis
        proof (cases "nr * nc < nplots")
          case lt: True
          then have rec: "nrows_ncols (nr + 1) nc nplots = (r, c)"
            using nr nc "1.prems"(2) by (simp add: nrows_ncols.simps)
          have "0 \<le> r \<and> 0 \<le> c \<and> nplots \<le> r * c \<and> c = nc \<and> nr + 1 \<le> r \<and> (nr + 1 < r \<longrightarrow> (r - 1) * c < nplots)"
            using "1.IH"[OF _ nr nc lt "1.prems"(1) rec] nb nr nc by auto
          moreover have "r = nr + 1 \<Longrightarrow> (r - 1) * c < nplots" using lt calculation by simp
          ultimately show ?thesis using nr nc by fastforce
        next
          case False
          then show ?thesis using nr nc "1.prems" by (auto simp: nrows_ncols.simps)
        qed
      qed
    qed
  qed
qed

text \<open>
  C29. \<open>_nrows_ncols\<close> returns a grid of non-negative size with room for every plot; when it computes the number of rows (or columns) from the other, one row (column) fewer would not hold them all; when both are given it keeps the columns, never shrinks the rows, and adds rows only while they are needed.
\<close>

theorem nrows_ncols_fits:
  assumes "0 \<le> nplots" and "nrows_ncols nr nc nplots = (r, c)"
  shows "0 \<le> r \<and> 0 \<le> c \<and> nplots \<le> r * c \<and>
         (nr \<le> 0 \<and> 0 < nc \<longrightarrow> c = nc \<and> (r - 1) * c < nplots) \<and>
         (0 < nr \<and> nc \<le> 0 \<longrightarrow> r = nr \<and> (c - 1) * r < nplots) \<and>
         (0 < nr \<and> 0 < nc \<longrightarrow> c = nc \<and> nr \<le> r \<and> (nr < r \<longrightarrow> (r - 1) * c < nplots))"
  using assms by (rule nrows_ncols_bounds)

lemma zip_take_length: "zip xs (take (length xs) ys) = zip xs ys"
proof (induction xs arbitrary: ys)
  case (Cons x xs) then show ?case by (cases ys) simp_all
qed simp

lemma rfold_place_cell:
  "c \<le> length args \<Longrightarrow> rfold (place_cell args) cells (acc, c) =
     (if c + length cells \<le> length args then Inr (acc @ zip cells (take (length cells) (drop c args)), c + length cells)
      else Inl IndexError)"
proof (induction cells arbitrary: acc c)
  case (Cons ij cells)
  show ?case
  proof (cases "c < length args")
    case True
    then show ?thesis using Cons.IH[of "c + 1" "acc @ [(ij, args ! c)]"]
      by (simp add: place_cell_def Cons_nth_drop_Suc[symmetric] take_Suc_Cons)
  next
    case False
    then show ?thesis by (simp add: place_cell_def)
  qed
qed simp

lemma length_grid_cells [simp]: "length (grid_cells nr nc) = nat nr * nat nc"
  by (simp add: grid_cells_def length_concat comp_def sum_list_triv)

lemma layout_eq:
  "layout nr nc args =
     (if nat nr * nat nc \<le> length args then Inr (zip (grid_cells nr nc) args) else Inl IndexError)"
  using zip_take_length[of "grid_cells nr nc" args] by (simp add: layout_def rfold_place_cell)

text \<open>
  C30. The first mode of \<open>plotgrid\<close> places the plots row by row into the grid of \<open>_nrows_ncols\<close> when the grid has exactly as many cells as there are plots, and raises IndexError in every other case, e.g. three plots with \<open>nc=2\<close>.
\<close>

theorem plotgrid_layout_exact:
  "plotgrid_layout nr nc args =
     (case nrows_ncols nr nc (int (length args)) of (r, c) \<Rightarrow>
        if r * c = int (length args) then Inr (zip (grid_cells r c) args) else Inl IndexError)"
proof -
  obtain r c where rc: "nrows_ncols nr nc (int (length args)) = (r, c)" by fastforce
  have r0: "0 \<le> r" and c0: "0 \<le> c" and fit: "int (length args) \<le> r * c"
    using nrows_ncols_bounds[OF _ rc] by simp_all
  have e: "int (nat r * nat c) = r * c" using r0 c0 by simp
  have "(nat r * nat c \<le> length args) = (int (nat r * nat c) \<le> int (length args))"
    by (rule of_nat_le_iff[symmetric])
  also have "\<dots> = (r * c = int (length args))" using e fit by auto
  finally show ?thesis by (simp add: plotgrid_layout_def rc layout_eq)
qed

lemma ceil_div_vs:
  assumes "0 < d"
  shows "nr * d < n \<Longrightarrow> nr < ceil_div n d" and "n \<le> nr * d \<Longrightarrow> ceil_div n d \<le> nr"
proof -
  note b = ceil_div_bounds[OF assms, of n]
  show "nr * d < n \<Longrightarrow> nr < ceil_div n d"
  proof -
    assume "nr * d < n"
    then have "nr * d < ceil_div n d * d" using b(1) by linarith
    then show ?thesis using assms by (simp add: mult_less_cancel_right)
  qed
  show "n \<le> nr * d \<Longrightarrow> ceil_div n d \<le> nr"
  proof -
    assume "n \<le> nr * d"
    then have "(ceil_div n d - 1) * d < nr * d" using b(2) by linarith
    then show ?thesis using assms by (simp add: mult_less_cancel_right)
  qed
qed

text \<open>
  C28. When both dimensions are given, the recursion of \<open>_nrows_ncols\<close> (one more row while the grid is too small) computes the closed form \<open>(max nr (ceil(nplots / nc)), nc)\<close>: it is equivalent to that reference definition, and so stops after \<open>max 0 (ceil(nplots / nc) - nr)\<close> calls.
\<close>

theorem nrows_ncols_closed:
  "0 < nr \<Longrightarrow> 0 < nc \<Longrightarrow> nrows_ncols nr nc nplots = (max nr (ceil_div nplots nc), nc)"
proof (induction nr nc nplots rule: nrows_ncols.induct)
  case (1 nr nc nplots)
  show ?case
  proof (cases "nr * nc < nplots")
    case True
    then have "nrows_ncols nr nc nplots = nrows_ncols (nr + 1) nc nplots"
      using "1.prems" by (simp add: nrows_ncols.simps)
    also have "\<dots> = (max (nr + 1) (ceil_div nplots nc), nc)"
      using "1.IH" "1.prems" True by simp
    also have "\<dots> = (max nr (ceil_div nplots nc), nc)"
      using ceil_div_vs(1)[OF "1.prems"(2) True] by simp
    finally show ?thesis .
  next
    case False
    then show ?thesis using "1.prems" ceil_div_vs(2)[OF "1.prems"(2), of nplots nr]
      by (simp add: nrows_ncols.simps max_def)
  qed
qed

lemma grid_cells_upt:
  "[(i, j). i \<leftarrow> [0..<R], j \<leftarrow> [0..<C]] = map (\<lambda>k. (k div C, k mod C)) [0..<R * C]"
proof (induction R)
  case (Suc R)
  have "[R * C..<Suc R * C] = map (\<lambda>j. R * C + j) [0..<C]"
    by (simp add: map_add_upt add.commute)
  moreover have "map (\<lambda>k. (k div C, k mod C)) (map (\<lambda>j. R * C + j) [0..<C]) = map (\<lambda>j. (R, j)) [0..<C]"
    by (auto simp: div_mult_self1_is_m[symmetric] add.commute)
  moreover have "[0..<Suc R * C] = [0..<R * C] @ [R * C..<Suc R * C]"
    using upt_add_eq_append[of 0 "R * C" C] by (simp add: add.commute)
  ultimately show ?case using Suc.IH by simp
qed simp

lemma grid_cells_eq: "grid_cells r c = map (\<lambda>k. (k div nat c, k mod nat c)) [0..<nat r * nat c]"
  by (simp add: grid_cells_def grid_cells_upt)

lemma plotgrid_layout_cells:
  assumes "plotgrid_layout nr nc args = Inr m"
  shows "m = map (\<lambda>k. ((k div nat (snd (nrows_ncols nr nc (int (length args)))),
                        k mod nat (snd (nrows_ncols nr nc (int (length args))))), args ! k)) [0..<length args]"
proof -
  obtain r c where rc: "nrows_ncols nr nc (int (length args)) = (r, c)" by fastforce
  from nrows_ncols_bounds[OF _ rc] have fit: "int (length args) \<le> r * c" "0 \<le> r" "0 \<le> c" by simp_all
  then have "length args \<le> nat r * nat c"
    by (metis nat_int nat_mono nat_mult_distrib)
  with assms rc have m: "m = zip (grid_cells r c) args" and le: "nat r * nat c \<le> length args"
    by (simp_all add: plotgrid_layout_def layout_eq split: if_splits)
  with \<open>length args \<le> nat r * nat c\<close> have n: "nat r * nat c = length args" by simp
  have "zip (map (\<lambda>k. (k div nat c, k mod nat c)) [0..<length args]) args =
        map (\<lambda>k. ((k div nat c, k mod nat c), args ! k)) [0..<length args]"
    by (rule nth_equalityI) simp_all
  with m n rc show ?thesis by (simp add: grid_cells_eq)
qed


lemma grid_step_det: "grid_step nplots s t \<Longrightarrow> grid_step nplots s t' \<Longrightarrow> t = t'"
  by (auto elim!: grid_step_elim)

lemma grid_steps_frame: "(grid_step nplots)\<^sup>*\<^sup>* s t \<Longrightarrow> snd t = snd s \<and> fst s \<le> fst t"
  by (induction rule: rtranclp_induct) (auto elim!: grid_step_elim)

text \<open>
  C24. Liveness of the recursion of _nrows_ncols: from every state with positive rows and columns the step relation (add a row while the grid is too small) reaches a final state that holds every plot, and that state is the value _nrows_ncols returns.
\<close>

theorem nrows_ncols_reaches:
  "0 < nr \<Longrightarrow> 0 < nc \<Longrightarrow>
   (grid_step nplots)\<^sup>*\<^sup>* (nr, nc) (nrows_ncols nr nc nplots) \<and> grid_final nplots (nrows_ncols nr nc nplots)"
proof (induction nr nc nplots rule: nrows_ncols.induct)
  case (1 nr nc nplots)
  show ?case
  proof (cases "nr * nc < nplots")
    case True
    then have eq: "nrows_ncols nr nc nplots = nrows_ncols (nr + 1) nc nplots"
      using "1.prems" by (simp add: nrows_ncols.simps)
    have "grid_step nplots (nr, nc) (nr + 1, nc)" using "1.prems" True by (rule grid_step.grow)
    moreover have "(grid_step nplots)\<^sup>*\<^sup>* (nr + 1, nc) (nrows_ncols (nr + 1) nc nplots) \<and>
                   grid_final nplots (nrows_ncols (nr + 1) nc nplots)"
      using "1.IH" "1.prems" True by simp
    ultimately show ?thesis unfolding eq by (blast intro: converse_rtranclp_into_rtranclp)
  next
    case False
    then show ?thesis using "1.prems" by (simp add: nrows_ncols.simps grid_final_def)
  qed
qed


text \<open>
  C25. In the first mode of plotgrid, the panel figure puts plot number k of the arguments into the grid slice of row k div nc and column k mod nc, for every plot and nothing else, when the layout succeeds.
\<close>

theorem plotgrid_panel_cells:
  assumes "plotgrid_plan is_mb is_spec nr nc GsNone args = Inr (Inl (PanelFigure m))"
  shows "panel_figure cell_span m =
           map (\<lambda>k. (cell_span (k div nat (snd (nrows_ncols nr nc (int (length args)))),
                               k mod nat (snd (nrows_ncols nr nc (int (length args))))), args ! k))
               [0..<length args]"
proof -
  from assms obtain mp where l: "plotgrid_layout nr nc args = Inr mp" and "m = mp"
    by (auto simp: plotgrid_plan_def fig_of_def rbind_eq_Inr_iff split: if_splits)
  with plotgrid_layout_cells[OF l] show ?thesis by (simp add: panel_figure_def)
qed

section \<open>Witnesses\<close>

lemma nrows_ncols_fits_witness:
  "nrows_ncols (-1) 2 3 = (2, 2) \<and> (3::int) \<le> 2 * 2 \<and> (2 - 1) * 2 < (3::int)"
proof -
  have h: "nrows_ncols (-1) 2 3 = (2, 2)" by (simp add: nrows_ncols.simps ceil_div_def)
  show ?thesis using nrows_ncols_fits[OF _ h] h by simp
qed

lemma plotgrid_layout_exact_witness:
  "plotgrid_layout (-1) 2 [''p1'', ''p2'', ''p3''] = Inl IndexError \<and>
   plotgrid_layout (-1) 2 [''p1'', ''p2'', ''p3'', ''p4''] =
     Inr [((0, 0), ''p1''), ((0, 1), ''p2''), ((1, 0), ''p3''), ((1, 1), ''p4'')]"
  by (simp add: plotgrid_layout_exact nrows_ncols.simps ceil_div_def grid_cells_def upt_rec)

lemma nrows_ncols_closed_witness:
  "nrows_ncols 1 2 7 = (4, 2) \<and> max (1::int) (ceil_div 7 2) = 4"
proof -
  have "max (1::int) (ceil_div 7 2) = 4" by (simp add: ceil_div_def)
  then show ?thesis using nrows_ncols_closed[of 1 2 7] by simp
qed

lemma nrows_ncols_reaches_witness:
  "(grid_step 7)\<^sup>*\<^sup>* (1, 2) (4, 2) \<and> grid_final 7 (4, 2)"
proof -
  have "nrows_ncols 1 2 7 = (4, 2)" by (simp add: nrows_ncols.simps)
  with nrows_ncols_reaches[of 1 2 7] show ?thesis by simp
qed

lemma plotgrid_panel_cells_witness:
  "plotgrid_plan (\<lambda>_. False) (\<lambda>_::nat. True) (-1) 2 GsNone [''p1'', ''p2'', ''p3'', ''p4''] =
     Inr (Inl (PanelFigure [((0, 0), ''p1''), ((0, 1), ''p2''), ((1, 0), ''p3''), ((1, 1), ''p4'')])) \<and>
   panel_figure cell_span [((0, 0), ''p1''), ((0, 1), ''p2''), ((1, 0), ''p3''), ((1, 1), ''p4'')] =
     [(((0, 1), (0, 1)), ''p1''), (((0, 1), (1, 2)), ''p2''), (((1, 2), (0, 1)), ''p3''), (((1, 2), (1, 2)), ''p4'')]"
proof -
  have n: "nrows_ncols (-1) 2 4 = (2, 2)" by (simp add: nrows_ncols.simps ceil_div_def)
  have h: "plotgrid_plan (\<lambda>_. False) (\<lambda>_::nat. True) (-1) 2 GsNone [''p1'', ''p2'', ''p3'', ''p4''] =
     Inr (Inl (PanelFigure [((0, 0), ''p1''), ((0, 1), ''p2''), ((1, 0), ''p3''), ((1, 1), ''p4'')]))"
    by (simp add: plotgrid_plan_def plotgrid_layout_def n layout_eq grid_cells_def fig_of_def upt_rec)
  from plotgrid_panel_cells[OF h] n h show ?thesis
    by (simp add: upt_conv_Cons cell_span_def)
qed


end
