(* ===== verification/Package.thy ===== *)
theory Package
  imports Complex_Main Prelude
begin

text \<open>
  The module level of the package: what executing a module's top-level statements binds,
  and what \<open>import\<close> does with it.  \<open>src/spb/defaults.py\<close> and \<open>src/spb/__init__.py\<close>
  are modelled statement by statement; of \<open>src/spb/utils.py\<close>, \<open>src/spb/complex.py\<close>
  and \<open>src/spb/ccomplex/complex.py\<close> the top level is their imports and \<open>def\<close>s.
  A module that is not in the repository (SymPy, NumPy, \<open>spb.series\<close>,
  \<open>spb.backends.*\<close>, \<open>spb.functions\<close>, \<dots>) is a parameter, the loader \<open>ext\<close>: loading it
  gives its namespace or the exception its import raises.  Repository modules are
  loaded by executing their bodies over that loader, in two layers: \<open>spb.defaults\<close> and
  \<open>spb.utils\<close> import only external modules; \<open>spb.complex\<close> and
  \<open>spb.ccomplex.complex\<close> import those two.  Python's module cache is not modelled: a
  body is deterministic, so executing it again gives the same namespace.
\<close>

section \<open>Objects, statements and their execution\<close>

datatype pyobj =
    OBool bool | OInt int | OFloat real | OStr string
  | OTuple "pyobj list" | OList "pyobj list"
  | OModule string
  | ODef string string

type_synonym namespace = "string \<rightharpoonup> pyobj"

type_synonym loader = "string \<Rightarrow> namespace result"

datatype pexpr = Lit pyobj | Name string

text \<open>
  \<open>x = e\<close>, \<open>import m as a\<close>, \<open>from m import n1 as a1, \<dots>\<close> and \<open>def f(\<dots>): \<dots>\<close>
  (which binds \<open>f\<close> to a function of the module).
\<close>

datatype stmt =
    Assign string pexpr
  | Import string string
  | ImportFrom string "(string \<times> string) list"
  | Def string

fun eval_pexpr :: "namespace \<Rightarrow> pexpr \<Rightarrow> pyobj result" where
  "eval_pexpr ns (Lit v) = Inr v"
| "eval_pexpr ns (Name x) = (case ns x of None \<Rightarrow> Inl NameError | Some v \<Rightarrow> Inr v)"

text \<open>\<open>from m import n as a, \<dots>\<close>: the names in order; a missing one raises \<open>ImportError\<close>.\<close>

definition import_names :: "namespace \<Rightarrow> (string \<times> string) list \<Rightarrow> namespace \<Rightarrow> namespace result" where
  "import_names mns names ns =
     rfold (\<lambda>(n, a) ns'. case mns n of None \<Rightarrow> Inl ImportError | Some v \<Rightarrow> Inr (ns'(a \<mapsto> v))) names ns"

fun exec_stmt :: "loader \<Rightarrow> string \<Rightarrow> stmt \<Rightarrow> namespace \<Rightarrow> namespace result" where
  "exec_stmt ld m (Assign x e) ns = rbind (eval_pexpr ns e) (\<lambda>v. Inr (ns(x \<mapsto> v)))"
| "exec_stmt ld m (Import m' a) ns = rbind (ld m') (\<lambda>_. Inr (ns(a \<mapsto> OModule m')))"
| "exec_stmt ld m (ImportFrom m' names) ns = rbind (ld m') (\<lambda>mns. import_names mns names ns)"
| "exec_stmt ld m (Def f) ns = Inr (ns(f \<mapsto> ODef m f))"

definition exec_module :: "loader \<Rightarrow> string \<Rightarrow> stmt list \<Rightarrow> namespace result" where
  "exec_module ld m body = rfold (exec_stmt ld m) body Map.empty"

text \<open>The names a statement binds.\<close>

fun stmt_binds :: "stmt \<Rightarrow> string list" where
  "stmt_binds (Assign x e) = [x]"
| "stmt_binds (Import m a) = [a]"
| "stmt_binds (ImportFrom m names) = map snd names"
| "stmt_binds (Def f) = [f]"

abbreviation imp :: "string \<Rightarrow> string list \<Rightarrow> stmt" where
  "imp m ns \<equiv> ImportFrom m (map (\<lambda>n. (n, n)) ns)"

section \<open>The modules of the repository\<close>

text \<open>\<open>src/spb/defaults.py\<close>, every statement.\<close>

definition defaults_py :: "stmt list" where
  "defaults_py =
     [Assign ''mpl_jupyterthemes'' (Lit (OBool True)),
      Assign ''plotly_theme'' (Lit (OStr ''plotly_dark'')),
      Assign ''bokeh_theme'' (Lit (OStr ''dark_minimal'')),
      Assign ''k3d_bg_color'' (Lit (OInt 16777215)),
      Assign ''mayavi_bg_color'' (Lit (OTuple [OFloat 0.22, OFloat 0.24, OFloat 0.29])),
      Assign ''mayavi_fg_color'' (Lit (OTuple [OInt 1, OInt 1, OInt 1])),
      Assign ''pyvista_theme'' (Lit (OStr ''default'')),
      Assign ''pyvista_bg_color'' (Name ''mayavi_bg_color''),
      ImportFrom ''spb.backends.plotly'' [(''PlotlyBackend'', ''TWO_D_B'')],
      ImportFrom ''spb.backends.k3d'' [(''K3DBackend'', ''THREE_D_B'')],
      ImportFrom ''spb.backends.matplotlib'' [(''MatplotlibBackend'', ''TWO_D_B'')],
      Assign ''THREE_D_B'' (Name ''TWO_D_B'')]"

text \<open>The top level of \<open>src/spb/utils.py\<close>: imports (lines 1--8) and functions.\<close>

definition utils_py :: "stmt list" where
  "utils_py =
     [imp ''sympy'' [''lambdify'', ''Tuple'', ''sympify'', ''Expr'', ''S'', ''Symbol'', ''Dummy''],
      imp ''sympy.matrices.dense'' [''DenseMatrix''],
      imp ''sympy.vector'' [''Vector'', ''BaseScalar''],
      imp ''sympy.vector.operators'' [''_get_coord_systems''],
      imp ''sympy.utilities.iterables'' [''ordered''],
      imp ''sympy.core.relational'' [''Relational''],
      imp ''sympy.logic.boolalg'' [''BooleanFunction''],
      Import ''numpy'' ''np'',
      Def ''get_lambda'', Def ''_create_ranges'', Def ''_check_arguments'', Def ''_plot_sympify'',
      Def ''_is_range'', Def ''_unpack_args'', Def ''ij2k'', Def ''get_vertices_indices'',
      Def ''_split_vector'', Def ''get_seeds_points'']"

text \<open>The top level of \<open>src/spb/ccomplex/complex.py\<close>: imports (lines 1--16) and functions.\<close>

definition ccomplex_py :: "stmt list" where
  "ccomplex_py =
     [imp ''spb.defaults'' [''cfg'', ''TWO_D_B'', ''THREE_D_B''],
      imp ''spb.functions'' [''_set_labels'', ''_plot3d_wireframe_helper''],
      imp ''spb.series'' [''LineOver1DRangeSeries'', ''ComplexSurfaceBaseSeries'',
        ''ComplexPointSeries'', ''SurfaceOver2DRangeSeries'', ''_set_discretization_points''],
      imp ''spb.interactive'' [''create_interactive_plot''],
      imp ''spb.utils'' [''_unpack_args'', ''_instantiate_backend'', ''_plot_sympify'',
        ''_check_arguments'', ''_is_range''],
      imp ''spb.vectors'' [''plot_vector''],
      imp ''sympy'' [''latex'', ''Tuple'', ''sqrt'', ''re'', ''im'', ''arg'', ''Expr'', ''Dummy'',
        ''symbols'', ''I''],
      Import ''warnings'' ''warnings'',
      Def ''_build_complex_point_series'', Def ''_build_series'', Def ''_plot_complex'',
      Def ''_set_axis_labels'', Def ''plot_real_imag'', Def ''plot_complex'',
      Def ''plot_complex_list'', Def ''plot_complex_vector'']"

text \<open>The top level of \<open>src/spb/complex.py\<close>: imports (lines 1--7) and functions.\<close>

definition complex_py :: "stmt list" where
  "complex_py =
     [imp ''sympy'' [''Tuple'', ''Expr''],
      imp ''spb.series'' [''ComplexSeries'', ''_set_discretization_points''],
      imp ''spb.vectors'' [''_preprocess''],
      imp ''spb.utils'' [''_plot_sympify''],
      imp ''spb.utils'' [''_check_arguments''],
      imp ''spb.backends.base_backend'' [''Plot''],
      imp ''spb.defaults'' [''TWO_D_B'', ''THREE_D_B''],
      Def ''_build_series'', Def ''complex_plot'']"

text \<open>\<open>src/spb/__init__.py\<close>, every statement.\<close>

definition init_py :: "stmt list" where
  "init_py =
     [imp ''spb._version'' [''__version__''],
      imp ''spb.functions'' [''plot'', ''plot_parametric'', ''plot_parametric_region'',
        ''plot_contour'', ''plot3d'', ''plot3d_parametric_line'', ''plot3d_parametric_surface'',
        ''plot3d_implicit'', ''plot3d_spherical'', ''plot3d_revolution'', ''plot_implicit'',
        ''plot_polar'', ''plot_geometry'', ''plot_list'', ''plot3d_list'', ''plot_piecewise''],
      imp ''spb.vectors'' [''plot_vector''],
      imp ''spb.ccomplex.complex'' [''plot_complex'', ''plot_complex_list'', ''plot_real_imag'',
        ''plot_complex_vector'', ''plot_riemann_sphere''],
      imp ''spb.utils'' [''prange''],
      imp ''spb.plotgrid'' [''plotgrid''],
      imp ''spb.backends.matplotlib'' [''MB''],
      imp ''spb.backends.bokeh'' [''BB''],
      imp ''spb.backends.plotly'' [''PB''],
      imp ''spb.backends.k3d'' [''KB''],
      imp ''spb.backends.mayavi'' [''MAB''],
      Assign ''__all__'' (Lit (OList (map OStr
        [''plot'', ''plot_parametric'', ''plot_parametric_region'',
         ''plot_contour'', ''plot3d'', ''plot3d_parametric_line'',
         ''plot3d_parametric_surface'', ''plot3d_implicit'', ''plot3d_spherical'',
         ''plot3d_revolution'', ''plot_implicit'', ''plot_polar'', ''plot_geometry'',
         ''plot_list'', ''plot_piecewise'', ''plot_vector'', ''plot_complex'',
         ''plot_complex_list'', ''plot_real_imag'', ''plot_complex_vector'', ''plotgrid'',
         ''MB'', ''BB'', ''PB'', ''KB'', ''MAB'', ''plot3d_list'', ''prange'',
         ''plot_riemann_sphere''])))]"

text \<open>Loading a module of the repository; any other module comes from \<open>ext\<close>.\<close>

definition load_base :: "loader \<Rightarrow> loader" where
  "load_base ext m =
     (if m = ''spb.defaults'' then exec_module ext m defaults_py
      else if m = ''spb.utils'' then exec_module ext m utils_py
      else ext m)"

definition load_repo :: "loader \<Rightarrow> loader" where
  "load_repo ext m =
     (if m = ''spb.ccomplex.complex'' then exec_module (load_base ext) m ccomplex_py
      else if m = ''spb.complex'' then exec_module (load_base ext) m complex_py
      else load_base ext m)"

text \<open>\<open>import spb\<close>: the package's \<open>__init__.py\<close> over the repository's modules.\<close>

definition import_spb :: "loader \<Rightarrow> namespace result" where
  "import_spb ext = exec_module (load_repo ext) ''spb'' init_py"

text \<open>The environment in which every external module loads and defines every name.\<close>

definition ext_total :: loader where
  "ext_total m = Inr (\<lambda>n. Some (ODef m n))"

section \<open>Namespaces\<close>

lemma import_names_dom:
  "import_names mns names ns = Inr ns' \<Longrightarrow> dom ns' \<subseteq> dom ns \<union> snd ` set names"
proof (induction names arbitrary: ns)
  case (Cons p names)
  obtain n a where p: "p = (n, a)" by fastforce
  show ?case
  proof (cases "mns n")
    case (Some v)
    with Cons.prems p have "import_names mns names (ns(a \<mapsto> v)) = Inr ns'"
      by (simp add: import_names_def)
    from Cons.IH[OF this] p show ?thesis by auto
  qed (use Cons.prems p in \<open>simp add: import_names_def\<close>)
qed (simp add: import_names_def)

lemma import_names_Inl: "import_names mns names ns = Inl e \<Longrightarrow> e = ImportError"
  unfolding import_names_def
  by (induction names arbitrary: ns) (auto simp: rbind_eq_Inl_iff split: option.splits)

lemma import_names_missing:
  assumes "(n, a) \<in> set names" and "mns n = None"
  shows "import_names mns names ns = Inl ImportError"
proof -
  have "\<exists>e. import_names mns names ns = Inl e"
    unfolding import_names_def using assms by (intro rfold_raises) auto
  then show ?thesis using import_names_Inl by blast
qed

lemma exec_stmt_dom:
  "exec_stmt ld m s ns = Inr ns' \<Longrightarrow> dom ns' \<subseteq> dom ns \<union> set (stmt_binds s)"
  by (cases s) (auto simp: rbind_eq_Inr_iff dest!: import_names_dom split: option.splits)

lemma rfold_exec_dom:
  "rfold (exec_stmt ld m) body ns = Inr ns' \<Longrightarrow> dom ns' \<subseteq> dom ns \<union> set (concat (map stmt_binds body))"
proof (induction body arbitrary: ns)
  case (Cons s body)
  then obtain ns1 where s: "exec_stmt ld m s ns = Inr ns1" and r: "rfold (exec_stmt ld m) body ns1 = Inr ns'"
    by (auto simp: rbind_eq_Inr_iff)
  from Cons.IH[OF r] exec_stmt_dom[OF s] show ?case by auto
qed simp

text \<open>
  Executing a module binds no name that one of its statements does not bind: the namespace of a module is contained in the names its assignments, imports and definitions bind.
\<close>

theorem exec_module_binds:
  "exec_module ld m body = Inr ns \<Longrightarrow> dom ns \<subseteq> set (concat (map stmt_binds body))"
  unfolding exec_module_def using rfold_exec_dom by fastforce

lemma defaults_no_cfg: "load_base ext ''spb.defaults'' = Inr ns \<Longrightarrow> ns ''cfg'' = None"
  using rfold_exec_dom[of ext "''spb.defaults''" defaults_py Map.empty ns]
  by (auto simp: load_base_def exec_module_def defaults_py_def)

section \<open>The configuration module\<close>

text \<open>
  When the three backend modules load and define their classes, spb.defaults binds TWO_D_B and THREE_D_B both to the Matplotlib backend (the Plotly and K3D imports are overwritten), aliases pyvista_bg_color to mayavi_bg_color, and binds no cfg.
\<close>

theorem defaults_backends:
  assumes "ext ''spb.backends.plotly'' = Inr pl" "pl ''PlotlyBackend'' = Some pb"
    and "ext ''spb.backends.k3d'' = Inr k3" "k3 ''K3DBackend'' = Some kb"
    and "ext ''spb.backends.matplotlib'' = Inr mp" "mp ''MatplotlibBackend'' = Some mb"
  shows "\<exists>ns. load_base ext ''spb.defaults'' = Inr ns \<and> ns ''TWO_D_B'' = Some mb \<and> ns ''THREE_D_B'' = Some mb \<and>
             ns ''pyvista_bg_color'' = ns ''mayavi_bg_color'' \<and> ns ''cfg'' = None"
  using assms by (simp add: load_base_def exec_module_def defaults_py_def import_names_def)

section \<open>Importing the package\<close>

lemma load_ccomplex_raises: "\<exists>e. load_repo ext ''spb.ccomplex.complex'' = Inl e"
proof (cases "load_base ext ''spb.defaults''")
  case (Inr mns)
  then have "mns ''cfg'' = None" by (rule defaults_no_cfg)
  then have "import_names mns (map (\<lambda>n. (n, n)) [''cfg'', ''TWO_D_B'', ''THREE_D_B'']) Map.empty = Inl ImportError"
    by (intro import_names_missing[where n = "''cfg''" and a = "''cfg''"]) simp_all
  with Inr show ?thesis by (simp add: load_repo_def exec_module_def ccomplex_py_def)
qed (simp add: load_repo_def exec_module_def ccomplex_py_def)

text \<open>
  C11. Importing the package spb raises an exception in every environment: whatever the external modules do, the import of spb.ccomplex.complex in __init__.py raises.
\<close>

theorem import_spb_raises: "\<exists>e. import_spb ext = Inl e"
proof -
  let ?s = "imp ''spb.ccomplex.complex'' [''plot_complex'', ''plot_complex_list'', ''plot_real_imag'',
        ''plot_complex_vector'', ''plot_riemann_sphere'']"
  obtain e where e: "load_repo ext ''spb.ccomplex.complex'' = Inl e"
    using load_ccomplex_raises by blast
  have "?s \<in> set init_py" by (simp add: init_py_def)
  moreover have "\<exists>e. exec_stmt (load_repo ext) ''spb'' ?s b = Inl e" for b by (simp add: e)
  ultimately show ?thesis unfolding import_spb_def exec_module_def by (rule rfold_raises)
qed

text \<open>
  C12. Importing spb.ccomplex.complex raises ImportError (its first line imports cfg, which spb.defaults does not define), unless loading spb.defaults itself raises, in which case that exception propagates.
\<close>

theorem ccomplex_import_error:
  "load_repo ext ''spb.ccomplex.complex'' = Inl ImportError \<or>
   (\<exists>e. load_base ext ''spb.defaults'' = Inl e \<and> load_repo ext ''spb.ccomplex.complex'' = Inl e)"
proof (cases "load_base ext ''spb.defaults''")
  case (Inr mns)
  then have "mns ''cfg'' = None" by (rule defaults_no_cfg)
  then have "import_names mns (map (\<lambda>n. (n, n)) [''cfg'', ''TWO_D_B'', ''THREE_D_B'']) Map.empty = Inl ImportError"
    by (intro import_names_missing[where n = "''cfg''" and a = "''cfg''"]) simp_all
  with Inr show ?thesis by (simp add: load_repo_def exec_module_def ccomplex_py_def)
qed (simp add: load_repo_def exec_module_def ccomplex_py_def)

lemma total_loader:
  assumes "\<forall>m. \<exists>mns. ext m = Inr mns \<and> (\<forall>n. mns n \<noteq> None)"
  obtains F where "\<And>m. ext m = Inr (\<lambda>n. Some (F m n))"
proof -
  have "ext m = Inr (\<lambda>n. Some (the (projr (ext m) n)))" for m
  proof -
    from assms obtain mns where "ext m = Inr mns" "\<forall>n. mns n \<noteq> None" by blast
    then show ?thesis by (auto simp: fun_eq_iff)
  qed
  then show thesis by (rule that)
qed

text \<open>
  Even when every external module loads and defines every name, import spb raises ImportError.
\<close>

theorem import_spb_total_env:
  assumes "\<forall>m. \<exists>mns. ext m = Inr mns \<and> (\<forall>n. mns n \<noteq> None)"
  shows "import_spb ext = Inl ImportError"
proof -
  obtain F where E: "\<And>m. ext m = Inr (\<lambda>n. Some (F m n))"
    using total_loader[OF assms(1)] by blast
  show ?thesis
    by (simp add: E import_spb_def load_repo_def load_base_def exec_module_def init_py_def ccomplex_py_def defaults_py_def import_names_def)
qed

text \<open>
  When every external module loads and defines every name, the body of the older module spb/complex.py executes, defines complex_plot, and binds its default backends TWO_D_B and THREE_D_B both to Matplotlib's backend class.  This is the module body alone: a Python import of spb.complex first imports the package spb, whose __init__.py raises (import_spb_raises).
\<close>

theorem complex_module_loads:
  assumes "\<forall>m. \<exists>mns. ext m = Inr mns \<and> (\<forall>n. mns n \<noteq> None)"
    and "ext ''spb.backends.matplotlib'' = Inr mp" "mp ''MatplotlibBackend'' = Some mb"
  shows "\<exists>ns. load_repo ext ''spb.complex'' = Inr ns \<and> ns ''TWO_D_B'' = Some mb \<and> ns ''THREE_D_B'' = Some mb \<and>
             ns ''complex_plot'' = Some (ODef ''spb.complex'' ''complex_plot'')"
proof -
  obtain F where E: "\<And>m. ext m = Inr (\<lambda>n. Some (F m n))"
    using total_loader[OF assms(1)] by blast
  from E[of "''spb.backends.matplotlib''"] assms(2) have "mp = (\<lambda>n. Some (F ''spb.backends.matplotlib'' n))"
    by simp
  with assms(3) have "F ''spb.backends.matplotlib'' ''MatplotlibBackend'' = mb" by simp
  then show ?thesis
    by (simp add: E load_repo_def load_base_def exec_module_def complex_py_def defaults_py_def utils_py_def import_names_def)
qed

section \<open>Witnesses\<close>

lemma import_spb_total_env_witness: "(\<forall>m. \<exists>mns. ext_total m = Inr mns \<and> (\<forall>n. mns n \<noteq> None)) \<and> import_spb ext_total = Inl ImportError"
  using import_spb_total_env[of ext_total] by (simp add: ext_total_def)

lemma exec_module_binds_witness:
  "\<not> isl (exec_module ext_total ''spb.defaults'' defaults_py) \<and>
   dom (projr (exec_module ext_total ''spb.defaults'' defaults_py)) \<subseteq> set (concat (map stmt_binds defaults_py))"
proof -
  have r: "\<not> isl (exec_module ext_total ''spb.defaults'' defaults_py)"
    by (simp add: exec_module_def defaults_py_def ext_total_def import_names_def)
  then have "exec_module ext_total ''spb.defaults'' defaults_py = Inr (projr (exec_module ext_total ''spb.defaults'' defaults_py))"
    by (cases "exec_module ext_total ''spb.defaults'' defaults_py") simp_all
  from exec_module_binds[OF this] r show ?thesis by simp
qed

lemma defaults_backends_witness:
  "\<exists>ns. load_base ext_total ''spb.defaults'' = Inr ns \<and>
        ns ''TWO_D_B'' = Some (ODef ''spb.backends.matplotlib'' ''MatplotlibBackend'') \<and>
        ns ''THREE_D_B'' = Some (ODef ''spb.backends.matplotlib'' ''MatplotlibBackend'') \<and>
        ns ''pyvista_bg_color'' = ns ''mayavi_bg_color'' \<and> ns ''cfg'' = None"
  by (rule defaults_backends) (simp_all add: ext_total_def)

lemma complex_module_loads_witness:
  "\<exists>ns. load_repo ext_total ''spb.complex'' = Inr ns \<and>
        ns ''TWO_D_B'' = Some (ODef ''spb.backends.matplotlib'' ''MatplotlibBackend'') \<and>
        ns ''THREE_D_B'' = Some (ODef ''spb.backends.matplotlib'' ''MatplotlibBackend'') \<and>
        ns ''complex_plot'' = Some (ODef ''spb.complex'' ''complex_plot'')"
  by (rule complex_module_loads) (simp_all add: ext_total_def)

end
