(* ===== verification/Spec2Isabelle.thy ===== *)
theory Spec2Isabelle
  imports Axis_Labels Seeds PlotGrid Package
begin

text \<open>
  \<^bold>\<open>A verification library for the argument and series pipeline of sympy-plot-backends.\<close>

  The program turns loosely structured plotting arguments (expressions, ranges, labels,
  keyword options) into data series and numeric arrays.  The parts modelled here, leaves
  first, and how they interact:
  \<^item> the SymPy interface (\<open>Expressions\<close>): expressions as a small datatype with the three
    capabilities the code uses (free symbols, \<open>is_number\<close>, \<open>str\<close>); \<open>Dummy()\<close> symbols
    numbered by a counter threaded through every operation that creates one; plot
    arguments after \<open>_plot_sympify\<close> (\<open>parg\<close>: expression, Python string, SymPy
    \<open>Tuple\<close>), and \<open>_plot_sympify\<close> itself (\<open>plot_sympify\<close>);
  \<^item> the range resolver \<open>_create_ranges\<close> (\<open>Ranges\<close>, \<open>src/spb/utils.py\<close> lines 31--92):
    \<open>fill_ranges\<close> and \<open>create_ranges\<close>, errors as values of \<open>py_error\<close>;
  \<^item> the argument unpacker (\<open>Arguments\<close>, \<open>utils.py\<close>): \<open>_check_arguments\<close> with its
    shared-range mode (\<open>check_args_shared\<close>) and grouped mode (\<open>check_args_groups\<close>,
    \<open>check_groups\<close>, \<open>check_group\<close>), \<open>_unpack_args\<close>, \<open>_split_vector\<close>; both modes call
    the resolver;
  \<^item> the complex series dispatcher (\<open>Complex_Dispatch\<close>, \<open>src/spb/ccomplex/complex.py\<close>):
    \<open>_build_series\<close> as its front end (\<open>build_front\<close>) and its loop over canonical tuples
    (\<open>build_one\<close>, \<open>build_loop\<close>), \<open>_plot_complex\<close>, the flag settings of
    \<open>plot_real_imag\<close> and \<open>plot_complex\<close>, and the older \<open>complex_plot\<close> of
    \<open>src/spb/complex.py\<close>, which composes with \<open>_check_arguments\<close>; (\<open>Complex_Points\<close>)
    \<open>_build_complex_point_series\<close> with \<open>plot_complex_list\<close>, and \<open>plot_complex_vector\<close>
    up to its call of \<open>plot_vector\<close>, which compose with \<open>_build_series\<close> and
    \<open>_unpack_args\<close>;
  \<^item> the mesh builder \<open>get_vertices_indices\<close> (\<open>Mesh\<close>, \<open>utils.py\<close> lines 310--340);
  \<^item> the streamline seed finder \<open>get_seeds_points\<close> (\<open>Seeds\<close>, \<open>utils.py\<close> 403--470) on
    3D arrays as nested lists of floats (finite, NaN, infinite);
  \<^item> the grid layout \<open>_nrows_ncols\<close> (also as a state machine \<open>grid_step\<close>), both modes
    of \<open>plotgrid\<close> and the figure builders \<open>_create_mpl_figure\<close> and
    \<open>_create_panel_figure\<close> over the plots' attributes (\<open>PlotGrid\<close>,
    \<open>src/spb/backends/plotgrid.py\<close>);
  \<^item> the implicit plot front end \<open>plot_implicit\<close> (\<open>Implicit\<close>, \<open>src/spb/plot_implicit.py\<close>);
  \<^item> the end of the complex pipeline (\<open>Axis_Labels\<close>): \<open>_set_axis_labels\<close> and the whole of
    \<open>_plot_complex\<close> (\<open>plot_complex_full\<close>: sympify, series, labels, backend, interactive
    plot) over an attribute function \<open>attrs\<close> for the series classes of \<open>spb.series\<close>;
  \<^item> the module level (\<open>Package\<close>): Python's execution of a module's top-level statements
    (assignment, \<open>import\<close>, \<open>from ... import\<close>, \<open>def\<close>) as a fold over a namespace
    that may raise; \<open>src/spb/defaults.py\<close> and \<open>src/spb/__init__.py\<close> statement by
    statement, the imports and \<open>def\<close>s of \<open>utils.py\<close>, \<open>complex.py\<close> and
    \<open>ccomplex/complex.py\<close>; modules outside the repository are the loader \<open>ext\<close>.
  \<open>Prelude\<close> holds the exception type, the result type \<open>py_error + 'a\<close> with \<open>rbind\<close>
  and the loop \<open>rfold\<close>, Python's \<open>str\<close> of integers and tuples, and shared list lemmas.

  Correspondence.  Every Python function is one definition of the same name (suffixed
  where HOL has the name); a nested function or a block of a long function that the
  theorems speak about is a definition of its own, named after the variable it computes.
  Keyword arguments are maps from names to values.  Python sets are finite sets, iterated
  in ascending order where the code iterates them (\<open>sym\<close> is a \<open>linorder\<close>; this
  order is the model's choice for Python's unspecified set order, and SymPy's own
  orderings, \<open>ordered\<close> in \<open>get_lambda\<close> and \<open>_sort_gens\<close> in \<open>plot_implicit\<close>, are
  parameters).  A raise,
  an unpacking of the wrong arity, an index out of range or an attribute a value lacks is
  an \<open>Inl\<close> of \<open>py_error\<close>.  Functions of modules that are not in the repository
  (\<open>spb.series\<close>, \<open>spb.functions\<close>, \<open>spb.vectors\<close>, \<open>spb.plot\<close>) and SymPy's
  \<open>complex\<close>, \<open>re\<close>, \<open>im\<close>, \<open>subs\<close> are parameters of the definitions that call them, so
  the theorems hold for every implementation of them.  In particular \<open>_set_labels\<close> and
  \<open>_plot3d_wireframe_helper\<close> of \<open>spb.functions\<close>, which \<open>_build_series\<close> and
  \<open>_build_complex_point_series\<close> call last, are the record \<open>series_ext\<close>; a theorem
  that needs them to behave states it as a hypothesis (that they add nothing to an
  empty list).

  What the lemmas show.
  \<^item> \<open>Ranges\<close>: the exact error cases of the resolver, its result (the user's ranges, then
    defaults for uncovered free symbols, then fresh dummies), freshness of the dummies and
    distinct range symbols, coverage of the free symbols and the number of ranges.
  \<^item> \<open>Arguments\<close>: the MalformedArguments check is dead; the two call conventions of the
    spec give the canonical tuples the spec expects; groups are processed in order;
    pack/unpack round trip; \<open>_split_vector\<close>; type preservation: well-typed ranges in
    (a symbol and two numbers) give well-typed ranges out, although \<open>_is_range\<close> does
    not check the symbol.
  \<^item> \<open>Complex_Dispatch\<close>, \<open>Complex_Points\<close>: one series per enabled projection in a fixed
    order, each tagged with exactly one projection; labels and series kinds on a line and on
    a 2D domain; the spec's Re/Im example; and that, composed with \<open>utils.py\<close> as it is,
    \<open>_build_series\<close> builds no series of its own (it raises unless every argument is a
    range, \<open>build_series_eq\<close>), \<open>plot_complex_list\<close> with labels raises, and
    \<open>plot_complex_vector\<close> with a scalar field raises when the external helpers add no
    series.
  \<^item> \<open>Mesh\<close>: face count, index bounds, vertex round trip, consistent orientation.
  \<^item> \<open>Seeds\<close>: refinement of \<open>get_seeds_points\<close> to a per-face specification, soundness and
    completeness of the seed set, the count for a positive field.
  \<^item> \<open>PlotGrid\<close>: the grid fits the plots and is minimal, and the recursion of
    \<open>_nrows_ncols\<close> equals a closed form; the layout raises unless the grid is full;
    \<open>plotgrid_plan\<close> models both modes down to the figure builder chosen; the step
    machine of \<open>_nrows_ncols\<close> always reaches its result (liveness), in exactly
    \<open>ceil(nplots / nc) - nr\<close> steps, after which no step applies; the panel figure puts plot \<open>k\<close> at row \<open>k div nc\<close>, column \<open>k mod nc\<close>.
  \<^item> \<open>Implicit\<close>: \<open>arg_expand\<close> equals an inductive reference definition; choice of the
    variables in the order of \<open>_sort_gens\<close>, the divergences around \<open>y_var\<close> and three
    variables; depth clamp.
  \<^item> \<open>Axis_Labels\<close>: \<open>_set_axis_labels\<close> never raises, is idempotent and touches only the
    label and aspect keys; the default labels of a line plot and the \<open>f(None)\<close> label of an
    explicit \<open>xlabel=None\<close>; the backend choice; and that \<open>_plot_complex\<close>, composed
    with \<open>_build_series\<close> as the repository has it, raises unless every argument is a
    range, and otherwise plots only what the external helpers add.
  \<^item> \<open>Package\<close>: \<open>import spb\<close> raises in every environment, because
    \<open>spb.ccomplex.complex\<close> imports \<open>cfg\<close>, which \<open>spb.defaults\<close> does not define;
    both default backends are Matplotlib's; the body of the older \<open>spb/complex.py\<close>
    executes without error, although importing it from Python runs \<open>spb/__init__.py\<close>
    first, which raises.
  The root theory composes the unpacker, the resolver and the dispatcher
  (last section).  No operation needs fuel: every loop of the code is a structural recursion or, for
  \<open>_nrows_ncols\<close>, a \<open>function\<close> with the measure \<open>nplots - nr * nc\<close>; its number of
  recursive calls is the number of \<open>grid_step\<close> steps (\<open>nrows_ncols_steps_exact\<close>).

  Not modelled, and why: the rendering backends and figure construction (glue over
  matplotlib, plotly, bokeh, k3d, panel); the series classes, discretisation and
  \<open>get_data\<close> (\<open>spb.series\<close> is not in the repository); \<open>_set_axis_labels\<close>,
  \<open>_set_labels\<close> and \<open>_plot3d_wireframe_helper\<close>, whose module is not in the
  repository (\<open>_set_axis_labels\<close> is modelled over the series' attributes, the other
  two are parameters); \<open>_instantiate_backend\<close>, which \<open>utils.py\<close> does not define,
  and SymPy's \<open>lambdify\<close>, \<open>ordered\<close> and \<open>_sort_gens\<close>, parameters; the \<open>Vector\<close> branch of \<open>_split_vector\<close>; what matplotlib and
  panel do with the subplots the figure builders create; the axis labels of \<open>plot_implicit\<close> (lines 264--270), which need the
  name of a \<open>Dummy\<close>; Python's module cache and the initialisation of parent packages
  during an import; the test suite, which tests series classes that are not in the
  repository.
\<close>

section \<open>Properties spanning components\<close>

text \<open>The unpacker and the resolver on one function and one range.\<close>

lemma check_arguments_one_function:
  assumes "free_syms e \<subseteq> {Sym a}"
  shows "check_arguments [PExpr e, rng a lo hi] 1 1 d = Inr ([([PExpr e], [as_range (rng a lo hi)], expr_str e)], d)"
proof -
  have "card (free_syms e) \<le> card {Sym a}"
    using assms(1) by (rule card_mono [rotated]) simp
  then have c: "card (free_syms e) \<le> 1" by simp
  have "create_ranges (free_syms e) [as_range (rng a lo hi)] 1 d = Inr ([as_range (rng a lo hi)], d)"
    using c assms(1) by (intro create_ranges_complete) (auto simp: range_syms_def)
  then show ?thesis
    by (simp add: check_arguments_def check_args_shared_def shared_exprs_def shared_ranges_def
        shared_label_def shared_items_def shared_item_def)
qed

text \<open>
  C14. The control flow of the spec, end to end: \<open>complex_plot(f, (a, lo, hi))\<close> of the older API, for a non-numeric function whose free symbols are among \<open>a\<close> and a range on a line, goes through \<open>_check_arguments\<close> (shared mode) and \<open>_create_ranges\<close> (the user range is kept, no dummy), and yields two complex series over that range labelled \<open>str(f)\<close>, one for the real and one for the imaginary part, with the default aspect.
\<close>

theorem complex_plot_function_line:
  assumes "\<not> expr_is_number e" "free_syms e \<subseteq> {Sym a}"
    and "is_line (crange_of cv (as_range (rng a lo hi)))" and "kw ''absarg'' = None"
  shows "complex_plot_series cv kw [PExpr e, rng a lo hi] d =
         Inr ([cseries_of (SymExpr (PExpr e)) [crange_of cv (as_range (rng a lo hi))] (expr_str e)
                 ((kw_setdefault ''aspect'' (KStr ''equal'') kw)(''real'' \<mapsto> KBool True, ''imag'' \<mapsto> KBool False)),
               cseries_of (SymExpr (PExpr e)) [crange_of cv (as_range (rng a lo hi))] (expr_str e)
                 ((kw_setdefault ''aspect'' (KStr ''equal'') kw)(''real'' \<mapsto> KBool False, ''imag'' \<mapsto> KBool True))], d)"
proof -
  let ?kw = "kw_setdefault ''aspect'' (KStr ''equal'') kw"
  have a: "?kw ''absarg'' = None" using assms(4) by (simp add: kw_setdefault_def split: option.split)
  have "all_complex [PExpr e, rng a lo hi] = Inr False"
    using assms(1) by (simp add: all_complex_eq rng_def)
  moreover have "\<not> list_all is_tuple [PExpr e, rng a lo hi]" by simp
  moreover note check_arguments_one_function[OF assms(2), of lo hi d]
  moreover note complex_plot_line[where kw = ?kw and rs = "[]" and l = "expr_str e", OF assms(1) assms(3) a]
  ultimately show ?thesis by (simp add: complex_plot_series_def Let_def)
qed

section \<open>Witnesses\<close>

lemma complex_plot_function_line_witness:
  "complex_plot_series cv_lit Map.empty [PExpr (Fn ''sqrt'' [Var zS]), rng ''z'' (-3) 3] 0 =
   Inr ([cseries_of sqrt_z [(PExpr (Var zS), (-3, 0), (3, 0))] ''sqrt(z)''
           [''aspect'' \<mapsto> KStr ''equal'', ''real'' \<mapsto> KBool True, ''imag'' \<mapsto> KBool False],
         cseries_of sqrt_z [(PExpr (Var zS), (-3, 0), (3, 0))] ''sqrt(z)''
           [''aspect'' \<mapsto> KStr ''equal'', ''real'' \<mapsto> KBool False, ''imag'' \<mapsto> KBool True]], 0)"
  using complex_plot_function_line[of "Fn ''sqrt'' [Var zS]" "''z''" cv_lit "-3" 3 Map.empty 0]
  by (simp add: rng_def is_line_def crange_of_def kw_setdefault_def sep_join.simps)

end
